theory Spec2Isabelle
  imports Complex_Main
begin

section \<open>Data model (src/types/parcel.ts)\<close>

text \<open>
  JavaScript numbers are modelled as reals: every coordinate, distance and angle is a
  finite number, as the sanitising layer in front of the analysis guarantees.  Where the
  source uses \<open>Infinity\<close> or \<open>-1\<close> as a sentinel, the model uses \<open>None\<close>.
  Strings are ASCII character lists.
\<close>

type_synonym Position = "real \<times> real"

datatype EdgeType = Frontage | Flankage | RearLane | Rear | Side

datatype RoadKind = Street | Lane

datatype LotType = CornerLot | DoubleFronting | StandardWithLane | StandardWithoutLane

datatype Confidence = High | Medium | Low

record EdgeAnalysis =
  index :: nat
  start :: Position
  end' :: Position
  midpoint :: Position
  lengthMeters :: real
  type' :: EdgeType
  roadKind :: "RoadKind option"
  roadName :: string
  roadClass :: string
  roadDistanceMeters :: "real option"
  orientationDiffDeg :: "real option"
  isRoadAdjacent :: bool
  debug :: string

record ParcelProperties =
  id' :: string
  siteId :: string
  taxCoord :: string
  civicNumber :: string
  streetName :: string
  fullAddress :: string
  lon :: real
  lat :: real

record ParcelFeature =
  coordinates :: "Position list list"
  properties :: ParcelProperties

record ParcelAnalysis =
  areaM2 :: real
  primaryStreet :: string
  lotType :: LotType
  reason :: string
  confidence :: Confidence
  edges :: "EdgeAnalysis list"

section \<open>External collaborators\<close>

text \<open>
  The Turf.js primitives, \<open>Number.prototype.toFixed\<close> and the floating-point functions of
  \<open>Math\<close> are library code outside the repository.  They are parameters of the model: every
  theorem holds for whatever these functions compute.  \<open>pointToLineDistance\<close> is only ever
  called with a two-point line, given here by its two end points; \<open>toFixed1\<close> is
  \<open>toFixed(1)\<close>.
\<close>

record Ext =
  distance :: "Position \<Rightarrow> Position \<Rightarrow> real"
  bearing :: "Position \<Rightarrow> Position \<Rightarrow> real"
  pointToLineDistance :: "Position \<Rightarrow> Position \<Rightarrow> Position \<Rightarrow> real"
  area :: "Position list list \<Rightarrow> real"
  toFixed1 :: "real \<Rightarrow> string"
  mathCos :: "real \<Rightarrow> real"
  mathPow :: "real \<Rightarrow> real \<Rightarrow> real"
  mathPI :: real

text \<open>
  A rendered vector-tile feature as the map provider returns it.  A raw coordinate is the
  list of numbers found in the GeoJSON array; properties that are not strings are absent
  from the property map.
\<close>

datatype Geometry =
    LineString "real list list"
  | MultiLineString "real list list list"
  | OtherGeometry

record GeoJSONFeature =
  geometry :: Geometry
  featureProperties :: "string \<Rightarrow> string option"
  featureSourceLayer :: "string option"

record MapboxMap =
  project :: "Position \<Rightarrow> real \<times> real"
  getZoom :: real
  queryRenderedFeatures :: "(real \<times> real) \<times> (real \<times> real) \<Rightarrow> GeoJSONFeature list"

record RoadCandidate =
  name :: string
  kind :: RoadKind
  className :: string
  sourceLayer :: string
  lines :: "Position list list"

record EvaluatedRoadCandidate = RoadCandidate +
  distanceMeters :: real
  orientationDiffDeg' :: real
  score :: real
  isAdjacent :: bool

section \<open>Constants (src/lib/geo/parcelAnalysis.ts)\<close>

definition ROAD_PROXIMITY_THRESHOLD_METERS :: real where
  "ROAD_PROXIMITY_THRESHOLD_METERS = 20"
definition LANE_PROXIMITY_THRESHOLD_METERS :: real where
  "LANE_PROXIMITY_THRESHOLD_METERS = 28"
definition ROAD_ORIENTATION_THRESHOLD_DEG :: real where
  "ROAD_ORIENTATION_THRESHOLD_DEG = 55"
definition LANE_ORIENTATION_THRESHOLD_DEG :: real where
  "LANE_ORIENTATION_THRESHOLD_DEG = 85"
definition RELAXED_FRONTAGE_STREET_DISTANCE_METERS :: real where
  "RELAXED_FRONTAGE_STREET_DISTANCE_METERS = 30"
definition RELAXED_FRONTAGE_STREET_ORIENTATION_DEG :: real where
  "RELAXED_FRONTAGE_STREET_ORIENTATION_DEG = 85"
definition RELAXED_FLANKAGE_STREET_DISTANCE_METERS :: real where
  "RELAXED_FLANKAGE_STREET_DISTANCE_METERS = 24"
definition RELAXED_FLANKAGE_STREET_ORIENTATION_DEG :: real where
  "RELAXED_FLANKAGE_STREET_ORIENTATION_DEG = 70"
definition RELAXED_LANE_DISTANCE_METERS :: real where
  "RELAXED_LANE_DISTANCE_METERS = 42"
definition RELAXED_LANE_ORIENTATION_DEG :: real where
  "RELAXED_LANE_ORIENTATION_DEG = 110"
definition EDGE_QUERY_BUFFER_METERS :: real where
  "EDGE_QUERY_BUFFER_METERS = 52"
definition MIN_QUERY_PADDING_PX :: real where
  "MIN_QUERY_PADDING_PX = 38"
definition MAX_QUERY_PADDING_PX :: real where
  "MAX_QUERY_PADDING_PX = 220"
definition OPPOSITE_EDGE_STRICT_ORIENTATION_DEG :: real where
  "OPPOSITE_EDGE_STRICT_ORIENTATION_DEG = 38"
definition OPPOSITE_EDGE_RELAXED_ORIENTATION_DEG :: real where
  "OPPOSITE_EDGE_RELAXED_ORIENTATION_DEG = 62"
definition EDGE_SELECTION_DISTANCE_TIE_METERS :: real where
  "EDGE_SELECTION_DISTANCE_TIE_METERS = 3"
definition EDGE_SELECTION_LENGTH_TIE_METERS :: real where
  "EDGE_SELECTION_LENGTH_TIE_METERS = 1"

lemmas thresholds =
  ROAD_PROXIMITY_THRESHOLD_METERS_def LANE_PROXIMITY_THRESHOLD_METERS_def
  ROAD_ORIENTATION_THRESHOLD_DEG_def LANE_ORIENTATION_THRESHOLD_DEG_def
  RELAXED_FRONTAGE_STREET_DISTANCE_METERS_def RELAXED_FRONTAGE_STREET_ORIENTATION_DEG_def
  RELAXED_FLANKAGE_STREET_DISTANCE_METERS_def RELAXED_FLANKAGE_STREET_ORIENTATION_DEG_def
  RELAXED_LANE_DISTANCE_METERS_def RELAXED_LANE_ORIENTATION_DEG_def
  EDGE_QUERY_BUFFER_METERS_def MIN_QUERY_PADDING_PX_def MAX_QUERY_PADDING_PX_def
  OPPOSITE_EDGE_STRICT_ORIENTATION_DEG_def OPPOSITE_EDGE_RELAXED_ORIENTATION_DEG_def
  EDGE_SELECTION_DISTANCE_TIE_METERS_def EDGE_SELECTION_LENGTH_TIE_METERS_def

section \<open>String primitives\<close>

text \<open>
  The regular expressions of the source are modelled by the list functions below.
  \<open>\<bsol>w\<close> is an ASCII letter, digit or underscore, \<open>\<bsol>s\<close> one of the six ASCII white-space
  characters.  A pattern \<open>\<bsol>bw\<bsol>b\<close> for a word \<open>w\<close> of word characters matches exactly the
  maximal runs of word characters that equal \<open>w\<close>.
\<close>

definition upperChars :: string where
  "upperChars = ''ABCDEFGHIJKLMNOPQRSTUVWXYZ''"

definition lowerChars :: string where
  "lowerChars = ''abcdefghijklmnopqrstuvwxyz''"

definition digitChars :: string where
  "digitChars = ''0123456789''"

definition spaceChars :: string where
  "spaceChars = [CHR '' '', CHR 0x09, CHR 0x0A, CHR 0x0B, CHR 0x0C, CHR 0x0D]"

definition isSpace :: "char \<Rightarrow> bool" where
  "isSpace c = (c \<in> set spaceChars)"

definition isDigit :: "char \<Rightarrow> bool" where
  "isDigit c = (c \<in> set digitChars)"

definition isLetter :: "char \<Rightarrow> bool" where
  "isLetter c = (c \<in> set (lowerChars @ upperChars))"

definition isWordChar :: "char \<Rightarrow> bool" where
  "isWordChar c = (c \<in> set (lowerChars @ upperChars @ digitChars @ ''_''))"

definition toLowerChar :: "char \<Rightarrow> char" where
  "toLowerChar c = (case map_of (zip upperChars lowerChars) c of Some l \<Rightarrow> l | None \<Rightarrow> c)"

definition toLowerCase :: "string \<Rightarrow> string" where
  "toLowerCase s = map toLowerChar s"

definition trim :: "string \<Rightarrow> string" where
  "trim s = rev (dropWhile isSpace (rev (dropWhile isSpace s)))"

fun startsWith :: "string \<Rightarrow> string \<Rightarrow> bool" where
  "startsWith s [] = True"
| "startsWith [] (p # ps) = False"
| "startsWith (c # cs) (p # ps) = (c = p \<and> startsWith cs ps)"

definition endsWith :: "string \<Rightarrow> string \<Rightarrow> bool" where
  "endsWith s suffix = startsWith (rev s) (rev suffix)"

text \<open>\<open>containsStr s sub\<close>: an unanchored literal pattern matches somewhere in \<open>s\<close>.\<close>

fun containsStr :: "string \<Rightarrow> string \<Rightarrow> bool" where
  "containsStr [] sub = (sub = [])"
| "containsStr (c # cs) sub = (startsWith (c # cs) sub \<or> containsStr cs sub)"

definition includesAny :: "string \<Rightarrow> string list \<Rightarrow> bool" where
  "includesAny s subs = list_ex (containsStr s) subs"

text \<open>Maximal runs of characters of the same class, in order.\<close>

fun runsBy :: "(char \<Rightarrow> bool) \<Rightarrow> string \<Rightarrow> string list" where
  "runsBy P [] = []"
| "runsBy P (c # cs) =
     (case runsBy P cs of
        [] \<Rightarrow> [[c]]
      | t # ts \<Rightarrow> (case t of
           [] \<Rightarrow> [c] # ts
         | d # ds \<Rightarrow> if P c = P d then (c # t) # ts else [c] # t # ts))"

text \<open>\<open>s.replace(/\<bsol>bw\<bsol>b/g, r)\<close>\<close>

definition replaceWord :: "string \<Rightarrow> string \<Rightarrow> string \<Rightarrow> string" where
  "replaceWord w r s = concat (map (\<lambda>t. if t = w then r else t) (runsBy isWordChar s))"

text \<open>\<open>/\<bsol>b(w1|w2|...)\<bsol>b/.test(s)\<close>\<close>

definition hasWord :: "string \<Rightarrow> string list \<Rightarrow> bool" where
  "hasWord s ws = list_ex (\<lambda>t. t \<in> set ws) (runsBy isWordChar s)"

text \<open>\<open>s.replace(/[.,]/g, ' ')\<close>\<close>

definition replacePunctuation :: "string \<Rightarrow> string" where
  "replacePunctuation s = map (\<lambda>c. if c = CHR ''.'' \<or> c = CHR '','' then CHR '' '' else c) s"

text \<open>\<open>s.replace(/\<bsol>s+/g, ' ')\<close>; the flag says that the previous character was white space.\<close>

fun collapseSpaces :: "bool \<Rightarrow> string \<Rightarrow> string" where
  "collapseSpaces inRun [] = []"
| "collapseSpaces inRun (c # cs) =
     (if isSpace c then (if inRun then collapseSpaces True cs else CHR '' '' # collapseSpaces True cs)
      else c # collapseSpaces False cs)"

text \<open>\<open>s.split(/\<bsol>s+/)\<close> for a trimmed, non-empty \<open>s\<close>.\<close>

definition splitSpaces :: "string \<Rightarrow> string list" where
  "splitSpaces s = filter (\<lambda>t. \<not> list_all isSpace t) (runsBy isSpace s)"

fun joinWith :: "string \<Rightarrow> string list \<Rightarrow> string" where
  "joinWith sep [] = []"
| "joinWith sep [t] = t"
| "joinWith sep (t # u # ts) = t @ sep @ joinWith sep (u # ts)"

section \<open>Street names\<close>

definition normalizeStreetName :: "string \<Rightarrow> string" where
  "normalizeStreetName v =
     trim (collapseSpaces False
       (replaceWord ''w'' ''west''
       (replaceWord ''e'' ''east''
       (replaceWord ''s'' ''south''
       (replaceWord ''n'' ''north''
       (replaceWord ''ln'' ''lane''
       (replaceWord ''dr'' ''drive''
       (replaceWord ''rd'' ''road''
       (replaceWord ''blvd'' ''boulevard''
       (replaceWord ''ave'' ''avenue''
       (replaceWord ''st'' ''street''
       (replacePunctuation (toLowerCase v)))))))))))))"

text \<open>\<open>/^\<bsol>d+[a-zA-Z]?$/.test(s)\<close>\<close>

definition isCivicNumber :: "string \<Rightarrow> bool" where
  "isCivicNumber s =
     (let rest = dropWhile isDigit s
      in takeWhile isDigit s \<noteq> [] \<and> (rest = [] \<or> (length rest = 1 \<and> list_all isLetter rest)))"

text \<open>The empty string is falsy: \<open>a || b\<close> on strings.\<close>

definition orElse :: "string \<Rightarrow> string \<Rightarrow> string" where
  "orElse a b = (if a = [] then b else a)"

definition extractPrimaryStreet :: "string \<Rightarrow> string \<Rightarrow> string" where
  "extractPrimaryStreet address fallbackStreetName =
     (let trimmed = trim address
      in if trimmed = [] then fallbackStreetName
         else let parts = splitSpaces trimmed
              in if length parts < 2 then orElse fallbackStreetName trimmed
                 else if isCivicNumber (hd parts) then joinWith '' '' (tl parts)
                 else orElse fallbackStreetName trimmed)"

definition suffixRoadKindFromName :: "string \<Rightarrow> RoadKind option" where
  "suffixRoadKindFromName nm =
     (let normalized = normalizeStreetName nm
      in if normalized = [] then None
         else if endsWith normalized '' lane'' then Some Lane
         else if endsWith normalized '' street'' then Some Street
         else None)"

section \<open>Geometry primitives\<close>

text \<open>The remainder operator \<open>%\<close> of JavaScript: the result has the sign of the dividend.\<close>

definition jsTrunc :: "real \<Rightarrow> int" where
  "jsTrunc x = (if 0 \<le> x then \<lfloor>x\<rfloor> else \<lceil>x\<rceil>)"

definition jsMod :: "real \<Rightarrow> real \<Rightarrow> real" where
  "jsMod a b = a - b * of_int (jsTrunc (a / b))"

definition parallelOrientationDiffDeg :: "real \<Rightarrow> real \<Rightarrow> real" where
  "parallelOrientationDiffDeg a b =
     (let aNorm = jsMod (jsMod a 360 + 360) 360;
          bNorm = jsMod (jsMod b 360 + 360) 360;
          rawDiff = \<bar>aNorm - bNorm\<bar>;
          wrappedDiff = (if rawDiff > 180 then 360 - rawDiff else rawDiff)
      in if wrappedDiff > 90 then 180 - wrappedDiff else wrappedDiff)"

text \<open>The bearing is a finite number here, so the \<open>Number.isFinite\<close> guard never fires.\<close>

definition bearingDegrees :: "Ext \<Rightarrow> Position \<Rightarrow> Position \<Rightarrow> real" where
  "bearingDegrees X s e = bearing X s e"

definition metersPerPixel :: "Ext \<Rightarrow> real \<Rightarrow> real \<Rightarrow> real" where
  "metersPerPixel X latitude zoom =
     (40075016.686 * mathCos X (latitude * mathPI X / 180)) / mathPow X 2 (zoom + 8)"

section \<open>Edge extractor\<close>

definition newEdge :: "Ext \<Rightarrow> nat \<Rightarrow> Position \<Rightarrow> Position \<Rightarrow> EdgeAnalysis" where
  "newEdge X i s e =
     \<lparr> index = i, start = s, end' = e,
       midpoint = ((fst s + fst e) / 2, (snd s + snd e) / 2),
       lengthMeters = distance X s e,
       type' = Side, roadKind = None, roadName = [], roadClass = [],
       roadDistanceMeters = None, orientationDiffDeg = None,
       isRoadAdjacent = False, debug = ''No road candidate found.'' \<rparr>"

definition toRingEdges :: "Ext \<Rightarrow> Position list \<Rightarrow> EdgeAnalysis list" where
  "toRingEdges X cs =
     (if length cs < 2 then []
      else map (\<lambda>i. newEdge X i (cs ! i) (cs ! (i + 1))) [0 ..< length cs - 1])"

section \<open>Road candidate finder\<close>

fun readStringProperty :: "(string \<Rightarrow> string option) \<Rightarrow> string list \<Rightarrow> string" where
  "readStringProperty props [] = []"
| "readStringProperty props (key # keys) =
     (case props key of
        None \<Rightarrow> readStringProperty props keys
      | Some v \<Rightarrow> if length (trim v) > 0 then trim v else readStringProperty props keys)"

definition isLineGeometry :: "Geometry \<Rightarrow> bool" where
  "isLineGeometry g = (case g of LineString _ \<Rightarrow> True | MultiLineString _ \<Rightarrow> True | OtherGeometry \<Rightarrow> False)"

fun toPosition :: "real list \<Rightarrow> Position option" where
  "toPosition (lo # la # _) = Some (lo, la)"
| "toPosition _ = None"

definition normalizeLine :: "real list list \<Rightarrow> Position list" where
  "normalizeLine rawLine =
     concat (map (\<lambda>coordinate. case toPosition coordinate of None \<Rightarrow> [] | Some position \<Rightarrow> [position]) rawLine)"

definition extractLineCollections :: "Geometry \<Rightarrow> Position list list" where
  "extractLineCollections g =
     (case g of
        LineString cs \<Rightarrow> (let line = normalizeLine cs in if length line \<ge> 2 then [line] else [])
      | MultiLineString ls \<Rightarrow> filter (\<lambda>line. length line \<ge> 2) (map normalizeLine ls)
      | OtherGeometry \<Rightarrow> [])"

text \<open>The optional separator \<open>[\<bsol>s_-]?\<close> of the bike and pedestrian vocabulary.\<close>

definition optionalSeparators :: "string list" where
  "optionalSeparators = [] # map (\<lambda>c. [c]) (spaceChars @ ''_-'')"

definition withSeparator :: "string \<Rightarrow> string \<Rightarrow> string list" where
  "withSeparator a b = map (\<lambda>sep. a @ sep @ b) optionalSeparators"

definition isBikeOrPedestrianWay :: "string \<Rightarrow> string \<Rightarrow> string \<Rightarrow> bool" where
  "isBikeOrPedestrianWay nm cls layer =
     (let joined = toLowerCase (nm @ '' '' @ cls @ '' '' @ layer)
      in includesAny joined
           ([''cycleway''] @ withSeparator ''bike'' ''lane'' @ [''bikeway'', ''greenway'']
            @ withSeparator ''shared'' ''use'' @ withSeparator ''multi'' ''use''
            @ [''footway'', ''sidewalk'', ''pedestrian'', ''crossing'', ''steps''])
         \<or> hasWord joined [''path''])"

definition roadLikeVocabulary :: "string list" where
  "roadLikeVocabulary =
     [''road'', ''street'', ''motorway'', ''residential'', ''service'', ''highway'', ''primary'',
      ''secondary'', ''tertiary'', ''trunk'', ''avenue'', ''boulevard'', ''lane'', ''alley'']"

definition explicitStreetWords :: "string list" where
  "explicitStreetWords =
     [''street'', ''avenue'', ''road'', ''drive'', ''boulevard'', ''highway'', ''parkway'', ''way'',
      ''place'', ''court'', ''crescent'', ''trail'', ''terrace'', ''connector'']"

text \<open>The locals of \<open>toRoadCandidate\<close> that decide the kind of a feature.\<close>

definition explicitLaneName :: "string \<Rightarrow> bool" where
  "explicitLaneName nm = hasWord (normalizeStreetName nm) [''lane'', ''alley'', ''alleyway'']"

definition explicitStreetName :: "string \<Rightarrow> bool" where
  "explicitStreetName nm = hasWord (normalizeStreetName nm) explicitStreetWords"

definition laneLikeClass :: "string \<Rightarrow> bool" where
  "laneLikeClass classJoined = includesAny classJoined [''lane'', ''alley'', ''driveway'', ''access'']"

definition serviceClass :: "string \<Rightarrow> bool" where
  "serviceClass classJoined = hasWord classJoined [''service'']"

definition laneLike :: "string \<Rightarrow> string \<Rightarrow> bool" where
  "laneLike nm classJoined =
     (explicitLaneName nm \<or> laneLikeClass classJoined
      \<or> (serviceClass classJoined \<and> \<not> explicitStreetName nm))"

definition inferKind :: "string \<Rightarrow> string \<Rightarrow> RoadKind" where
  "inferKind nm classJoined =
     (let suffixKind = suffixRoadKindFromName nm
      in if suffixKind = Some Lane then Lane
         else if suffixKind = Some Street then Street
         else (if laneLike nm classJoined then Lane else Street))"

definition toRoadCandidate :: "GeoJSONFeature \<Rightarrow> RoadCandidate option" where
  "toRoadCandidate feature =
     (if \<not> isLineGeometry (geometry feature) then None
      else
        let nm = readStringProperty (featureProperties feature) [''name'', ''name_en'', ''streetname'', ''ref''];
            cls = readStringProperty (featureProperties feature) [''class'', ''type'', ''road_class'', ''kind''];
            layer = (case featureSourceLayer feature of None \<Rightarrow> [] | Some l \<Rightarrow> l);
            joined = toLowerCase (nm @ '' '' @ cls @ '' '' @ layer);
            classJoined = toLowerCase (cls @ '' '' @ layer)
        in if \<not> includesAny joined roadLikeVocabulary then None
           else if isBikeOrPedestrianWay nm cls layer then None
           else
             let ls = extractLineCollections (geometry feature)
             in if length ls = 0 then None
                else Some \<lparr> name = nm, kind = inferKind nm classJoined, className = cls,
                            sourceLayer = layer, lines = ls \<rparr>)"

text \<open>Decimal rendering of the integers that appear in string keys.\<close>

fun showNat :: "nat \<Rightarrow> string" where
  "showNat n = (if n < 10 then [digitChars ! n] else showNat (n div 10) @ [digitChars ! (n mod 10)])"

declare showNat.simps [simp del]

definition showInt :: "int \<Rightarrow> string" where
  "showInt i = (if i < 0 then ''-'' @ showNat (nat (- i)) else showNat (nat i))"

definition kindString :: "RoadKind \<Rightarrow> string" where
  "kindString k = (case k of Street \<Rightarrow> ''street'' | Lane \<Rightarrow> ''lane'')"

definition candidateKey :: "RoadCandidate \<Rightarrow> string" where
  "candidateKey candidate =
     toLowerCase (name candidate) @ ''|'' @ toLowerCase (className candidate) @ ''|''
     @ kindString (kind candidate) @ ''|'' @ toLowerCase (sourceLayer candidate) @ ''|''
     @ showNat (length (lines candidate))"

fun uniqueLoop :: "string set \<Rightarrow> RoadCandidate list \<Rightarrow> RoadCandidate list" where
  "uniqueLoop seen [] = []"
| "uniqueLoop seen (candidate # rest) =
     (if candidateKey candidate \<in> seen then uniqueLoop seen rest
      else candidate # uniqueLoop (insert (candidateKey candidate) seen) rest)"

definition uniqueCandidates :: "RoadCandidate list \<Rightarrow> RoadCandidate list" where
  "uniqueCandidates candidates = uniqueLoop {} candidates"

definition edgeQueryPaddingPx :: "Ext \<Rightarrow> MapboxMap \<Rightarrow> EdgeAnalysis \<Rightarrow> real" where
  "edgeQueryPaddingPx X m edge =
     (let mpp = metersPerPixel X (snd (midpoint edge)) (getZoom m)
      in if mpp \<le> 0 then MIN_QUERY_PADDING_PX
         else max MIN_QUERY_PADDING_PX
                (min MAX_QUERY_PADDING_PX (of_int \<lceil>EDGE_QUERY_BUFFER_METERS / mpp\<rceil>)))"

definition queryGeometry :: "Ext \<Rightarrow> MapboxMap \<Rightarrow> EdgeAnalysis \<Rightarrow> (real \<times> real) \<times> (real \<times> real)" where
  "queryGeometry X m edge =
     (let startPx = project m (start edge);
          endPx = project m (end' edge);
          paddingPx = edgeQueryPaddingPx X m edge
      in ((min (fst startPx) (fst endPx) - paddingPx, min (snd startPx) (snd endPx) - paddingPx),
          (max (fst startPx) (fst endPx) + paddingPx, max (snd startPx) (snd endPx) + paddingPx)))"

definition queryRoadCandidatesForEdge :: "Ext \<Rightarrow> MapboxMap \<Rightarrow> EdgeAnalysis \<Rightarrow> RoadCandidate list" where
  "queryRoadCandidatesForEdge X m edge =
     (let features = queryRenderedFeatures m (queryGeometry X m edge);
          candidates = concat (map (\<lambda>feature. case toRoadCandidate feature of
                                       None \<Rightarrow> [] | Some candidate \<Rightarrow> [candidate]) features)
      in uniqueCandidates candidates)"

section \<open>Candidate evaluator\<close>

text \<open>
  The loop state \<open>(bestDistance, bestOrientation, foundSegment)\<close>: \<open>None\<close> is the initial
  \<open>(Infinity, Infinity, false)\<close>, against which every finite score is smaller.
\<close>

definition segmentDistance :: "Ext \<Rightarrow> EdgeAnalysis \<Rightarrow> Position \<times> Position \<Rightarrow> real" where
  "segmentDistance X edge seg = pointToLineDistance X (midpoint edge) (fst seg) (snd seg)"

definition segmentOrientation :: "Ext \<Rightarrow> EdgeAnalysis \<Rightarrow> Position \<times> Position \<Rightarrow> real" where
  "segmentOrientation X edge seg =
     parallelOrientationDiffDeg (bearingDegrees X (start edge) (end' edge))
       (bearingDegrees X (fst seg) (snd seg))"

definition segmentStep ::
  "Ext \<Rightarrow> EdgeAnalysis \<Rightarrow> (real \<times> real) option \<Rightarrow> Position \<times> Position \<Rightarrow> (real \<times> real) option" where
  "segmentStep X edge best seg =
     (let d = segmentDistance X edge seg;
          orientationDiff = segmentOrientation X edge seg;
          sc = d + orientationDiff * 0.45
      in case best of
           None \<Rightarrow> Some (d, orientationDiff)
         | Some (bestDistance, bestOrientation) \<Rightarrow>
             if sc < bestDistance + bestOrientation * 0.45 then Some (d, orientationDiff)
             else Some (bestDistance, bestOrientation))"

text \<open>The consecutive point pairs \<open>(line[i], line[i + 1])\<close> for \<open>i < line.length - 1\<close>.\<close>

definition lineSegments :: "Position list \<Rightarrow> (Position \<times> Position) list" where
  "lineSegments line = map (\<lambda>i. (line ! i, line ! (i + 1))) [0 ..< length line - 1]"

definition bestOverLines ::
  "Ext \<Rightarrow> EdgeAnalysis \<Rightarrow> Position list list \<Rightarrow> (real \<times> real) option" where
  "bestOverLines X edge ls =
     foldl (\<lambda>best line. foldl (segmentStep X edge) best (lineSegments line)) None ls"

text \<open>The object that the evaluator returns once a segment has been found.\<close>

definition evaluated :: "RoadCandidate \<Rightarrow> real \<Rightarrow> real \<Rightarrow> EvaluatedRoadCandidate" where
  "evaluated candidate bestDistance bestOrientation =
     (let distanceThreshold = (if kind candidate = Lane then LANE_PROXIMITY_THRESHOLD_METERS
                               else ROAD_PROXIMITY_THRESHOLD_METERS);
          orientationThreshold = (if kind candidate = Lane then LANE_ORIENTATION_THRESHOLD_DEG
                                  else ROAD_ORIENTATION_THRESHOLD_DEG)
      in \<lparr> name = name candidate, kind = kind candidate, className = className candidate,
           sourceLayer = sourceLayer candidate, lines = lines candidate,
           distanceMeters = bestDistance,
           orientationDiffDeg' = bestOrientation,
           score = bestDistance + bestOrientation * 0.45,
           isAdjacent = (bestDistance \<le> distanceThreshold \<and> bestOrientation \<le> orientationThreshold) \<rparr>)"

definition evaluateRoadCandidateForEdge ::
  "Ext \<Rightarrow> EdgeAnalysis \<Rightarrow> RoadCandidate \<Rightarrow> EvaluatedRoadCandidate option" where
  "evaluateRoadCandidateForEdge X edge candidate =
     (case bestOverLines X edge (lines candidate) of
        None \<Rightarrow> None
      | Some (bestDistance, bestOrientation) \<Rightarrow> Some (evaluated candidate bestDistance bestOrientation))"

text \<open>
  \<open>Array.prototype.sort\<close> with a comparator is a stable sort: an element stays in front
  of the later elements it does not compare greater than.
\<close>

fun insertSorted :: "('a \<Rightarrow> 'a \<Rightarrow> real) \<Rightarrow> 'a \<Rightarrow> 'a list \<Rightarrow> 'a list" where
  "insertSorted cmp x [] = [x]"
| "insertSorted cmp x (y # ys) = (if cmp x y \<le> 0 then x # y # ys else y # insertSorted cmp x ys)"

definition arraySort :: "('a \<Rightarrow> 'a \<Rightarrow> real) \<Rightarrow> 'a list \<Rightarrow> 'a list" where
  "arraySort cmp xs = foldr (insertSorted cmp) xs []"

definition compareEvaluated :: "EvaluatedRoadCandidate \<Rightarrow> EvaluatedRoadCandidate \<Rightarrow> real" where
  "compareEvaluated a b =
     (if score a \<noteq> score b then score a - score b else distanceMeters a - distanceMeters b)"

definition evaluateAll ::
  "Ext \<Rightarrow> EdgeAnalysis \<Rightarrow> RoadCandidate list \<Rightarrow> EvaluatedRoadCandidate list" where
  "evaluateAll X edge candidates =
     concat (map (\<lambda>candidate. case evaluateRoadCandidateForEdge X edge candidate of
                    None \<Rightarrow> [] | Some match \<Rightarrow> [match]) candidates)"

definition findEvaluatedRoadCandidatesForEdge ::
  "Ext \<Rightarrow> MapboxMap \<Rightarrow> EdgeAnalysis \<Rightarrow> EvaluatedRoadCandidate list" where
  "findEvaluatedRoadCandidatesForEdge X m edge =
     (let candidates = queryRoadCandidatesForEdge X m edge
      in if length candidates = 0 then []
         else arraySort compareEvaluated (evaluateAll X edge candidates))"

section \<open>Classifier\<close>

definition dquote :: string where
  "dquote = [CHR 0x22]"

definition applyMatchToEdge :: "Ext \<Rightarrow> EdgeAnalysis \<Rightarrow> EvaluatedRoadCandidate \<Rightarrow> EdgeAnalysis" where
  "applyMatchToEdge X edge match =
     edge \<lparr> roadName := name match,
            roadClass := className match,
            roadDistanceMeters := Some (distanceMeters match),
            orientationDiffDeg := Some (orientationDiffDeg' match),
            isRoadAdjacent := isAdjacent match,
            roadKind := (if isAdjacent match then Some (kind match) else None),
            debug := (if isAdjacent match
              then ''Adjacent to '' @ kindString (kind match) @ '' '' @ dquote
                   @ orElse (name match) ''unnamed'' @ dquote @ '' at ''
                   @ toFixed1 X (distanceMeters match) @ ''m, orientation diff ''
                   @ toFixed1 X (orientationDiffDeg' match) @ ''deg.''
              else ''Nearest road '' @ dquote @ orElse (name match) ''unnamed'' @ dquote @ '' at ''
                   @ toFixed1 X (distanceMeters match) @ ''m (not adjacent threshold).'') \<rparr>"

datatype StreetRelaxMode = FrontageMode | FlankageMode

definition isRelaxedStreetCandidateForMode :: "EvaluatedRoadCandidate \<Rightarrow> StreetRelaxMode \<Rightarrow> bool" where
  "isRelaxedStreetCandidateForMode candidate mode =
     (if kind candidate \<noteq> Street then False
      else if mode = FrontageMode
        then distanceMeters candidate \<le> RELAXED_FRONTAGE_STREET_DISTANCE_METERS
             \<and> orientationDiffDeg' candidate \<le> RELAXED_FRONTAGE_STREET_ORIENTATION_DEG
        else distanceMeters candidate \<le> RELAXED_FLANKAGE_STREET_DISTANCE_METERS
             \<and> orientationDiffDeg' candidate \<le> RELAXED_FLANKAGE_STREET_ORIENTATION_DEG)"

definition isRelaxedLaneCandidate :: "EvaluatedRoadCandidate \<Rightarrow> bool" where
  "isRelaxedLaneCandidate candidate =
     (if kind candidate \<noteq> Lane then False
      else distanceMeters candidate \<le> RELAXED_LANE_DISTANCE_METERS
           \<and> orientationDiffDeg' candidate \<le> RELAXED_LANE_ORIENTATION_DEG)"

fun firstAdjacentStreet ::
  "EvaluatedRoadCandidate list \<Rightarrow> bool \<Rightarrow> StreetRelaxMode \<Rightarrow> EvaluatedRoadCandidate option" where
  "firstAdjacentStreet [] allowRelaxed relaxMode = None"
| "firstAdjacentStreet (candidate # rest) allowRelaxed relaxMode =
     (if kind candidate \<noteq> Street then firstAdjacentStreet rest allowRelaxed relaxMode
      else if isAdjacent candidate then Some candidate
      else if allowRelaxed \<and> isRelaxedStreetCandidateForMode candidate relaxMode then Some candidate
      else firstAdjacentStreet rest allowRelaxed relaxMode)"

fun firstAdjacentLane ::
  "EvaluatedRoadCandidate list \<Rightarrow> bool \<Rightarrow> EvaluatedRoadCandidate option" where
  "firstAdjacentLane [] allowRelaxed = None"
| "firstAdjacentLane (candidate # rest) allowRelaxed =
     (if kind candidate \<noteq> Lane then firstAdjacentLane rest allowRelaxed
      else if isAdjacent candidate then Some candidate
      else if allowRelaxed \<and> isRelaxedLaneCandidate candidate then Some candidate
      else firstAdjacentLane rest allowRelaxed)"

fun byNameLoop ::
  "EvaluatedRoadCandidate list \<Rightarrow> string \<Rightarrow> bool \<Rightarrow> StreetRelaxMode \<Rightarrow> EvaluatedRoadCandidate option" where
  "byNameLoop [] normalizedStreet allowRelaxed relaxMode = None"
| "byNameLoop (candidate # rest) normalizedStreet allowRelaxed relaxMode =
     (if kind candidate \<noteq> Street then byNameLoop rest normalizedStreet allowRelaxed relaxMode
      else if normalizeStreetName (name candidate) \<noteq> normalizedStreet
        then byNameLoop rest normalizedStreet allowRelaxed relaxMode
      else if isAdjacent candidate then Some candidate
      else if allowRelaxed \<and> isRelaxedStreetCandidateForMode candidate relaxMode then Some candidate
      else byNameLoop rest normalizedStreet allowRelaxed relaxMode)"

definition firstAdjacentStreetByName ::
  "EvaluatedRoadCandidate list \<Rightarrow> string \<Rightarrow> bool \<Rightarrow> StreetRelaxMode \<Rightarrow> EvaluatedRoadCandidate option" where
  "firstAdjacentStreetByName candidates normalizedStreet allowRelaxed relaxMode =
     (if normalizedStreet = [] then None
      else byNameLoop candidates normalizedStreet allowRelaxed relaxMode)"

fun firstDifferentStreetCandidate ::
  "EvaluatedRoadCandidate list \<Rightarrow> string \<Rightarrow> bool \<Rightarrow> EvaluatedRoadCandidate option" where
  "firstDifferentStreetCandidate [] normalizedBaseStreet allowRelaxed = None"
| "firstDifferentStreetCandidate (candidate # rest) normalizedBaseStreet allowRelaxed =
     (if kind candidate \<noteq> Street
        then firstDifferentStreetCandidate rest normalizedBaseStreet allowRelaxed
      else if normalizeStreetName (name candidate) = []
        then firstDifferentStreetCandidate rest normalizedBaseStreet allowRelaxed
      else if normalizedBaseStreet \<noteq> [] \<and> normalizeStreetName (name candidate) = normalizedBaseStreet
        then firstDifferentStreetCandidate rest normalizedBaseStreet allowRelaxed
      else if isAdjacent candidate then Some candidate
      else if allowRelaxed \<and> isRelaxedStreetCandidateForMode candidate FlankageMode
        then Some candidate
      else firstDifferentStreetCandidate rest normalizedBaseStreet allowRelaxed)"

text \<open>
  The edge objects are shared by every array that holds them.  A reference to an edge is its
  position in \<open>edges\<close>, which \<open>toRingEdges\<close> stores in the field \<open>index\<close>; a mutation through
  a reference is an update of the array at that position.  \<open>edgeAt\<close> is
  \<open>edges[i] ?? null\<close>.
\<close>

definition edgeAt :: "EdgeAnalysis list \<Rightarrow> nat \<Rightarrow> EdgeAnalysis option" where
  "edgeAt es i = (if i < length es then Some (es ! i) else None)"

definition updateEdge ::
  "EdgeAnalysis list \<Rightarrow> nat \<Rightarrow> (EdgeAnalysis \<Rightarrow> EdgeAnalysis) \<Rightarrow> EdgeAnalysis list" where
  "updateEdge es i f = (if i < length es then es[i := f (es ! i)] else es)"

type_synonym EdgeMatches = "nat \<Rightarrow> EvaluatedRoadCandidate list option"

text \<open>\<open>edgeMatches.get(i) ?? []\<close>\<close>

definition matchesOf :: "EdgeMatches \<Rightarrow> nat \<Rightarrow> EvaluatedRoadCandidate list" where
  "matchesOf edgeMatches i = (case edgeMatches i of None \<Rightarrow> [] | Some ms \<Rightarrow> ms)"

record OppositeCandidate =
  ocIndex :: nat
  ocOrientationDiffDeg :: real
  perpendicularDistanceMeters :: real
  midpointDistanceMeters :: real
  ocScore :: real

definition oppositeCandidates :: "Ext \<Rightarrow> EdgeAnalysis list \<Rightarrow> nat \<Rightarrow> EdgeAnalysis \<Rightarrow> OppositeCandidate list" where
  "oppositeCandidates X es frontageIndex frontage =
     map (\<lambda>edge.
            \<lparr> ocIndex = index edge,
              ocOrientationDiffDeg =
                parallelOrientationDiffDeg (bearingDegrees X (start frontage) (end' frontage))
                  (bearingDegrees X (start edge) (end' edge)),
              perpendicularDistanceMeters =
                pointToLineDistance X (midpoint edge) (start frontage) (end' frontage),
              midpointDistanceMeters = distance X (midpoint frontage) (midpoint edge),
              ocScore = pointToLineDistance X (midpoint edge) (start frontage) (end' frontage)
                        + distance X (midpoint frontage) (midpoint edge) * 0.2 \<rparr>)
         (filter (\<lambda>edge. index edge \<noteq> frontageIndex) es)"

definition compareOpposite :: "OppositeCandidate \<Rightarrow> OppositeCandidate \<Rightarrow> real" where
  "compareOpposite a b =
     (if ocScore a \<noteq> ocScore b then ocScore b - ocScore a
      else if perpendicularDistanceMeters a \<noteq> perpendicularDistanceMeters b
        then perpendicularDistanceMeters b - perpendicularDistanceMeters a
      else midpointDistanceMeters b - midpointDistanceMeters a)"

definition chooseBestOppositeWithinOrientation :: "OppositeCandidate list \<Rightarrow> real \<Rightarrow> nat option" where
  "chooseBestOppositeWithinOrientation candidates maxOrientationDiffDeg =
     (let oriented = filter (\<lambda>candidate. ocOrientationDiffDeg candidate \<le> maxOrientationDiffDeg) candidates
      in if length oriented = 0 then None
         else (case arraySort compareOpposite oriented of [] \<Rightarrow> None | c # _ \<Rightarrow> Some (ocIndex c)))"

text \<open>The last fallback: the state is \<open>(bestIndex, farthestDistance)\<close>, initially \<open>(-1, -1)\<close>.\<close>

definition farthestStep ::
  "Ext \<Rightarrow> nat \<Rightarrow> EdgeAnalysis \<Rightarrow> nat option \<times> real \<Rightarrow> EdgeAnalysis \<Rightarrow> nat option \<times> real" where
  "farthestStep X frontageIndex frontage st edge =
     (if index edge = frontageIndex then st
      else let d = distance X (midpoint frontage) (midpoint edge)
           in if d > snd st then (Some (index edge), d) else st)"

definition findOppositeEdgeIndex :: "Ext \<Rightarrow> EdgeAnalysis list \<Rightarrow> nat \<Rightarrow> nat option" where
  "findOppositeEdgeIndex X es frontageIndex =
     (case edgeAt es frontageIndex of
        None \<Rightarrow> None
      | Some frontage \<Rightarrow>
          let candidates = oppositeCandidates X es frontageIndex frontage
          in case chooseBestOppositeWithinOrientation candidates OPPOSITE_EDGE_STRICT_ORIENTATION_DEG of
               Some strictOpposite \<Rightarrow> Some strictOpposite
             | None \<Rightarrow>
                (case chooseBestOppositeWithinOrientation candidates OPPOSITE_EDGE_RELAXED_ORIENTATION_DEG of
                   Some relaxedOpposite \<Rightarrow> Some relaxedOpposite
                 | None \<Rightarrow> fst (foldl (farthestStep X frontageIndex frontage) (None, - 1) es)))"

definition candidateFor ::
  "EdgeMatches \<Rightarrow> string \<Rightarrow> bool \<Rightarrow> StreetRelaxMode \<Rightarrow> EdgeAnalysis \<Rightarrow> EvaluatedRoadCandidate option" where
  "candidateFor edgeMatches normalizedStreet allowRelaxed relaxMode edge =
     (let matches = matchesOf edgeMatches (index edge)
      in if normalizedStreet \<noteq> []
           then firstAdjacentStreetByName matches normalizedStreet allowRelaxed relaxMode
           else firstAdjacentStreet matches allowRelaxed relaxMode)"

definition selectStep ::
  "EdgeMatches \<Rightarrow> string \<Rightarrow> bool \<Rightarrow> StreetRelaxMode
     \<Rightarrow> (EdgeAnalysis \<times> EvaluatedRoadCandidate) option \<Rightarrow> EdgeAnalysis
     \<Rightarrow> (EdgeAnalysis \<times> EvaluatedRoadCandidate) option" where
  "selectStep edgeMatches normalizedStreet allowRelaxed relaxMode best edge =
     (case candidateFor edgeMatches normalizedStreet allowRelaxed relaxMode edge of
        None \<Rightarrow> best
      | Some candidate \<Rightarrow>
         (case best of
            None \<Rightarrow> Some (edge, candidate)
          | Some (bestEdge, bestCandidate) \<Rightarrow>
              let distanceDelta = distanceMeters candidate - distanceMeters bestCandidate
              in if distanceDelta < - EDGE_SELECTION_DISTANCE_TIE_METERS then Some (edge, candidate)
                 else if distanceDelta > EDGE_SELECTION_DISTANCE_TIE_METERS then best
                 else
                   let lengthDelta = lengthMeters edge - lengthMeters bestEdge
                   in if lengthDelta > EDGE_SELECTION_LENGTH_TIE_METERS then Some (edge, candidate)
                      else if lengthDelta < - EDGE_SELECTION_LENGTH_TIE_METERS then best
                      else if orientationDiffDeg' candidate < orientationDiffDeg' bestCandidate
                        then Some (edge, candidate)
                      else best))"

text \<open>An absent \<open>normalizedStreet\<close> option is the empty string.\<close>

definition selectNearestEdgeByStreetCandidate ::
  "EdgeAnalysis list \<Rightarrow> EdgeMatches \<Rightarrow> string \<Rightarrow> bool \<Rightarrow> StreetRelaxMode \<Rightarrow> EdgeAnalysis option" where
  "selectNearestEdgeByStreetCandidate es edgeMatches normalizedStreet allowRelaxed relaxMode =
     (if length es = 0 then None
      else map_option fst
             (foldl (selectStep edgeMatches normalizedStreet allowRelaxed relaxMode) None es))"

section \<open>Lot-type resolver\<close>

definition determineLotType :: "bool \<Rightarrow> bool \<Rightarrow> EdgeAnalysis option \<Rightarrow> LotType \<times> string" where
  "determineLotType hasFlankage isDoubleFronting oppositeEdge =
     (if hasFlankage
        then (CornerLot, ''Has frontage and at least one flankage edge on a different street.'')
      else if isDoubleFronting
        then (DoubleFronting, ''Frontage and opposite edge both face different streets (not lanes).'')
      else if (case oppositeEdge of None \<Rightarrow> False
               | Some oe \<Rightarrow> isRoadAdjacent oe \<and> roadKind oe = Some Lane)
        then (StandardWithLane, ''Frontage present and opposite edge is adjacent to a lane/alley.'')
      else (StandardWithoutLane, ''Frontage present and opposite side is not adjacent to a lane.''))"

section \<open>The passes of analyzeParcel\<close>

text \<open>
  Each pass takes the \<open>edges\<close> array and returns it updated, with what the pass computed.
\<close>

definition defaultMatch :: "EvaluatedRoadCandidate list \<Rightarrow> EvaluatedRoadCandidate option" where
  "defaultMatch matches =
     (case firstAdjacentStreet matches False FrontageMode of
        Some c \<Rightarrow> Some c
      | None \<Rightarrow> (case find isAdjacent matches of
                   Some c \<Rightarrow> Some c
                 | None \<Rightarrow> (case matches of [] \<Rightarrow> None | c # _ \<Rightarrow> Some c)))"

definition stampDefault :: "Ext \<Rightarrow> EvaluatedRoadCandidate list \<Rightarrow> EdgeAnalysis \<Rightarrow> EdgeAnalysis" where
  "stampDefault X matches edge =
     (case defaultMatch matches of
        None \<Rightarrow> edge \<lparr> debug := ''No road candidate found near edge centerline.'' \<rparr>
      | Some dm \<Rightarrow> applyMatchToEdge X edge dm)"

fun defaultLoop ::
  "Ext \<Rightarrow> MapboxMap \<Rightarrow> EdgeAnalysis list \<Rightarrow> EdgeMatches \<Rightarrow> EdgeAnalysis list \<times> EdgeMatches" where
  "defaultLoop X m [] edgeMatches = ([], edgeMatches)"
| "defaultLoop X m (edge # rest) edgeMatches =
     (let matches = findEvaluatedRoadCandidatesForEdge X m edge;
          r = defaultLoop X m rest (edgeMatches(index edge \<mapsto> matches))
      in (stampDefault X matches edge # fst r, snd r))"

definition defaultPass ::
  "Ext \<Rightarrow> MapboxMap option \<Rightarrow> EdgeAnalysis list \<Rightarrow> EdgeAnalysis list \<times> EdgeMatches" where
  "defaultPass X mapOpt es =
     (case mapOpt of None \<Rightarrow> (es, Map.empty) | Some m \<Rightarrow> defaultLoop X m es Map.empty)"

definition hasStreetCandidate :: "EdgeMatches \<Rightarrow> bool \<Rightarrow> EdgeAnalysis \<Rightarrow> bool" where
  "hasStreetCandidate edgeMatches allowRelaxed edge =
     (firstAdjacentStreet (matchesOf edgeMatches (index edge)) allowRelaxed FrontageMode \<noteq> None)"

definition candidateStreetEdgesOf :: "EdgeAnalysis list \<Rightarrow> EdgeMatches \<Rightarrow> EdgeAnalysis list" where
  "candidateStreetEdgesOf es edgeMatches =
     (let strictCandidateStreetEdges = filter (hasStreetCandidate edgeMatches False) es;
          relaxedCandidateStreetEdges = filter (hasStreetCandidate edgeMatches True) es
      in if length strictCandidateStreetEdges > 0 then strictCandidateStreetEdges
         else relaxedCandidateStreetEdges)"

text \<open>\<open>a ?? b\<close> on a nullable reference.\<close>

definition orElseOpt :: "'a option \<Rightarrow> 'a option \<Rightarrow> 'a option" where
  "orElseOpt a b = (case a of Some x \<Rightarrow> Some x | None \<Rightarrow> b)"

text \<open>The selection by the declared primary street, strict first and relaxed after.\<close>

definition frontageByPrimaryStreet ::
  "EdgeAnalysis list \<Rightarrow> EdgeMatches \<Rightarrow> string \<Rightarrow> EdgeAnalysis option" where
  "frontageByPrimaryStreet es edgeMatches normalizedPrimaryStreet =
     (if normalizedPrimaryStreet \<noteq> []
        then orElseOpt
               (selectNearestEdgeByStreetCandidate es edgeMatches normalizedPrimaryStreet False FrontageMode)
               (selectNearestEdgeByStreetCandidate es edgeMatches normalizedPrimaryStreet True FrontageMode)
      else None)"

text \<open>\<open>edges.reduce((best, current) => current.lengthMeters > best.lengthMeters ? current : best)\<close>\<close>

definition longestEdge :: "EdgeAnalysis list \<Rightarrow> EdgeAnalysis option" where
  "longestEdge es =
     (case es of
        [] \<Rightarrow> None
      | e # rest \<Rightarrow>
          Some (foldl (\<lambda>best current. if lengthMeters current > lengthMeters best then current else best)
                  e rest))"

definition selectFrontage ::
  "EdgeAnalysis list \<Rightarrow> EdgeMatches \<Rightarrow> string \<Rightarrow> EdgeAnalysis option" where
  "selectFrontage es edgeMatches normalizedPrimaryStreet =
     (let candidateStreetEdges = candidateStreetEdgesOf es edgeMatches
      in orElseOpt (frontageByPrimaryStreet es edgeMatches normalizedPrimaryStreet)
           (orElseOpt (selectNearestEdgeByStreetCandidate candidateStreetEdges edgeMatches [] False FrontageMode)
             (orElseOpt (selectNearestEdgeByStreetCandidate candidateStreetEdges edgeMatches [] True FrontageMode)
               (longestEdge es))))"

definition forceStreet :: "EdgeAnalysis \<Rightarrow> EdgeAnalysis" where
  "forceStreet edge = edge \<lparr> isRoadAdjacent := True, roadKind := Some Street \<rparr>"

definition stampFrontage :: "Ext \<Rightarrow> EdgeMatches \<Rightarrow> string \<Rightarrow> EdgeAnalysis \<Rightarrow> EdgeAnalysis" where
  "stampFrontage X edgeMatches normalizedPrimaryStreet frontageEdge =
     (let fe = frontageEdge \<lparr> type' := Frontage \<rparr>;
          frontageMatches = matchesOf edgeMatches (index frontageEdge);
          frontageStreetMatch =
            orElseOpt (firstAdjacentStreetByName frontageMatches normalizedPrimaryStreet True FrontageMode)
              (firstAdjacentStreet frontageMatches True FrontageMode)
      in case frontageStreetMatch of
           None \<Rightarrow> fe
         | Some c \<Rightarrow> forceStreet (applyMatchToEdge X fe c))"

definition frontagePass ::
  "Ext \<Rightarrow> EdgeMatches \<Rightarrow> string \<Rightarrow> nat option \<Rightarrow> EdgeAnalysis list \<Rightarrow> EdgeAnalysis list" where
  "frontagePass X edgeMatches normalizedPrimaryStreet frontageIndex es =
     (case frontageIndex of
        None \<Rightarrow> es
      | Some fi \<Rightarrow> updateEdge es fi (stampFrontage X edgeMatches normalizedPrimaryStreet))"

text \<open>\<open>edges[i] ?? null\<close> for an index that may be the sentinel.\<close>

definition edgeAtOpt :: "EdgeAnalysis list \<Rightarrow> nat option \<Rightarrow> EdgeAnalysis option" where
  "edgeAtOpt es i = (case i of None \<Rightarrow> None | Some k \<Rightarrow> edgeAt es k)"

text \<open>\<open>normalizeStreetName(frontageEdge?.roadName ?? '') || normalizedPrimaryStreet\<close>\<close>

definition frontageStreetOf :: "EdgeAnalysis list \<Rightarrow> nat option \<Rightarrow> string \<Rightarrow> string" where
  "frontageStreetOf es frontageIndex normalizedPrimaryStreet =
     orElse (normalizeStreetName (case edgeAtOpt es frontageIndex of None \<Rightarrow> [] | Some fe \<Rightarrow> roadName fe))
       normalizedPrimaryStreet"

definition doubleFrontingCandidate ::
  "EdgeMatches \<Rightarrow> string \<Rightarrow> EdgeAnalysis option \<Rightarrow> EdgeAnalysis option \<Rightarrow> EvaluatedRoadCandidate option" where
  "doubleFrontingCandidate edgeMatches frontageStreetNormalized frontageEdge oppositeEdge =
     (case (frontageEdge, oppositeEdge) of
        (Some fe, Some oe) \<Rightarrow>
          if edgeMatches (index oe) \<noteq> None then
            (case firstAdjacentStreet (matchesOf edgeMatches (index oe)) True FrontageMode of
               None \<Rightarrow> None
             | Some oppositeStreetCandidate \<Rightarrow>
                 let oppositeStreet = normalizeStreetName (name oppositeStreetCandidate)
                 in if oppositeStreet \<noteq> [] \<and> frontageStreetNormalized \<noteq> []
                       \<and> oppositeStreet \<noteq> frontageStreetNormalized
                    then Some oppositeStreetCandidate else None)
          else None
      | _ \<Rightarrow> None)"

definition doubleFrontingPass ::
  "Ext \<Rightarrow> EdgeMatches \<Rightarrow> string \<Rightarrow> nat option \<Rightarrow> nat option \<Rightarrow> EdgeAnalysis list
     \<Rightarrow> EdgeAnalysis list \<times> bool" where
  "doubleFrontingPass X edgeMatches normalizedPrimaryStreet frontageIndex oppositeIndex es =
     (case oppositeIndex of
        None \<Rightarrow> (es, False)
      | Some oi \<Rightarrow>
         (case doubleFrontingCandidate edgeMatches
                 (frontageStreetOf es frontageIndex normalizedPrimaryStreet)
                 (edgeAtOpt es frontageIndex) (edgeAt es oi) of
            None \<Rightarrow> (es, False)
          | Some oppositeStreetCandidate \<Rightarrow>
              (updateEdge es oi
                 (\<lambda>oe. forceStreet (applyMatchToEdge X (oe \<lparr> type' := Frontage \<rparr>) oppositeStreetCandidate)),
               True)))"

fun applyFlankage ::
  "Ext \<Rightarrow> EdgeMatches \<Rightarrow> nat option \<Rightarrow> nat option \<Rightarrow> string \<Rightarrow> bool \<Rightarrow> EdgeAnalysis list
     \<Rightarrow> EdgeAnalysis list \<times> nat" where
  "applyFlankage X edgeMatches frontageIndex oppositeIndex baseFrontageStreet allowRelaxed [] = ([], 0)"
| "applyFlankage X edgeMatches frontageIndex oppositeIndex baseFrontageStreet allowRelaxed (edge # rest) =
     (let r = applyFlankage X edgeMatches frontageIndex oppositeIndex baseFrontageStreet allowRelaxed rest
      in if Some (index edge) = frontageIndex then (edge # fst r, snd r)
         else if Some (index edge) = oppositeIndex then (edge # fst r, snd r)
         else (case firstDifferentStreetCandidate (matchesOf edgeMatches (index edge))
                      baseFrontageStreet allowRelaxed of
                 None \<Rightarrow> (edge # fst r, snd r)
               | Some flankageStreetCandidate \<Rightarrow>
                   (forceStreet (applyMatchToEdge X (edge \<lparr> type' := Flankage \<rparr>) flankageStreetCandidate)
                      # fst r,
                    snd r + 1)))"

text \<open>The result is \<open>(edges, flankageCount, usedRelaxedFlankage)\<close>.\<close>

definition flankagePass ::
  "Ext \<Rightarrow> EdgeMatches \<Rightarrow> string \<Rightarrow> nat option \<Rightarrow> nat option \<Rightarrow> EdgeAnalysis list
     \<Rightarrow> EdgeAnalysis list \<times> nat \<times> bool" where
  "flankagePass X edgeMatches normalizedPrimaryStreet frontageIndex oppositeIndex es =
     (let baseFrontageStreet = frontageStreetOf es frontageIndex normalizedPrimaryStreet;
          strict = applyFlankage X edgeMatches frontageIndex oppositeIndex baseFrontageStreet False es
      in if snd strict = 0
           then let relaxed = applyFlankage X edgeMatches frontageIndex oppositeIndex baseFrontageStreet
                                True (fst strict)
                in if snd relaxed > 0 then (fst relaxed, snd relaxed, True)
                   else (fst relaxed, snd strict, False)
         else (fst strict, snd strict, False))"

definition stampRearLane :: "Ext \<Rightarrow> EvaluatedRoadCandidate \<Rightarrow> EdgeAnalysis \<Rightarrow> EdgeAnalysis" where
  "stampRearLane X oppositeLane oppositeEdge =
     (let oe = (applyMatchToEdge X (oppositeEdge \<lparr> type' := RearLane \<rparr>) oppositeLane)
                 \<lparr> isRoadAdjacent := True, roadKind := Some Lane \<rparr>
      in if \<not> isAdjacent oppositeLane then oe \<lparr> debug := debug oe @ '' (relaxed lane fallback)'' \<rparr>
         else oe)"

text \<open>The result is \<open>(edges, usedRelaxedLane)\<close>.\<close>

definition rearPass ::
  "Ext \<Rightarrow> EdgeMatches \<Rightarrow> nat option \<Rightarrow> bool \<Rightarrow> EdgeAnalysis list \<Rightarrow> EdgeAnalysis list \<times> bool" where
  "rearPass X edgeMatches oppositeIndex isDoubleFronting es =
     (case oppositeIndex of
        None \<Rightarrow> (es, False)
      | Some oi \<Rightarrow>
         (case edgeAt es oi of
            None \<Rightarrow> (es, False)
          | Some oppositeEdge \<Rightarrow>
              if isDoubleFronting then (es, False)
              else (case firstAdjacentLane (matchesOf edgeMatches (index oppositeEdge)) True of
                      Some oppositeLane \<Rightarrow>
                        (updateEdge es oi (stampRearLane X oppositeLane), \<not> isAdjacent oppositeLane)
                    | None \<Rightarrow> (updateEdge es oi (\<lambda>oe. oe \<lparr> type' := Rear \<rparr>), False))))"

section \<open>analyzeParcel\<close>

text \<open>The locals of \<open>analyzeParcel\<close>, each as a function of the arguments of the call.\<close>

definition ring :: "ParcelFeature \<Rightarrow> Position list" where
  "ring parcel = (case coordinates parcel of [] \<Rightarrow> [] | r # _ \<Rightarrow> r)"

definition primaryStreetOf :: "ParcelFeature \<Rightarrow> string" where
  "primaryStreetOf parcel =
     extractPrimaryStreet (fullAddress (properties parcel)) (streetName (properties parcel))"

definition normalizedPrimaryStreet :: "ParcelFeature \<Rightarrow> string" where
  "normalizedPrimaryStreet parcel = normalizeStreetName (primaryStreetOf parcel)"

definition edgesAfterDefault :: "Ext \<Rightarrow> ParcelFeature \<Rightarrow> MapboxMap option \<Rightarrow> EdgeAnalysis list" where
  "edgesAfterDefault X parcel m = fst (defaultPass X m (toRingEdges X (ring parcel)))"

definition edgeMatches :: "Ext \<Rightarrow> ParcelFeature \<Rightarrow> MapboxMap option \<Rightarrow> EdgeMatches" where
  "edgeMatches X parcel m = snd (defaultPass X m (toRingEdges X (ring parcel)))"

definition candidateStreetEdges :: "Ext \<Rightarrow> ParcelFeature \<Rightarrow> MapboxMap option \<Rightarrow> EdgeAnalysis list" where
  "candidateStreetEdges X parcel m =
     candidateStreetEdgesOf (edgesAfterDefault X parcel m) (edgeMatches X parcel m)"

definition frontageMatchedByPrimaryStreet :: "Ext \<Rightarrow> ParcelFeature \<Rightarrow> MapboxMap option \<Rightarrow> bool" where
  "frontageMatchedByPrimaryStreet X parcel m =
     (frontageByPrimaryStreet (edgesAfterDefault X parcel m) (edgeMatches X parcel m)
        (normalizedPrimaryStreet parcel) \<noteq> None)"

definition frontageIndex :: "Ext \<Rightarrow> ParcelFeature \<Rightarrow> MapboxMap option \<Rightarrow> nat option" where
  "frontageIndex X parcel m =
     map_option index
       (selectFrontage (edgesAfterDefault X parcel m) (edgeMatches X parcel m)
          (normalizedPrimaryStreet parcel))"

definition edgesAfterFrontage :: "Ext \<Rightarrow> ParcelFeature \<Rightarrow> MapboxMap option \<Rightarrow> EdgeAnalysis list" where
  "edgesAfterFrontage X parcel m =
     frontagePass X (edgeMatches X parcel m) (normalizedPrimaryStreet parcel)
       (frontageIndex X parcel m) (edgesAfterDefault X parcel m)"

definition oppositeIndex :: "Ext \<Rightarrow> ParcelFeature \<Rightarrow> MapboxMap option \<Rightarrow> nat option" where
  "oppositeIndex X parcel m =
     (case frontageIndex X parcel m of
        None \<Rightarrow> None
      | Some fi \<Rightarrow> findOppositeEdgeIndex X (edgesAfterFrontage X parcel m) fi)"

definition doubleFronting :: "Ext \<Rightarrow> ParcelFeature \<Rightarrow> MapboxMap option \<Rightarrow> EdgeAnalysis list \<times> bool" where
  "doubleFronting X parcel m =
     doubleFrontingPass X (edgeMatches X parcel m) (normalizedPrimaryStreet parcel)
       (frontageIndex X parcel m) (oppositeIndex X parcel m) (edgesAfterFrontage X parcel m)"

definition isDoubleFronting :: "Ext \<Rightarrow> ParcelFeature \<Rightarrow> MapboxMap option \<Rightarrow> bool" where
  "isDoubleFronting X parcel m = snd (doubleFronting X parcel m)"

definition flankage :: "Ext \<Rightarrow> ParcelFeature \<Rightarrow> MapboxMap option \<Rightarrow> EdgeAnalysis list \<times> nat \<times> bool" where
  "flankage X parcel m =
     flankagePass X (edgeMatches X parcel m) (normalizedPrimaryStreet parcel)
       (frontageIndex X parcel m) (oppositeIndex X parcel m) (fst (doubleFronting X parcel m))"

definition flankageCount :: "Ext \<Rightarrow> ParcelFeature \<Rightarrow> MapboxMap option \<Rightarrow> nat" where
  "flankageCount X parcel m = fst (snd (flankage X parcel m))"

definition usedRelaxedFlankage :: "Ext \<Rightarrow> ParcelFeature \<Rightarrow> MapboxMap option \<Rightarrow> bool" where
  "usedRelaxedFlankage X parcel m = snd (snd (flankage X parcel m))"

definition rear :: "Ext \<Rightarrow> ParcelFeature \<Rightarrow> MapboxMap option \<Rightarrow> EdgeAnalysis list \<times> bool" where
  "rear X parcel m =
     rearPass X (edgeMatches X parcel m) (oppositeIndex X parcel m) (isDoubleFronting X parcel m)
       (fst (flankage X parcel m))"

definition finalEdges :: "Ext \<Rightarrow> ParcelFeature \<Rightarrow> MapboxMap option \<Rightarrow> EdgeAnalysis list" where
  "finalEdges X parcel m = fst (rear X parcel m)"

definition usedRelaxedLane :: "Ext \<Rightarrow> ParcelFeature \<Rightarrow> MapboxMap option \<Rightarrow> bool" where
  "usedRelaxedLane X parcel m = snd (rear X parcel m)"

definition oppositeEdge :: "Ext \<Rightarrow> ParcelFeature \<Rightarrow> MapboxMap option \<Rightarrow> EdgeAnalysis option" where
  "oppositeEdge X parcel m = edgeAtOpt (finalEdges X parcel m) (oppositeIndex X parcel m)"

definition laneDetectedOnOpposite :: "Ext \<Rightarrow> ParcelFeature \<Rightarrow> MapboxMap option \<Rightarrow> bool" where
  "laneDetectedOnOpposite X parcel m =
     (case oppositeEdge X parcel m of
        None \<Rightarrow> False
      | Some oe \<Rightarrow> isRoadAdjacent oe = True \<and> roadKind oe = Some Lane)"

definition hasReliableFlankage :: "Ext \<Rightarrow> ParcelFeature \<Rightarrow> MapboxMap option \<Rightarrow> bool" where
  "hasReliableFlankage X parcel m =
     (flankageCount X parcel m > 0
      \<and> \<not> (usedRelaxedFlankage X parcel m \<and> laneDetectedOnOpposite X parcel m))"

definition lotTypeAndReason :: "Ext \<Rightarrow> ParcelFeature \<Rightarrow> MapboxMap option \<Rightarrow> LotType \<times> string" where
  "lotTypeAndReason X parcel m =
     determineLotType (hasReliableFlankage X parcel m) (isDoubleFronting X parcel m)
       (oppositeEdge X parcel m)"

definition finalReason :: "Ext \<Rightarrow> ParcelFeature \<Rightarrow> MapboxMap option \<Rightarrow> string" where
  "finalReason X parcel m =
     (let lt = fst (lotTypeAndReason X parcel m);
          rsn = snd (lotTypeAndReason X parcel m);
          r1 = (if lt = CornerLot \<and> usedRelaxedFlankage X parcel m
                then rsn @ '' Secondary street detected using relaxed flankage fallback.''
                else rsn);
          r2 = (if lt = StandardWithLane \<and> usedRelaxedFlankage X parcel m \<and> flankageCount X parcel m > 0
                then rsn @ '' Weak flankage evidence was ignored because a rear lane was detected.''
                else r1)
      in if lt = StandardWithLane \<and> usedRelaxedLane X parcel m
         then r2 @ '' Lane detected using relaxed rear-lane fallback.''
         else r2)"

definition confidenceOf :: "Ext \<Rightarrow> ParcelFeature \<Rightarrow> MapboxMap option \<Rightarrow> Confidence" where
  "confidenceOf X parcel m =
     (let c0 = High;
          c1 = (if \<not> frontageMatchedByPrimaryStreet X parcel m
                then (if length (candidateStreetEdges X parcel m) > 0 then Medium else Low)
                else c0);
          c2 = (if fst (lotTypeAndReason X parcel m) = DoubleFronting
                   \<and> \<not> frontageMatchedByPrimaryStreet X parcel m
                then Medium else c1)
      in if usedRelaxedFlankage X parcel m \<or> usedRelaxedLane X parcel m
         then (if c2 = Low then Low else Medium)
         else c2)"

definition analyzeParcel :: "Ext \<Rightarrow> ParcelFeature \<Rightarrow> MapboxMap option \<Rightarrow> ParcelAnalysis" where
  "analyzeParcel X parcel m =
     \<lparr> areaM2 = area X (coordinates parcel),
       primaryStreet = primaryStreetOf parcel,
       lotType = fst (lotTypeAndReason X parcel m),
       reason = finalReason X parcel m,
       confidence = confidenceOf X parcel m,
       edges = finalEdges X parcel m \<rparr>"

section \<open>Viewport index (src/lib/geo/parcelViewportIndex.ts)\<close>

record ParcelViewportIndex =
  cellSizeDeg :: real
  cells :: "string \<Rightarrow> ParcelFeature list option"

record BoundsLike =
  getWest :: real
  getEast :: real
  getSouth :: real
  getNorth :: real

record QueryParcelsOptions =
  paddingRatio :: "real option"
  maxFeatures :: "real option"
  center :: "Position option"


text \<open>
  The value of \<open>Math.floor(value / cellSizeDeg)\<close>: an integer, or, with a cell size of zero,
  \<open>NaN\<close> for the value zero and an infinity with the sign of any other value.
\<close>

datatype CellNumber = Finite int | PosInfinity | NegInfinity | NotANumber

definition cellIndex :: "real \<Rightarrow> real \<Rightarrow> CellNumber" where
  "cellIndex v cellSize =
     (if cellSize = 0
      then (if v = 0 then NotANumber else if 0 < v then PosInfinity else NegInfinity)
      else Finite \<lfloor>v / cellSize\<rfloor>)"

fun showNumber :: "CellNumber \<Rightarrow> string" where
  "showNumber (Finite i) = showInt i"
| "showNumber PosInfinity = ''Infinity''"
| "showNumber NegInfinity = ''-Infinity''"
| "showNumber NotANumber = ''NaN''"

definition cellKey :: "CellNumber \<Rightarrow> CellNumber \<Rightarrow> string" where
  "cellKey x y = showNumber x @ '':'' @ showNumber y"

text \<open>
  The values that \<open>x\<close> takes in \<open>for (let x = lo; x <= hi; x += 1)\<close>.  A comparison with
  \<open>NaN\<close> is false, so the loop is skipped; an infinite \<open>x\<close> is not changed by \<open>x += 1\<close>, and
  a finite one never passes \<open>Infinity\<close>, so a loop that is entered there does not end: \<open>None\<close>.
\<close>

fun cellLoop :: "CellNumber \<Rightarrow> CellNumber \<Rightarrow> CellNumber list option" where
  "cellLoop (Finite a) (Finite b) = Some (map Finite [a .. b])"
| "cellLoop (Finite a) PosInfinity = None"
| "cellLoop (Finite a) NegInfinity = Some []"
| "cellLoop (Finite a) NotANumber = Some []"
| "cellLoop PosInfinity PosInfinity = None"
| "cellLoop PosInfinity (Finite b) = Some []"
| "cellLoop PosInfinity NegInfinity = Some []"
| "cellLoop PosInfinity NotANumber = Some []"
| "cellLoop NegInfinity NotANumber = Some []"
| "cellLoop NegInfinity (Finite b) = None"
| "cellLoop NegInfinity PosInfinity = None"
| "cellLoop NegInfinity NegInfinity = None"
| "cellLoop NotANumber hi = Some []"

definition distanceSq :: "Position \<Rightarrow> Position \<Rightarrow> real" where
  "distanceSq a b =
     (let dx = fst a - fst b; dy = snd a - snd b in dx * dx + dy * dy)"

definition referencePoint :: "ParcelFeature \<Rightarrow> Position" where
  "referencePoint parcel = (lon (properties parcel), lat (properties parcel))"

definition addToCell ::
  "real \<Rightarrow> (string \<Rightarrow> ParcelFeature list option) \<Rightarrow> ParcelFeature
     \<Rightarrow> (string \<Rightarrow> ParcelFeature list option)" where
  "addToCell cellSize cs parcel =
     (let key = cellKey (cellIndex (lon (properties parcel)) cellSize)
                        (cellIndex (lat (properties parcel)) cellSize)
      in case cs key of
           Some current \<Rightarrow> cs(key \<mapsto> current @ [parcel])
         | None \<Rightarrow> cs(key \<mapsto> [parcel]))"

definition buildParcelViewportIndex :: "ParcelFeature list \<Rightarrow> real \<Rightarrow> ParcelViewportIndex" where
  "buildParcelViewportIndex parcels cellSize =
     \<lparr> cellSizeDeg = cellSize, cells = foldl (addToCell cellSize) Map.empty parcels \<rparr>"

text \<open>The padded box \<open>(paddedWest, paddedEast, paddedSouth, paddedNorth)\<close>.\<close>

definition paddedBox :: "BoundsLike \<Rightarrow> real \<Rightarrow> real \<times> real \<times> real \<times> real" where
  "paddedBox bounds ratio =
     (let lonSpan = max 0 (getEast bounds - getWest bounds);
          latSpan = max 0 (getNorth bounds - getSouth bounds)
      in (getWest bounds - lonSpan * ratio, getEast bounds + lonSpan * ratio,
          getSouth bounds - latSpan * ratio, getNorth bounds + latSpan * ratio))"

definition outsideBox :: "real \<times> real \<times> real \<times> real \<Rightarrow> ParcelFeature \<Rightarrow> bool" where
  "outsideBox box parcel =
     (case box of (paddedWest, paddedEast, paddedSouth, paddedNorth) \<Rightarrow>
        lon (properties parcel) < paddedWest \<or> lon (properties parcel) > paddedEast
        \<or> lat (properties parcel) < paddedSouth \<or> lat (properties parcel) > paddedNorth)"

text \<open>
  The two nested loops over the cells.  When the outer loop is skipped nothing is selected;
  when a loop that is entered does not end there is no selection: \<open>None\<close>.
\<close>

definition selectInBox ::
  "ParcelViewportIndex \<Rightarrow> real \<times> real \<times> real \<times> real \<Rightarrow> ParcelFeature list option" where
  "selectInBox idx box =
     (case box of (paddedWest, paddedEast, paddedSouth, paddedNorth) \<Rightarrow>
        let minX = cellIndex paddedWest (cellSizeDeg idx);
            maxX = cellIndex paddedEast (cellSizeDeg idx);
            minY = cellIndex paddedSouth (cellSizeDeg idx);
            maxY = cellIndex paddedNorth (cellSizeDeg idx)
        in case cellLoop minX maxX of
             None \<Rightarrow> None
           | Some xs \<Rightarrow>
               if xs = [] then Some []
               else (case cellLoop minY maxY of
                       None \<Rightarrow> None
                     | Some ys \<Rightarrow>
                         Some (concat (map (\<lambda>x.
                           concat (map (\<lambda>y.
                             case cells idx (cellKey x y) of
                               None \<Rightarrow> []
                             | Some bucket \<Rightarrow> filter (\<lambda>parcel. \<not> outsideBox box parcel) bucket)
                             ys))
                           xs))))"

text \<open>\<open>xs.slice(0, e)\<close>: a negative end counts from the end of the array.\<close>

definition sliceFromStart :: "'a list \<Rightarrow> real \<Rightarrow> 'a list" where
  "sliceFromStart xs e =
     (let k = jsTrunc e
      in if k < 0 then take (nat (int (length xs) + k)) xs else take (nat k) xs)"

definition centerOf :: "real \<times> real \<times> real \<times> real \<Rightarrow> Position option \<Rightarrow> Position" where
  "centerOf box c =
     (case c of
        Some p \<Rightarrow> p
      | None \<Rightarrow> (case box of (paddedWest, paddedEast, paddedSouth, paddedNorth) \<Rightarrow>
                   ((paddedWest + paddedEast) / 2, (paddedSouth + paddedNorth) / 2)))"

definition compareByDistance :: "Position \<Rightarrow> ParcelFeature \<Rightarrow> ParcelFeature \<Rightarrow> real" where
  "compareByDistance c a b = distanceSq (referencePoint a) c - distanceSq (referencePoint b) c"

text \<open>
  The query has no result (\<open>None\<close>) when a loop over the cells does not end, which needs a
  cell size of zero.  An absent \<open>maxFeatures\<close> is the default \<open>Infinity\<close>.
\<close>

definition queryParcelsInBounds ::
  "ParcelViewportIndex \<Rightarrow> BoundsLike \<Rightarrow> QueryParcelsOptions \<Rightarrow> ParcelFeature list option" where
  "queryParcelsInBounds idx bounds options =
     (let ratio = (case paddingRatio options of None \<Rightarrow> 0.22 | Some r \<Rightarrow> r);
          box = paddedBox bounds ratio
      in case selectInBox idx box of
           None \<Rightarrow> None
         | Some selected \<Rightarrow>
             (case maxFeatures options of
                None \<Rightarrow> Some selected
              | Some cap \<Rightarrow>
                  if real (length selected) \<le> cap then Some selected
                  else Some (sliceFromStart
                               (arraySort (compareByDistance (centerOf box (center options))) selected)
                               cap)))"

section \<open>Vocabulary of the specification\<close>

text \<open>
  The consecutive point pairs of a polyline, and those of all polylines of a candidate.
\<close>

definition consecutivePairs :: "Position list \<Rightarrow> (Position \<times> Position) list" where
  "consecutivePairs line = zip line (tl line)"

definition candidateSegments :: "RoadCandidate \<Rightarrow> (Position \<times> Position) list" where
  "candidateSegments candidate = concat (map consecutivePairs (lines candidate))"

text \<open>
  For an edge and a segment: the distance from the midpoint of the edge to the segment, the
  orientation difference between the bearing of the edge and the bearing of the segment, both
  as the geometry library gives them, and the combined score, the distance plus 0.45 times the
  orientation difference.
\<close>

definition midpointDistance :: "Ext \<Rightarrow> EdgeAnalysis \<Rightarrow> Position \<times> Position \<Rightarrow> real" where
  "midpointDistance X edge seg = pointToLineDistance X (midpoint edge) (fst seg) (snd seg)"

definition orientationDifference :: "Ext \<Rightarrow> EdgeAnalysis \<Rightarrow> Position \<times> Position \<Rightarrow> real" where
  "orientationDifference X edge seg =
     parallelOrientationDiffDeg (bearing X (start edge) (end' edge)) (bearing X (fst seg) (snd seg))"

definition segmentScore :: "Ext \<Rightarrow> EdgeAnalysis \<Rightarrow> Position \<times> Position \<Rightarrow> real" where
  "segmentScore X edge seg = midpointDistance X edge seg + 0.45 * orientationDifference X edge seg"


text \<open>The provider gives no candidate for any edge of the parcel, or there is no provider.\<close>

definition noCandidates :: "Ext \<Rightarrow> ParcelFeature \<Rightarrow> MapboxMap option \<Rightarrow> bool" where
  "noCandidates X parcel m =
     (case m of
        None \<Rightarrow> True
      | Some mp \<Rightarrow> \<forall>edge \<in> set (toRingEdges X (ring parcel)). queryRoadCandidatesForEdge X mp edge = [])"

text \<open>
  The length of edge \<open>i\<close> of a parcel, the distance between vertex \<open>i\<close> and vertex \<open>i + 1\<close>
  of its ring, and the longest edge of the parcel, the first in ring order when several are
  as long: no edge is longer, and every edge before it is shorter.
\<close>

definition edgeLength :: "Ext \<Rightarrow> ParcelFeature \<Rightarrow> nat \<Rightarrow> real" where
  "edgeLength X parcel i = distance X (ring parcel ! i) (ring parcel ! (i + 1))"

definition firstLongestEdge :: "Ext \<Rightarrow> ParcelFeature \<Rightarrow> nat \<Rightarrow> bool" where
  "firstLongestEdge X parcel i \<longleftrightarrow>
     (\<forall>j \<in> set [0 ..< length (ring parcel) - 1]. edgeLength X parcel j \<le> edgeLength X parcel i) \<and>
     (\<forall>j \<in> set [0 ..< i]. edgeLength X parcel j < edgeLength X parcel i)"

text \<open>Two edges have the same geometry: the fields that no pass changes.\<close>

definition sameGeometry :: "EdgeAnalysis \<Rightarrow> EdgeAnalysis \<Rightarrow> bool" where
  "sameGeometry a b =
     (index a = index b \<and> start a = start b \<and> end' a = end' b \<and> midpoint a = midpoint b)"

section \<open>Test doubles and test inputs\<close>

text \<open>
  A stand-in for the library functions on which the analysis can be run: a rectilinear
  geometry in degrees, scaled to metres, with the bearings of the eight compass directions.
  For axis-parallel segments near the equator it agrees with the great-circle formulas of
  Turf up to rounding.
\<close>

definition metersPerDegree :: real where
  "metersPerDegree = 111195"

definition gridDistance :: "Position \<Rightarrow> Position \<Rightarrow> real" where
  "gridDistance a b = metersPerDegree * (\<bar>fst a - fst b\<bar> + \<bar>snd a - snd b\<bar>)"

definition gridBearing :: "Position \<Rightarrow> Position \<Rightarrow> real" where
  "gridBearing a b =
     (let dx = fst b - fst a; dy = snd b - snd a
      in if dx \<noteq> 0 \<and> \<bar>dx\<bar> = \<bar>dy\<bar>
         then (if 0 < dx then (if 0 < dy then 45 else 135) else (if 0 < dy then - 45 else - 135))
         else if \<bar>dx\<bar> \<le> \<bar>dy\<bar> then (if dy < 0 then 180 else 0)
         else (if dx < 0 then - 90 else 90))"

definition gridPointToLine :: "Position \<Rightarrow> Position \<Rightarrow> Position \<Rightarrow> real" where
  "gridPointToLine p a b =
     (let dx = fst b - fst a; dy = snd b - snd a; len2 = dx * dx + dy * dy
      in if len2 = 0 then gridDistance p a
         else let t = ((fst p - fst a) * dx + (snd p - snd a) * dy) / len2
              in if t \<le> 0 then gridDistance p a
                 else if t \<ge> 1 then gridDistance p b
                 else gridDistance p (fst a + t * dx, snd a + t * dy))"

fun shoelace :: "Position list \<Rightarrow> real" where
  "shoelace (a # b # rest) = (fst a * snd b - fst b * snd a) + shoelace (b # rest)"
| "shoelace _ = 0"

definition gridArea :: "Position list list \<Rightarrow> real" where
  "gridArea rings =
     (case rings of [] \<Rightarrow> 0 | r # _ \<Rightarrow> \<bar>shoelace r\<bar> / 2 * metersPerDegree * metersPerDegree)"

definition showFixed1 :: "real \<Rightarrow> string" where
  "showFixed1 x =
     (let n = \<lfloor>\<bar>x\<bar> * 10 + 1 / 2\<rfloor>
      in (if x < 0 \<and> n \<noteq> 0 then ''-'' else []) @ showInt (n div 10) @ ''.'' @ showInt (n mod 10))"

definition gridExt :: Ext where
  "gridExt =
     \<lparr> distance = gridDistance, bearing = gridBearing, pointToLineDistance = gridPointToLine,
       area = gridArea, toFixed1 = showFixed1,
       mathCos = (\<lambda>x. 1 - x * x / 2), mathPow = (\<lambda>b e. b ^ nat \<lfloor>e\<rfloor>), mathPI = 355 / 113 \<rparr>"

text \<open>
  A rectangular parcel of about 44 m by 33 m.  Edge 0 runs along the south side, edge 1 along
  the east side, edge 2 along the north side and edge 3 along the west side.
\<close>

definition testRing :: "Position list" where
  "testRing = [(0, 0), (0.0004, 0), (0.0004, 0.0003), (0, 0.0003), (0, 0)]"

definition testParcel :: "string \<Rightarrow> ParcelFeature" where
  "testParcel address =
     \<lparr> coordinates = [testRing],
       properties = \<lparr> id' = ''p1'', siteId = [], taxCoord = [], civicNumber = [],
                      streetName = [], fullAddress = address, lon = 0.0002, lat = 0.00015 \<rparr> \<rparr>"

text \<open>A provider that answers every query with the same features.\<close>

definition testMap :: "GeoJSONFeature list \<Rightarrow> MapboxMap" where
  "testMap features =
     \<lparr> project = (\<lambda>p. (fst p * 1000000, - snd p * 1000000)), getZoom = 17,
       queryRenderedFeatures = (\<lambda>window. features) \<rparr>"

definition lineFeature :: "string \<Rightarrow> string \<Rightarrow> real list list \<Rightarrow> GeoJSONFeature" where
  "lineFeature nm cls cs =
     \<lparr> geometry = LineString cs,
       featureProperties = [''name'' \<mapsto> nm, ''class'' \<mapsto> cls],
       featureSourceLayer = Some ''road'' \<rparr>"

text \<open>
  Oak Street runs 5.6 m south of the parcel, a service lane 5.6 m north of it, Elm Avenue
  22.2 m east of it; the far Oak Street runs 25.6 m south of it, the near Elm Avenue 11.1 m
  east of it.
\<close>

definition oakStreet :: GeoJSONFeature where
  "oakStreet = lineFeature ''Oak Street'' ''street'' [[- 0.01, - 0.00005], [0.01, - 0.00005]]"

definition farOakStreet :: GeoJSONFeature where
  "farOakStreet = lineFeature ''Oak Street'' ''street'' [[- 0.01, - 0.00023], [0.01, - 0.00023]]"

definition rearLane :: GeoJSONFeature where
  "rearLane = lineFeature [] ''service'' [[- 0.01, 0.00035], [0.01, 0.00035]]"

definition elmAvenue :: GeoJSONFeature where
  "elmAvenue = lineFeature ''Elm Avenue'' ''street'' [[0.0006, - 0.01], [0.0006, 0.01]]"

definition nearElmAvenue :: GeoJSONFeature where
  "nearElmAvenue = lineFeature ''Elm Avenue'' ''street'' [[0.0005, - 0.01], [0.0005, 0.01]]"

text \<open>The road candidates that these features become.\<close>

definition oakCandidate :: RoadCandidate where
  "oakCandidate =
     \<lparr> name = ''Oak Street'', kind = Street, className = ''street'', sourceLayer = ''road'',
       lines = [[(- 0.01, - 0.00005), (0.01, - 0.00005)]] \<rparr>"

definition farOakCandidate :: RoadCandidate where
  "farOakCandidate =
     \<lparr> name = ''Oak Street'', kind = Street, className = ''street'', sourceLayer = ''road'',
       lines = [[(- 0.01, - 0.00023), (0.01, - 0.00023)]] \<rparr>"

definition laneCandidate :: RoadCandidate where
  "laneCandidate =
     \<lparr> name = [], kind = Lane, className = ''service'', sourceLayer = ''road'',
       lines = [[(- 0.01, 0.00035), (0.01, 0.00035)]] \<rparr>"

definition elmCandidate :: RoadCandidate where
  "elmCandidate =
     \<lparr> name = ''Elm Avenue'', kind = Street, className = ''street'', sourceLayer = ''road'',
       lines = [[(0.0006, - 0.01), (0.0006, 0.01)]] \<rparr>"

definition nearElmCandidate :: RoadCandidate where
  "nearElmCandidate =
     \<lparr> name = ''Elm Avenue'', kind = Street, className = ''street'', sourceLayer = ''road'',
       lines = [[(0.0005, - 0.01), (0.0005, 0.01)]] \<rparr>"

text \<open>
  Four roads south of the parcel.  Maple Street has two polylines: the first comes from the
  west 22.2 m south of the parcel, turns north-east to a point 11.1 m south of the midpoint of
  the south edge and leaves to the south; the second lies far to the south-east.  Pine Street
  runs parallel 31.4 m south of the parcel, 20.25 m (9 / 49420 degrees) farther than the
  nearest point of Maple Street; an unnamed service lane runs 26.7 m south of it.
\<close>

definition mapleStreet :: GeoJSONFeature where
  "mapleStreet =
     \<lparr> geometry = MultiLineString
         [[[- 0.001, - 0.0002], [0.0001, - 0.0002], [0.0002, - 0.0001], [0.0002, - 0.001]],
          [[0.001, - 0.0005], [0.002, - 0.0005]]],
       featureProperties = [''name'' \<mapsto> ''Maple Street'', ''class'' \<mapsto> ''street''],
       featureSourceLayer = Some ''road'' \<rparr>"

definition pineStreet :: GeoJSONFeature where
  "pineStreet =
     lineFeature ''Pine Street'' ''street''
       [[- 0.01, - (0.0001 + 9 / 49420)], [0.01, - (0.0001 + 9 / 49420)]]"

definition southLane :: GeoJSONFeature where
  "southLane = lineFeature [] ''service'' [[- 0.01, - 0.00024], [0.01, - 0.00024]]"

definition mapleCandidate :: RoadCandidate where
  "mapleCandidate =
     \<lparr> name = ''Maple Street'', kind = Street, className = ''street'', sourceLayer = ''road'',
       lines = [[(- 0.001, - 0.0002), (0.0001, - 0.0002), (0.0002, - 0.0001), (0.0002, - 0.001)],
                [(0.001, - 0.0005), (0.002, - 0.0005)]] \<rparr>"

definition pineCandidate :: RoadCandidate where
  "pineCandidate =
     \<lparr> name = ''Pine Street'', kind = Street, className = ''street'', sourceLayer = ''road'',
       lines = [[(- 0.01, - (0.0001 + 9 / 49420)), (0.01, - (0.0001 + 9 / 49420))]] \<rparr>"

definition southLaneCandidate :: RoadCandidate where
  "southLaneCandidate =
     \<lparr> name = [], kind = Lane, className = ''service'', sourceLayer = ''road'',
       lines = [[(- 0.01, - 0.00024), (0.01, - 0.00024)]] \<rparr>"

definition evaluatorMap :: MapboxMap where
  "evaluatorMap = testMap [pineStreet, mapleStreet, southLane, farOakStreet]"

text \<open>The four edges of the test parcel.\<close>

definition southEdge :: EdgeAnalysis where
  "southEdge = newEdge gridExt 0 (0, 0) (0.0004, 0)"

definition eastEdge :: EdgeAnalysis where
  "eastEdge = newEdge gridExt 1 (0.0004, 0) (0.0004, 0.0003)"

definition northEdge :: EdgeAnalysis where
  "northEdge = newEdge gridExt 2 (0.0004, 0.0003) (0, 0.0003)"

definition westEdge :: EdgeAnalysis where
  "westEdge = newEdge gridExt 3 (0, 0.0003) (0, 0)"

text \<open>Three parcels for the viewport index, a viewport around them, and the index built from them.\<close>

definition parcelAt :: "string \<Rightarrow> real \<Rightarrow> real \<Rightarrow> ParcelFeature" where
  "parcelAt i lo la =
     \<lparr> coordinates = [],
       properties = \<lparr> id' = i, siteId = [], taxCoord = [], civicNumber = [], streetName = [],
                      fullAddress = [], lon = lo, lat = la \<rparr> \<rparr>"



definition nearParcel :: ParcelFeature where
  "nearParcel = parcelAt ''near'' 0.0002 0.00015"



definition capped :: "real \<Rightarrow> QueryParcelsOptions" where
  "capped cap = \<lparr> paddingRatio = None, maxFeatures = Some cap, center = Some (0, 0) \<rparr>"

text \<open>
  The parcel at 12 Oak St, and four providers: one with Oak Street, the lane and Elm Avenue,
  one with Oak Street, the lane and the near Elm Avenue, one with the far Oak Street only, and
  one without any feature.
\<close>

definition oakParcel :: ParcelFeature where
  "oakParcel = testParcel ''12 Oak St''"

text \<open>
  The same parcel with its ring started at the south-east corner: edge 0 is the east side,
  and the two longest edges are edge 1, the north side, and edge 3, the south side.
\<close>

definition turnedParcel :: ParcelFeature where
  "turnedParcel =
     oakParcel \<lparr> coordinates := [[(0.0004, 0), (0.0004, 0.0003), (0, 0.0003), (0, 0), (0.0004, 0)]] \<rparr>"

definition weakCornerMap :: MapboxMap where
  "weakCornerMap = testMap [oakStreet, rearLane, elmAvenue]"

definition cornerMap :: MapboxMap where
  "cornerMap = testMap [oakStreet, rearLane, nearElmAvenue]"


definition emptyMap :: MapboxMap where
  "emptyMap = testMap []"

text \<open>The evaluated candidates of the four edges for the first three providers, best first.\<close>

definition weakCornerMatches :: EdgeMatches where
  "weakCornerMatches =
     [0 \<mapsto> [evaluated oakCandidate 5.55975 0, evaluated laneCandidate 38.91825 0,
            evaluated elmCandidate 44.478 90],
      1 \<mapsto> [evaluated elmCandidate 22.239 0, evaluated oakCandidate 22.239 90,
            evaluated laneCandidate 22.239 90],
      2 \<mapsto> [evaluated laneCandidate 5.55975 0, evaluated oakCandidate 38.91825 0,
            evaluated elmCandidate 44.478 90],
      3 \<mapsto> [evaluated oakCandidate 22.239 90, evaluated laneCandidate 22.239 90,
            evaluated elmCandidate 66.717 0]]"

definition cornerMatches :: EdgeMatches where
  "cornerMatches =
     [0 \<mapsto> [evaluated oakCandidate 5.55975 0, evaluated laneCandidate 38.91825 0,
            evaluated nearElmCandidate 33.3585 90],
      1 \<mapsto> [evaluated nearElmCandidate 11.1195 0, evaluated oakCandidate 22.239 90,
            evaluated laneCandidate 22.239 90],
      2 \<mapsto> [evaluated laneCandidate 5.55975 0, evaluated oakCandidate 38.91825 0,
            evaluated nearElmCandidate 33.3585 90],
      3 \<mapsto> [evaluated nearElmCandidate 55.5975 0, evaluated oakCandidate 22.239 90,
            evaluated laneCandidate 22.239 90]]"


section \<open>Geometry primitives: angular difference\<close>

lemma jsMod_nonneg:
  assumes "0 \<le> a" "0 < b"
  shows "0 \<le> jsMod a b \<and> jsMod a b < b"
proof -
  have q: "0 \<le> a / b" using assms by simp
  have l: "of_int \<lfloor>a / b\<rfloor> * b \<le> a" using assms(2) by (rule floor_divide_lower)
  have u: "a < (of_int \<lfloor>a / b\<rfloor> + 1) * b" using assms(2) by (rule floor_divide_upper)
  show ?thesis using q l u by (simp add: jsMod_def jsTrunc_def algebra_simps)
qed

lemma jsMod_bounds:
  assumes "0 < b"
  shows "- b < jsMod a b \<and> jsMod a b < b"
proof (cases "0 \<le> a")
  case True
  then show ?thesis using jsMod_nonneg[OF True assms] assms by linarith
next
  case False
  then have q: "\<not> 0 \<le> a / b" using assms by (simp add: divide_less_0_iff not_le)
  have l: "a \<le> of_int \<lceil>a / b\<rceil> * b" using assms(1) by (rule ceiling_divide_upper)
  have u: "(of_int \<lceil>a / b\<rceil> - 1) * b < a" using assms(1) by (rule ceiling_divide_lower)
  show ?thesis using q l u False assms by (simp add: jsMod_def jsTrunc_def algebra_simps)
qed

lemma norm360_range:
  "0 \<le> jsMod (jsMod a 360 + 360) 360 \<and> jsMod (jsMod a 360 + 360) 360 < 360"
proof -
  have "- 360 < jsMod a 360" using jsMod_bounds[of 360 a] by simp
  then have "0 \<le> jsMod a 360 + 360" by simp
  then show ?thesis using jsMod_nonneg[of "jsMod a 360 + 360" 360] by simp
qed

lemma parallelOrientationDiffDeg_range:
  "0 \<le> parallelOrientationDiffDeg a b \<and> parallelOrientationDiffDeg a b \<le> 90"
  using norm360_range[of a] norm360_range[of b]
  by (simp add: parallelOrientationDiffDeg_def Let_def) linarith

text \<open>
  C7.  For all bearings \<open>a\<close> and \<open>b\<close> the angular difference does not depend on the order
  of its arguments, and it lies between 0 and 90 degrees.
\<close>

theorem parallelOrientationDiffDeg_symmetric_bounded:
  "parallelOrientationDiffDeg a b = parallelOrientationDiffDeg b a \<and>
   0 \<le> parallelOrientationDiffDeg a b \<and> parallelOrientationDiffDeg a b \<le> 90"
proof -
  have s: "parallelOrientationDiffDeg a b = parallelOrientationDiffDeg b a"
    by (simp add: parallelOrientationDiffDeg_def Let_def abs_minus_commute)
  show ?thesis using s parallelOrientationDiffDeg_range[of a b] by simp
qed

section \<open>Edge extractor: the edges of a ring\<close>

lemma toRingEdges_length: "length (toRingEdges X cs) = length cs - 1"
  by (simp add: toRingEdges_def)

lemma toRingEdges_nth:
  "i < length cs - 1 \<Longrightarrow> toRingEdges X cs ! i = newEdge X i (cs ! i) (cs ! (i + 1))"
  by (simp add: toRingEdges_def)

lemma toRingEdges_index: "i < length (toRingEdges X cs) \<Longrightarrow> index (toRingEdges X cs ! i) = i"
  by (simp add: toRingEdges_length toRingEdges_nth newEdge_def)

text \<open>
  C6.  For a ring of \<open>N \<ge> 3\<close> vertices the edge extractor returns \<open>N - 1\<close> edges.  Edge \<open>i\<close>
  starts at vertex \<open>i\<close>, ends at vertex \<open>i + 1\<close>, has the arithmetic mean of the two as its
  midpoint, and starts out with type \<open>Side\<close>, no road kind, not road adjacent, and the
  diagnostic "No road candidate found.".
\<close>

theorem toRingEdges_ring:
  assumes "3 \<le> length cs"
  shows "length (toRingEdges X cs) = length cs - 1 \<and>
         (\<forall>i < length cs - 1.
            index (toRingEdges X cs ! i) = i \<and>
            start (toRingEdges X cs ! i) = cs ! i \<and>
            end' (toRingEdges X cs ! i) = cs ! (i + 1) \<and>
            midpoint (toRingEdges X cs ! i)
              = ((fst (cs ! i) + fst (cs ! (i + 1))) / 2, (snd (cs ! i) + snd (cs ! (i + 1))) / 2) \<and>
            type' (toRingEdges X cs ! i) = Side \<and>
            roadKind (toRingEdges X cs ! i) = None \<and>
            isRoadAdjacent (toRingEdges X cs ! i) = False \<and>
            debug (toRingEdges X cs ! i) = ''No road candidate found.'')"
  by (simp add: toRingEdges_length toRingEdges_nth newEdge_def)

theorem toRingEdges_ring_witness:
  "3 \<le> length testRing \<and> length (toRingEdges gridExt testRing) = 4 \<and>
   start (toRingEdges gridExt testRing ! 1) = (0.0004, 0) \<and>
   end' (toRingEdges gridExt testRing ! 1) = (0.0004, 0.0003) \<and>
   midpoint (toRingEdges gridExt testRing ! 1) = (0.0004, 0.00015) \<and>
   type' (toRingEdges gridExt testRing ! 1) = Side"
proof -
  have h: "3 \<le> length testRing" by (simp add: testRing_def)
  have n: "(1::nat) < length testRing - 1" by (simp add: testRing_def)
  show ?thesis using h n toRingEdges_ring[OF h, of gridExt] by (simp add: testRing_def)
qed

section \<open>Array sort\<close>

lemma set_insertSorted: "set (insertSorted cmp x ys) = insert x (set ys)"
  by (induction ys) auto

lemma set_arraySort: "set (arraySort cmp xs) = set xs"
  by (induction xs) (simp_all add: arraySort_def set_insertSorted)

lemma length_insertSorted: "length (insertSorted cmp x ys) = Suc (length ys)"
  by (induction ys) auto

lemma length_arraySort: "length (arraySort cmp xs) = length xs"
  by (induction xs) (simp_all add: arraySort_def length_insertSorted)

lemma sorted_insertSorted:
  assumes tr: "\<And>a b c. cmp a b \<le> 0 \<Longrightarrow> cmp b c \<le> 0 \<Longrightarrow> cmp a c \<le> 0"
      and tot: "\<And>a b. \<not> cmp a b \<le> 0 \<Longrightarrow> cmp b a \<le> 0"
      and s: "sorted_wrt (\<lambda>a b. cmp a b \<le> 0) ys"
  shows "sorted_wrt (\<lambda>a b. cmp a b \<le> 0) (insertSorted cmp x ys)"
  using s
proof (induction ys)
  case Nil
  then show ?case by simp
next
  case (Cons y ys)
  show ?case
  proof (cases "cmp x y \<le> 0")
    case True
    then have "\<forall>z\<in>set ys. cmp x z \<le> 0" using Cons.prems tr by auto
    then show ?thesis using True Cons.prems by simp
  next
    case False
    then have "cmp y x \<le> 0" by (rule tot)
    then show ?thesis using False Cons by (auto simp: set_insertSorted)
  qed
qed

lemma sorted_arraySort:
  assumes tr: "\<And>a b c. cmp a b \<le> 0 \<Longrightarrow> cmp b c \<le> 0 \<Longrightarrow> cmp a c \<le> 0"
      and tot: "\<And>a b. \<not> cmp a b \<le> 0 \<Longrightarrow> cmp b a \<le> 0"
  shows "sorted_wrt (\<lambda>a b. cmp a b \<le> 0) (arraySort cmp xs)"
proof (induction xs)
  case Nil
  then show ?case by (simp add: arraySort_def)
next
  case (Cons x xs)
  have "arraySort cmp (x # xs) = insertSorted cmp x (arraySort cmp xs)"
    by (simp add: arraySort_def)
  then show ?case using sorted_insertSorted[OF tr tot Cons.IH] by simp
qed

lemma compareEvaluated_le:
  "compareEvaluated a b \<le> 0 \<longleftrightarrow>
     score a < score b \<or> (score a = score b \<and> distanceMeters a \<le> distanceMeters b)"
  by (auto simp: compareEvaluated_def)

lemma sorted_compareEvaluated:
  "sorted_wrt (\<lambda>a b. score a < score b \<or> (score a = score b \<and> distanceMeters a \<le> distanceMeters b))
     (arraySort compareEvaluated xs)"
proof -
  have "sorted_wrt (\<lambda>a b. compareEvaluated a b \<le> 0) (arraySort compareEvaluated xs)"
    by (rule sorted_arraySort) (auto simp: compareEvaluated_le)
  then show ?thesis by (simp add: compareEvaluated_le)
qed

section \<open>Candidate evaluator: score, adjacency and order\<close>

lemma lineSegments_pairs: "lineSegments line = consecutivePairs line"
proof (rule nth_equalityI)
  show "length (lineSegments line) = length (consecutivePairs line)"
    by (simp add: lineSegments_def consecutivePairs_def)
next
  fix i
  assume "i < length (lineSegments line)"
  then have i: "i < length line - 1" by (simp add: lineSegments_def)
  then have "tl line ! i = line ! (i + 1)" by (simp add: nth_tl)
  then show "lineSegments line ! i = consecutivePairs line ! i"
    using i by (simp add: lineSegments_def consecutivePairs_def)
qed

lemma candidateSegments_loop:
  "candidateSegments candidate = concat (map lineSegments (lines candidate))"
proof -
  have "lineSegments = consecutivePairs" by (rule ext) (rule lineSegments_pairs)
  then show ?thesis by (simp add: candidateSegments_def)
qed

lemma segmentDistance_spec: "segmentDistance X edge seg = midpointDistance X edge seg"
  by (simp add: segmentDistance_def midpointDistance_def)

lemma segmentOrientation_spec: "segmentOrientation X edge seg = orientationDifference X edge seg"
  by (simp add: segmentOrientation_def orientationDifference_def bearingDegrees_def)

lemma segmentScore_loop:
  "segmentScore X edge seg = segmentDistance X edge seg + 0.45 * segmentOrientation X edge seg"
  by (simp add: segmentScore_def segmentDistance_spec segmentOrientation_spec)

lemma foldl_lines:
  "foldl (\<lambda>best line. foldl f best (g line)) b ls = foldl f b (concat (map g ls))"
  by (induction ls arbitrary: b) simp_all

lemma bestOverLines_segments:
  "bestOverLines X edge (lines candidate) = foldl (segmentStep X edge) None (candidateSegments candidate)"
  by (simp add: bestOverLines_def candidateSegments_loop foldl_lines)

lemma segmentStep_Some:
  "\<exists>d a. segmentStep X edge (Some (bd, bo)) seg = Some (d, a) \<and>
     d + 0.45 * a = min (bd + 0.45 * bo) (segmentScore X edge seg) \<and>
     ((d, a) = (bd, bo) \<or> (d, a) = (segmentDistance X edge seg, segmentOrientation X edge seg))"
  by (auto simp: segmentStep_def Let_def segmentScore_loop min_def)

lemma foldl_segmentStep_Some:
  "\<exists>d a. foldl (segmentStep X edge) (Some (bd, bo)) segs = Some (d, a) \<and>
     d + 0.45 * a \<le> bd + 0.45 * bo \<and>
     (\<forall>s\<in>set segs. d + 0.45 * a \<le> segmentScore X edge s) \<and>
     ((d, a) = (bd, bo) \<or>
      (\<exists>s\<in>set segs. d = segmentDistance X edge s \<and> a = segmentOrientation X edge s))"
proof (induction segs arbitrary: bd bo)
  case Nil
  then show ?case by simp
next
  case (Cons seg segs)
  obtain d1 a1 where st: "segmentStep X edge (Some (bd, bo)) seg = Some (d1, a1)"
    and m: "d1 + 0.45 * a1 = min (bd + 0.45 * bo) (segmentScore X edge seg)"
    and o: "(d1, a1) = (bd, bo) \<or> (d1, a1) = (segmentDistance X edge seg, segmentOrientation X edge seg)"
    using segmentStep_Some[of X edge bd bo seg] by blast
  obtain d a where f: "foldl (segmentStep X edge) (Some (d1, a1)) segs = Some (d, a)"
    and le: "d + 0.45 * a \<le> d1 + 0.45 * a1"
    and all: "\<forall>s\<in>set segs. d + 0.45 * a \<le> segmentScore X edge s"
    and or: "(d, a) = (d1, a1) \<or> (\<exists>s\<in>set segs. d = segmentDistance X edge s \<and> a = segmentOrientation X edge s)"
    using Cons.IH[of d1 a1] by blast
  have "foldl (segmentStep X edge) (Some (bd, bo)) (seg # segs) = Some (d, a)"
    using st f by simp
  moreover have "d + 0.45 * a \<le> bd + 0.45 * bo" using le m by simp
  moreover have "\<forall>s\<in>set (seg # segs). d + 0.45 * a \<le> segmentScore X edge s"
    using le m all by simp
  moreover have "(d, a) = (bd, bo) \<or>
      (\<exists>s\<in>set (seg # segs). d = segmentDistance X edge s \<and> a = segmentOrientation X edge s)"
    using o or by auto
  ultimately show ?case by blast
qed

lemma foldl_segmentStep_None:
  assumes "segs \<noteq> []"
  shows "\<exists>d a. foldl (segmentStep X edge) None segs = Some (d, a) \<and>
     (\<forall>s\<in>set segs. d + 0.45 * a \<le> segmentScore X edge s) \<and>
     (\<exists>s\<in>set segs. d = segmentDistance X edge s \<and> a = segmentOrientation X edge s)"
proof -
  obtain seg rest where sg: "segs = seg # rest" using assms by (cases segs) auto
  have st: "segmentStep X edge None seg = Some (segmentDistance X edge seg, segmentOrientation X edge seg)"
    by (simp add: segmentStep_def Let_def)
  obtain d a where f: "foldl (segmentStep X edge)
        (Some (segmentDistance X edge seg, segmentOrientation X edge seg)) rest = Some (d, a)"
    and le: "d + 0.45 * a \<le> segmentDistance X edge seg + 0.45 * segmentOrientation X edge seg"
    and all: "\<forall>s\<in>set rest. d + 0.45 * a \<le> segmentScore X edge s"
    and or: "(d, a) = (segmentDistance X edge seg, segmentOrientation X edge seg) \<or>
             (\<exists>s\<in>set rest. d = segmentDistance X edge s \<and> a = segmentOrientation X edge s)"
    using foldl_segmentStep_Some[of X edge "segmentDistance X edge seg" "segmentOrientation X edge seg" rest]
    by blast
  have "foldl (segmentStep X edge) None segs = Some (d, a)" using sg st f by simp
  moreover have "\<forall>s\<in>set segs. d + 0.45 * a \<le> segmentScore X edge s"
    using sg le all by (simp add: segmentScore_loop)
  moreover have "\<exists>s\<in>set segs. d = segmentDistance X edge s \<and> a = segmentOrientation X edge s"
    using sg or by auto
  ultimately show ?thesis by blast
qed

lemma evaluate_None:
  "candidateSegments candidate = [] \<Longrightarrow> evaluateRoadCandidateForEdge X edge candidate = None"
  by (simp add: evaluateRoadCandidateForEdge_def bestOverLines_segments)

lemma evaluate_Some:
  assumes "candidateSegments candidate \<noteq> []"
  shows "\<exists>r. evaluateRoadCandidateForEdge X edge candidate = Some r \<and>
     score r = Min (segmentScore X edge ` set (candidateSegments candidate)) \<and>
     score r = distanceMeters r + 0.45 * orientationDiffDeg' r \<and>
     (\<exists>s\<in>set (candidateSegments candidate).
        distanceMeters r = segmentDistance X edge s \<and> orientationDiffDeg' r = segmentOrientation X edge s) \<and>
     (isAdjacent r \<longleftrightarrow>
        (if kind candidate = Lane then distanceMeters r \<le> 28 \<and> orientationDiffDeg' r \<le> 85
         else distanceMeters r \<le> 20 \<and> orientationDiffDeg' r \<le> 55))"
proof -
  let ?segs = "candidateSegments candidate"
  obtain d a where f: "foldl (segmentStep X edge) None ?segs = Some (d, a)"
    and all: "\<forall>s\<in>set ?segs. d + 0.45 * a \<le> segmentScore X edge s"
    and ex: "\<exists>s\<in>set ?segs. d = segmentDistance X edge s \<and> a = segmentOrientation X edge s"
    using foldl_segmentStep_None[OF assms, of X edge] by blast
  have ev: "evaluateRoadCandidateForEdge X edge candidate = Some (evaluated candidate d a)"
    using f by (simp add: evaluateRoadCandidateForEdge_def bestOverLines_segments)
  have "d + 0.45 * a \<in> segmentScore X edge ` set ?segs"
    using ex by (auto simp: segmentScore_loop)
  then have mn: "Min (segmentScore X edge ` set ?segs) = d + 0.45 * a"
    using all by (intro Min_eqI) auto
  show ?thesis
    using ev mn ex by (simp add: evaluated_def Let_def thresholds)
qed

lemma set_evaluateAll:
  "set (evaluateAll X edge candidates)
     = {r. \<exists>c \<in> set candidates. evaluateRoadCandidateForEdge X edge c = Some r}"
  by (auto simp: evaluateAll_def split: option.splits)

lemma set_findEvaluated:
  "set (findEvaluatedRoadCandidatesForEdge X m edge)
     = {r. \<exists>c \<in> set (queryRoadCandidatesForEdge X m edge). evaluateRoadCandidateForEdge X edge c = Some r}"
  by (auto simp: findEvaluatedRoadCandidatesForEdge_def Let_def set_arraySort set_evaluateAll)

lemma sorted_findEvaluated:
  "sorted_wrt (\<lambda>a b. score a < score b \<or> (score a = score b \<and> distanceMeters a \<le> distanceMeters b))
     (findEvaluatedRoadCandidatesForEdge X m edge)"
  by (simp add: findEvaluatedRoadCandidatesForEdge_def Let_def sorted_compareEvaluated)

text \<open>
  C3.  A candidate without a segment yields no result.  A candidate with at least one segment
  yields a result whose score is the least combined score of its segments (distance from the
  midpoint of the edge plus 0.45 times the orientation difference), with the distance and
  orientation of a segment that attains it; the result is adjacent exactly if the distance is
  at most 20 m and the orientation at most 55 degrees for a street, 28 m and 85 degrees for a
  lane.  The evaluated list holds the results of the queried candidates, ascending by score,
  equal scores ascending by distance.
\<close>

theorem evaluator_score_adjacency_order:
  "(candidateSegments candidate = [] \<longrightarrow> evaluateRoadCandidateForEdge X edge candidate = None) \<and>
   (candidateSegments candidate \<noteq> [] \<longrightarrow>
      (\<exists>r. evaluateRoadCandidateForEdge X edge candidate = Some r \<and>
         score r = Min (segmentScore X edge ` set (candidateSegments candidate)) \<and>
         score r = distanceMeters r + 0.45 * orientationDiffDeg' r \<and>
         (\<exists>s \<in> set (candidateSegments candidate).
            distanceMeters r = midpointDistance X edge s \<and>
            orientationDiffDeg' r = orientationDifference X edge s) \<and>
         (isAdjacent r \<longleftrightarrow>
            (if kind candidate = Lane then distanceMeters r \<le> 28 \<and> orientationDiffDeg' r \<le> 85
             else distanceMeters r \<le> 20 \<and> orientationDiffDeg' r \<le> 55)))) \<and>
   set (findEvaluatedRoadCandidatesForEdge X m edge)
     = {r. \<exists>c \<in> set (queryRoadCandidatesForEdge X m edge). evaluateRoadCandidateForEdge X edge c = Some r} \<and>
   sorted_wrt (\<lambda>a b. score a < score b \<or> (score a = score b \<and> distanceMeters a \<le> distanceMeters b))
     (findEvaluatedRoadCandidatesForEdge X m edge)"
  using evaluate_None[of candidate X edge] evaluate_Some[of candidate X edge]
    set_findEvaluated[of X m edge] sorted_findEvaluated[of X m edge]
  unfolding segmentDistance_spec segmentOrientation_spec
  by blast

text \<open>
  Maple Street seen from the south edge of the test parcel: four segments in two polylines,
  the least score on the second, a diagonal.  The first segment is better aligned but
  farther, the third as near but across.  Four candidates are then ordered: Pine Street ties
  with Maple Street on the score and is farther.
\<close>

lemma segments_mapleCandidate:
  "candidateSegments mapleCandidate =
     [((- 0.001, - 0.0002), (0.0001, - 0.0002)), ((0.0001, - 0.0002), (0.0002, - 0.0001)),
      ((0.0002, - 0.0001), (0.0002, - 0.001)), ((0.001, - 0.0005), (0.002, - 0.0005))]"
  by code_simp

lemma scores_mapleCandidate:
  "map (segmentScore gridExt southEdge) (candidateSegments mapleCandidate)
     = [33.3585, 31.3695, 51.6195, 144.5535]"
  by code_simp

lemma orientations_mapleCandidate:
  "map (orientationDifference gridExt southEdge) (candidateSegments mapleCandidate) = [0, 45, 90, 0]"
  by code_simp

lemma evaluate_south_maple:
  "evaluateRoadCandidateForEdge gridExt southEdge mapleCandidate
     = Some (evaluated mapleCandidate 11.1195 45)"
  by code_simp

lemma candidates_evaluatorMap:
  "queryRoadCandidatesForEdge gridExt evaluatorMap southEdge
     = [pineCandidate, mapleCandidate, southLaneCandidate, farOakCandidate]"
  by code_simp

lemma evaluated_evaluatorMap:
  "findEvaluatedRoadCandidatesForEdge gridExt evaluatorMap southEdge
     = [evaluated farOakCandidate 25.57485 0, evaluated southLaneCandidate 26.6868 0,
        evaluated mapleCandidate 11.1195 45, evaluated pineCandidate 31.3695 0]"
  by code_simp

lemma evaluated_values:
  "score (evaluated mapleCandidate 11.1195 45) = 31.3695"
  "isAdjacent (evaluated mapleCandidate 11.1195 45)"
  by (simp_all add: evaluated_def Let_def thresholds mapleCandidate_def)

theorem evaluator_score_adjacency_order_witness:
  "candidateSegments mapleCandidate \<noteq> [] \<and>
   map (segmentScore gridExt southEdge) (candidateSegments mapleCandidate)
     = [33.3585, 31.3695, 51.6195, 144.5535] \<and>
   map (orientationDifference gridExt southEdge) (candidateSegments mapleCandidate) = [0, 45, 90, 0] \<and>
   evaluateRoadCandidateForEdge gridExt southEdge mapleCandidate
     = Some (evaluated mapleCandidate 11.1195 45) \<and>
   score (evaluated mapleCandidate 11.1195 45) = 31.3695 \<and>
   score (evaluated mapleCandidate 11.1195 45)
     = Min (segmentScore gridExt southEdge ` set (candidateSegments mapleCandidate)) \<and>
   isAdjacent (evaluated mapleCandidate 11.1195 45) \<and>
   queryRoadCandidatesForEdge gridExt evaluatorMap southEdge
     = [pineCandidate, mapleCandidate, southLaneCandidate, farOakCandidate] \<and>
   findEvaluatedRoadCandidatesForEdge gridExt evaluatorMap southEdge
     = [evaluated farOakCandidate 25.57485 0, evaluated southLaneCandidate 26.6868 0,
        evaluated mapleCandidate 11.1195 45, evaluated pineCandidate 31.3695 0] \<and>
   map score (findEvaluatedRoadCandidatesForEdge gridExt evaluatorMap southEdge)
     = [25.57485, 26.6868, 31.3695, 31.3695] \<and>
   map distanceMeters (findEvaluatedRoadCandidatesForEdge gridExt evaluatorMap southEdge)
     = [25.57485, 26.6868, 11.1195, 31.3695] \<and>
   map isAdjacent (findEvaluatedRoadCandidatesForEdge gridExt evaluatorMap southEdge)
     = [False, True, True, False] \<and>
   sorted_wrt (\<lambda>a b. score a < score b \<or> (score a = score b \<and> distanceMeters a \<le> distanceMeters b))
     (findEvaluatedRoadCandidatesForEdge gridExt evaluatorMap southEdge) \<and>
   candidateSegments (mapleCandidate \<lparr> lines := [[(0, 0)]] \<rparr>) = [] \<and>
   evaluateRoadCandidateForEdge gridExt southEdge (mapleCandidate \<lparr> lines := [[(0, 0)]] \<rparr>) = None"
proof -
  note th = evaluator_score_adjacency_order[of mapleCandidate gridExt southEdge evaluatorMap]
  note th0 = evaluator_score_adjacency_order
    [of "mapleCandidate \<lparr> lines := [[(0, 0)]] \<rparr>" gridExt southEdge evaluatorMap]
  have ne: "candidateSegments mapleCandidate \<noteq> []" by (simp add: segments_mapleCandidate)
  have em: "candidateSegments (mapleCandidate \<lparr> lines := [[(0, 0)]] \<rparr>) = []"
    by (simp add: candidateSegments_def consecutivePairs_def)
  have none: "evaluateRoadCandidateForEdge gridExt southEdge (mapleCandidate \<lparr> lines := [[(0, 0)]] \<rparr>) = None"
    using th0 em by blast
  have mn: "score (evaluated mapleCandidate 11.1195 45)
      = Min (segmentScore gridExt southEdge ` set (candidateSegments mapleCandidate))"
    using th ne evaluate_south_maple by auto
  have srt: "sorted_wrt (\<lambda>a b. score a < score b \<or> (score a = score b \<and> distanceMeters a \<le> distanceMeters b))
     (findEvaluatedRoadCandidatesForEdge gridExt evaluatorMap southEdge)"
    using th by blast
  have vals: "map score (findEvaluatedRoadCandidatesForEdge gridExt evaluatorMap southEdge)
       = [25.57485, 26.6868, 31.3695, 31.3695]"
    "map distanceMeters (findEvaluatedRoadCandidatesForEdge gridExt evaluatorMap southEdge)
       = [25.57485, 26.6868, 11.1195, 31.3695]"
    "map isAdjacent (findEvaluatedRoadCandidatesForEdge gridExt evaluatorMap southEdge)
       = [False, True, True, False]"
    unfolding evaluated_evaluatorMap
    by (simp_all add: evaluated_def Let_def thresholds mapleCandidate_def pineCandidate_def
          farOakCandidate_def southLaneCandidate_def)
  show ?thesis
    using ne scores_mapleCandidate orientations_mapleCandidate evaluate_south_maple
      evaluated_values mn candidates_evaluatorMap evaluated_evaluatorMap vals srt em none
    by blast
qed

section \<open>Viewport index: padded, capped and ordered\<close>


lemma cellLoop_Finite: "\<exists>xs. cellLoop (Finite a) (Finite b) = Some xs"
  by simp












text \<open>
  With a cell size of zero the cell indices are not finite.  A padded box with its west side
  at longitude zero gives the index \<open>NaN\<close>, the loops are skipped and the query returns no
  parcel; a padded box that lies east of longitude zero gives \<open>Infinity\<close> twice, and the loop
  over the columns does not end.
\<close>

lemma query_zero_cell_size:
  "queryParcelsInBounds (buildParcelViewportIndex [nearParcel] 0)
     \<lparr> getWest = 0, getEast = 0, getSouth = - 1, getNorth = 1 \<rparr> (capped 2) = Some [] \<and>
   queryParcelsInBounds (buildParcelViewportIndex [nearParcel] 0)
     \<lparr> getWest = 1, getEast = 2, getSouth = - 1, getNorth = 1 \<rparr> (capped 2) = None"
  by code_simp

section \<open>Road candidate finder: the kind of a candidate\<close>

lemma suffixes_exclusive: "endsWith n '' street'' \<Longrightarrow> \<not> endsWith n '' lane''"
  by (cases "rev n") (auto simp: endsWith_def)

lemma suffixRoadKindFromName_cases:
  "suffixRoadKindFromName nm =
     (if endsWith (normalizeStreetName nm) '' lane'' then Some Lane
      else if endsWith (normalizeStreetName nm) '' street'' then Some Street
      else None)"
  by (auto simp: suffixRoadKindFromName_def Let_def endsWith_def)

lemma inferKind_cases:
  "inferKind nm classJoined =
     (if endsWith (normalizeStreetName nm) '' lane'' then Lane
      else if endsWith (normalizeStreetName nm) '' street'' then Street
      else if laneLike nm classJoined then Lane else Street)"
  by (simp add: inferKind_def Let_def suffixRoadKindFromName_cases)

lemma toRoadCandidate_kind:
  assumes "toRoadCandidate feature = Some candidate"
  shows "kind candidate
           = inferKind (name candidate) (toLowerCase (className candidate @ '' '' @ sourceLayer candidate))"
  using assms by (auto simp: toRoadCandidate_def Let_def split: if_splits)

text \<open>
  C8 (as amended).  For a feature accepted as a road candidate: the kind is \<open>Lane\<close> if the
  normalized name ends in " lane"; it is \<open>Street\<close> if the normalized name ends in " street";
  otherwise it is \<open>Lane\<close> exactly if the normalized name has one of the words lane, alley,
  alleyway, or the class text contains lane, alley, driveway or access, or the class text has
  the word service and the normalized name has no street-type word.  A feature whose name
  ends in " street" is never a lane.
\<close>

theorem toRoadCandidate_kind_classification:
  assumes "toRoadCandidate feature = Some candidate"
  shows "(endsWith (normalizeStreetName (name candidate)) '' lane'' \<longrightarrow> kind candidate = Lane) \<and>
         (endsWith (normalizeStreetName (name candidate)) '' street'' \<longrightarrow> kind candidate = Street) \<and>
         (\<not> endsWith (normalizeStreetName (name candidate)) '' lane'' \<and>
          \<not> endsWith (normalizeStreetName (name candidate)) '' street'' \<longrightarrow>
            (kind candidate = Lane \<longleftrightarrow>
               hasWord (normalizeStreetName (name candidate)) [''lane'', ''alley'', ''alleyway''] \<or>
               includesAny (toLowerCase (className candidate @ '' '' @ sourceLayer candidate))
                 [''lane'', ''alley'', ''driveway'', ''access''] \<or>
               (hasWord (toLowerCase (className candidate @ '' '' @ sourceLayer candidate)) [''service''] \<and>
                \<not> hasWord (normalizeStreetName (name candidate))
                     [''street'', ''avenue'', ''road'', ''drive'', ''boulevard'', ''highway'', ''parkway'',
                      ''way'', ''place'', ''court'', ''crescent'', ''trail'', ''terrace'', ''connector''])))"
  using toRoadCandidate_kind[OF assms] suffixes_exclusive[of "normalizeStreetName (name candidate)"]
  by (auto simp: inferKind_cases laneLike_def explicitLaneName_def explicitStreetName_def
        laneLikeClass_def serviceClass_def explicitStreetWords_def)

lemma toRoadCandidate_oakStreet: "toRoadCandidate oakStreet = Some oakCandidate"
  by code_simp

lemma oak_street_suffix: "endsWith (normalizeStreetName (name oakCandidate)) '' street''"
  by code_simp

theorem toRoadCandidate_kind_classification_witness:
  "toRoadCandidate oakStreet = Some oakCandidate \<and>
   endsWith (normalizeStreetName (name oakCandidate)) '' street'' \<and>
   kind oakCandidate = Street"
  using toRoadCandidate_oakStreet oak_street_suffix
    toRoadCandidate_kind_classification[OF toRoadCandidate_oakStreet]
  by blast

text \<open>
  A feature named "Elm Avenue" whose class is "alley" is accepted and classified as a lane,
  although its name ends in the street-type suffix "avenue"; a feature named "Greenlane" with
  class "residential" is a street, although its normalized name ends in "lane".
\<close>

theorem street_suffix_lane_counterexample:
  "map_option kind (toRoadCandidate (lineFeature ''Elm Avenue'' ''alley'' [[0, 0], [0, 1]])) = Some Lane \<and>
   endsWith (normalizeStreetName ''Elm Avenue'') ''avenue'' \<and>
   map_option kind (toRoadCandidate (lineFeature ''Greenlane'' ''residential'' [[0, 0], [0, 1]]))
     = Some Street \<and>
   endsWith (normalizeStreetName ''Greenlane'') ''lane''"
  by code_simp

section \<open>Fields that the stamps keep\<close>

lemma applyMatchToEdge_fields [simp]:
  "index (applyMatchToEdge X e c) = index e"
  "start (applyMatchToEdge X e c) = start e"
  "end' (applyMatchToEdge X e c) = end' e"
  "midpoint (applyMatchToEdge X e c) = midpoint e"
  "lengthMeters (applyMatchToEdge X e c) = lengthMeters e"
  "type' (applyMatchToEdge X e c) = type' e"
  "roadName (applyMatchToEdge X e c) = name c"
  "isRoadAdjacent (applyMatchToEdge X e c) = isAdjacent c"
  "roadKind (applyMatchToEdge X e c) = (if isAdjacent c then Some (kind c) else None)"
  by (simp_all add: applyMatchToEdge_def)

lemma forceStreet_fields [simp]:
  "index (forceStreet e) = index e"
  "start (forceStreet e) = start e"
  "end' (forceStreet e) = end' e"
  "midpoint (forceStreet e) = midpoint e"
  "lengthMeters (forceStreet e) = lengthMeters e"
  "type' (forceStreet e) = type' e"
  "roadName (forceStreet e) = roadName e"
  "isRoadAdjacent (forceStreet e) = True"
  "roadKind (forceStreet e) = Some Street"
  by (simp_all add: forceStreet_def)

lemma stampDefault_fields [simp]:
  "index (stampDefault X ms e) = index e"
  "start (stampDefault X ms e) = start e"
  "end' (stampDefault X ms e) = end' e"
  "midpoint (stampDefault X ms e) = midpoint e"
  "lengthMeters (stampDefault X ms e) = lengthMeters e"
  "type' (stampDefault X ms e) = type' e"
  by (simp_all add: stampDefault_def split: option.splits)

lemma stampDefault_Nil [simp]:
  "roadKind (stampDefault X [] e) = roadKind e"
  "isRoadAdjacent (stampDefault X [] e) = isRoadAdjacent e"
  "roadName (stampDefault X [] e) = roadName e"
  by (simp_all add: stampDefault_def defaultMatch_def)

lemma stampFrontage_fields [simp]:
  "index (stampFrontage X em nps e) = index e"
  "start (stampFrontage X em nps e) = start e"
  "end' (stampFrontage X em nps e) = end' e"
  "midpoint (stampFrontage X em nps e) = midpoint e"
  "lengthMeters (stampFrontage X em nps e) = lengthMeters e"
  "type' (stampFrontage X em nps e) = Frontage"
  by (simp_all add: stampFrontage_def Let_def split: option.splits)

lemma stampRearLane_fields [simp]:
  "index (stampRearLane X c e) = index e"
  "start (stampRearLane X c e) = start e"
  "end' (stampRearLane X c e) = end' e"
  "midpoint (stampRearLane X c e) = midpoint e"
  "lengthMeters (stampRearLane X c e) = lengthMeters e"
  "type' (stampRearLane X c e) = RearLane"
  "isRoadAdjacent (stampRearLane X c e) = True"
  "roadKind (stampRearLane X c e) = Some Lane"
  by (simp_all add: stampRearLane_def Let_def)

section \<open>The edge array through the passes\<close>

lemma length_updateEdge [simp]: "length (updateEdge es i f) = length es"
  by (simp add: updateEdge_def)

lemma nth_updateEdge:
  "j < length es \<Longrightarrow> updateEdge es i f ! j = (if j = i then f (es ! j) else es ! j)"
  by (simp add: updateEdge_def)

lemma map_index_updateEdge:
  "(\<And>e. index (f e) = index e) \<Longrightarrow> map index (updateEdge es i f) = map index es"
  by (simp add: updateEdge_def map_update list_update_same_conv)

lemma edgeAt_Some: "edgeAt es i = Some e \<longleftrightarrow> i < length es \<and> e = es ! i"
  by (auto simp: edgeAt_def)

lemma fst_defaultLoop:
  "fst (defaultLoop X m es em) = map (\<lambda>e. stampDefault X (findEvaluatedRoadCandidatesForEdge X m e) e) es"
  by (induction es arbitrary: em) (simp_all add: Let_def)

lemma fst_defaultPass_fields:
  "length (fst (defaultPass X m es)) = length es"
  "map index (fst (defaultPass X m es)) = map index es"
  "map type' (fst (defaultPass X m es)) = map type' es"
  "map lengthMeters (fst (defaultPass X m es)) = map lengthMeters es"
  by (simp_all add: defaultPass_def fst_defaultLoop split: option.splits)

lemma map_index_toRingEdges: "map index (toRingEdges X cs) = [0 ..< length cs - 1]"
  by (simp add: toRingEdges_def newEdge_def map_idI comp_def)

lemma types_toRingEdges: "e \<in> set (toRingEdges X cs) \<Longrightarrow> type' e = Side"
  by (auto simp: toRingEdges_def newEdge_def split: if_splits)

lemma frontagePass_fields:
  "length (frontagePass X em nps fi es) = length es"
  "map index (frontagePass X em nps fi es) = map index es"
  by (simp_all add: frontagePass_def map_index_updateEdge split: option.splits)

lemma doubleFrontingPass_fields:
  "length (fst (doubleFrontingPass X em nps fi oi es)) = length es"
  "map index (fst (doubleFrontingPass X em nps fi oi es)) = map index es"
  by (simp_all add: doubleFrontingPass_def map_index_updateEdge split: option.splits)

lemma applyFlankage_fields:
  "length (fst (applyFlankage X em fi oi base rel es)) = length es"
  "map index (fst (applyFlankage X em fi oi base rel es)) = map index es"
  by (induction es) (simp_all add: Let_def split: option.splits)

lemma flankagePass_fields:
  "length (fst (flankagePass X em nps fi oi es)) = length es"
  "map index (fst (flankagePass X em nps fi oi es)) = map index es"
  by (simp_all add: flankagePass_def Let_def applyFlankage_fields)

lemma rearPass_fields:
  "length (fst (rearPass X em oi df es)) = length es"
  "map index (fst (rearPass X em oi df es)) = map index es"
  by (simp_all add: rearPass_def map_index_updateEdge split: option.splits)

lemma stage_lengths:
  "length (edgesAfterDefault X p m) = length (ring p) - 1"
  "length (edgesAfterFrontage X p m) = length (ring p) - 1"
  "length (fst (doubleFronting X p m)) = length (ring p) - 1"
  "length (fst (flankage X p m)) = length (ring p) - 1"
  "length (finalEdges X p m) = length (ring p) - 1"
  by (simp_all add: edgesAfterDefault_def edgesAfterFrontage_def doubleFronting_def flankage_def
        finalEdges_def rear_def fst_defaultPass_fields frontagePass_fields doubleFrontingPass_fields
        flankagePass_fields rearPass_fields toRingEdges_length)

lemma stage_indices:
  "map index (edgesAfterDefault X p m) = [0 ..< length (ring p) - 1]"
  "map index (edgesAfterFrontage X p m) = [0 ..< length (ring p) - 1]"
  "map index (fst (doubleFronting X p m)) = [0 ..< length (ring p) - 1]"
  "map index (fst (flankage X p m)) = [0 ..< length (ring p) - 1]"
  "map index (finalEdges X p m) = [0 ..< length (ring p) - 1]"
  by (simp_all add: edgesAfterDefault_def edgesAfterFrontage_def doubleFronting_def flankage_def
        finalEdges_def rear_def fst_defaultPass_fields frontagePass_fields doubleFrontingPass_fields
        flankagePass_fields rearPass_fields map_index_toRingEdges)

lemma index_nth:
  "map index es = [0 ..< n] \<Longrightarrow> i < n \<Longrightarrow> index (es ! i) = i"
  by (metis length_map length_upt minus_nat.diff_0 nth_map nth_upt plus_nat.add_0)

section \<open>Edge types through the passes\<close>

lemma set_updateEdge: "e \<in> set (updateEdge es i f) \<Longrightarrow> e \<in> set es \<or> (i < length es \<and> e = f (es ! i))"
  using set_update_subset_insert[of es i "f (es ! i)"] by (auto simp: updateEdge_def split: if_splits)

lemma types_afterDefault: "e \<in> set (edgesAfterDefault X p m) \<Longrightarrow> type' e = Side"
proof -
  assume "e \<in> set (edgesAfterDefault X p m)"
  then have "type' e \<in> set (map type' (edgesAfterDefault X p m))" by simp
  then have "type' e \<in> set (map type' (toRingEdges X (ring p)))"
    by (simp only: edgesAfterDefault_def fst_defaultPass_fields)
  then show ?thesis using types_toRingEdges by auto
qed

lemma types_frontagePass:
  "e \<in> set (frontagePass X em nps fi es) \<Longrightarrow> e \<in> set es \<or> type' e = Frontage"
  by (auto simp: frontagePass_def split: option.splits dest!: set_updateEdge)

lemma types_doubleFrontingPass:
  "e \<in> set (fst (doubleFrontingPass X em nps fi oi es)) \<Longrightarrow> e \<in> set es \<or> type' e = Frontage"
  by (auto simp: doubleFrontingPass_def split: option.splits dest!: set_updateEdge)

lemma types_applyFlankage:
  "e \<in> set (fst (applyFlankage X em fi oi base rel es)) \<Longrightarrow> e \<in> set es \<or> type' e = Flankage"
  by (induction es) (auto simp: Let_def split: option.splits if_splits)

lemma types_flankagePass:
  "e \<in> set (fst (flankagePass X em nps fi oi es)) \<Longrightarrow> e \<in> set es \<or> type' e = Flankage"
  by (auto simp: flankagePass_def Let_def split: if_splits dest!: types_applyFlankage)

lemma types_afterFlankage:
  "e \<in> set (fst (flankage X p m)) \<Longrightarrow> type' e = Side \<or> type' e = Frontage \<or> type' e = Flankage"
  unfolding flankage_def doubleFronting_def edgesAfterFrontage_def
  by (auto dest!: types_flankagePass types_doubleFrontingPass types_frontagePass types_afterDefault)

lemma rearPass_nth:
  assumes "i < length es" "type' (es ! i) \<noteq> Rear" "type' (es ! i) \<noteq> RearLane"
    and "type' (fst (rearPass X em oi df es) ! i) = Rear \<or> type' (fst (rearPass X em oi df es) ! i) = RearLane"
  shows "oi = Some i \<and> \<not> df"
  using assms
  by (auto simp: rearPass_def nth_updateEdge edgeAt_def split: option.splits if_splits)

section \<open>The opposite edge\<close>

lemma chooseBest_index:
  assumes "chooseBestOppositeWithinOrientation cs d = Some k"
  shows "k \<in> ocIndex ` set cs"
proof -
  let ?or = "filter (\<lambda>c. ocOrientationDiffDeg c \<le> d) cs"
  obtain c rest where s: "arraySort compareOpposite ?or = c # rest" and k: "k = ocIndex c"
    using assms by (auto simp: chooseBestOppositeWithinOrientation_def Let_def split: if_splits list.splits)
  have "c \<in> set (arraySort compareOpposite ?or)" using s by simp
  then have "c \<in> set cs" by (simp add: set_arraySort)
  then show ?thesis using k by blast
qed

lemma oppositeCandidates_index:
  "k \<in> ocIndex ` set (oppositeCandidates X es fi f) \<Longrightarrow> k \<noteq> fi \<and> k \<in> index ` set es"
  by (auto simp: oppositeCandidates_def)

lemma farthest_index:
  assumes "\<forall>k. fst st = Some k \<longrightarrow> k \<noteq> fi \<and> k \<in> index ` set es0" "set es \<subseteq> set es0"
    and "fst (foldl (farthestStep X fi f) st es) = Some j"
  shows "j \<noteq> fi \<and> j \<in> index ` set es0"
  using assms
proof (induction es arbitrary: st)
  case Nil
  then show ?case by simp
next
  case (Cons e es)
  have "\<forall>k. fst (farthestStep X fi f st e) = Some k \<longrightarrow> k \<noteq> fi \<and> k \<in> index ` set es0"
    using Cons.prems(1,2) by (auto simp: farthestStep_def Let_def split: if_splits)
  then show ?case using Cons.IH[of "farthestStep X fi f st e"] Cons.prems by auto
qed

lemma findOppositeEdgeIndex_index:
  assumes "findOppositeEdgeIndex X es fi = Some k"
  shows "k \<noteq> fi \<and> k \<in> index ` set es"
proof -
  obtain f where f: "edgeAt es fi = Some f"
    using assms by (auto simp: findOppositeEdgeIndex_def split: option.splits)
  let ?cs = "oppositeCandidates X es fi f"
  consider (strict) "chooseBestOppositeWithinOrientation ?cs OPPOSITE_EDGE_STRICT_ORIENTATION_DEG = Some k"
    | (relaxed) "chooseBestOppositeWithinOrientation ?cs OPPOSITE_EDGE_RELAXED_ORIENTATION_DEG = Some k"
    | (far) "fst (foldl (farthestStep X fi f) (None, - 1) es) = Some k"
    using assms f by (auto simp: findOppositeEdgeIndex_def Let_def split: option.splits)
  then show ?thesis
  proof cases
    case strict
    then show ?thesis using chooseBest_index oppositeCandidates_index by blast
  next
    case relaxed
    then show ?thesis using chooseBest_index oppositeCandidates_index by blast
  next
    case far
    then show ?thesis using farthest_index[of "(None, - 1)" fi es es X f k] by simp
  qed
qed

lemma oppositeIndex_range:
  assumes "oppositeIndex X p m = Some k"
  shows "k < length (ring p) - 1 \<and> frontageIndex X p m \<noteq> Some k"
proof -
  obtain fi where fi: "frontageIndex X p m = Some fi"
    and o: "findOppositeEdgeIndex X (edgesAfterFrontage X p m) fi = Some k"
    using assms by (auto simp: oppositeIndex_def split: option.splits)
  have "k \<noteq> fi" "k \<in> index ` set (edgesAfterFrontage X p m)"
    using findOppositeEdgeIndex_index[OF o] by simp_all
  then have "k \<in> set (map index (edgesAfterFrontage X p m))" by simp
  then have "k < length (ring p) - 1" by (simp only: stage_indices) simp
  then show ?thesis using fi \<open>k \<noteq> fi\<close> by simp
qed

section \<open>The frontage edge\<close>

lemma longestEdge_in: "longestEdge es = Some e \<Longrightarrow> e \<in> set es"
proof -
  have "foldl (\<lambda>best current. if lengthMeters current > lengthMeters best then current else best) b xs
          \<in> set (b # xs)" for b :: EdgeAnalysis and xs
    by (induction xs arbitrary: b) auto
  then show "longestEdge es = Some e \<Longrightarrow> e \<in> set es"
    by (auto simp: longestEdge_def split: list.splits)
qed

lemma selectStep_in:
  assumes "\<forall>be bc. best = Some (be, bc) \<longrightarrow> be \<in> set es0" "e \<in> set es0"
  shows "\<forall>be bc. selectStep em ns rel mode best e = Some (be, bc) \<longrightarrow> be \<in> set es0"
  using assms
  by (auto simp: selectStep_def Let_def split: option.splits if_splits)

lemma foldl_selectStep_in:
  assumes "\<forall>be bc. best = Some (be, bc) \<longrightarrow> be \<in> set es0" "set es \<subseteq> set es0"
  shows "\<forall>be bc. foldl (selectStep em ns rel mode) best es = Some (be, bc) \<longrightarrow> be \<in> set es0"
  using assms
proof (induction es arbitrary: best)
  case Nil
  then show ?case by simp
next
  case (Cons e es)
  have e: "e \<in> set es0" and sub: "set es \<subseteq> set es0" using Cons.prems(2) by simp_all
  have st: "\<forall>be bc. selectStep em ns rel mode best e = Some (be, bc) \<longrightarrow> be \<in> set es0"
    by (rule selectStep_in[OF Cons.prems(1) e])
  show ?case using Cons.IH[OF st sub] by simp
qed

lemma selectNearest_in:
  "selectNearestEdgeByStreetCandidate es em ns rel mode = Some e \<Longrightarrow> e \<in> set es"
  using foldl_selectStep_in[of None es es em ns rel mode]
  by (auto simp: selectNearestEdgeByStreetCandidate_def split: if_splits)

lemma candidateStreetEdgesOf_subset: "set (candidateStreetEdgesOf es em) \<subseteq> set es"
  by (auto simp: candidateStreetEdgesOf_def Let_def)

lemma orElseOpt_Some: "orElseOpt a b = Some x \<Longrightarrow> a = Some x \<or> (a = None \<and> b = Some x)"
  by (auto simp: orElseOpt_def split: option.splits)

lemma frontageByPrimaryStreet_in: "frontageByPrimaryStreet es em nps = Some e \<Longrightarrow> e \<in> set es"
  by (auto simp: frontageByPrimaryStreet_def split: if_splits dest!: orElseOpt_Some dest: selectNearest_in)

lemma selectFrontage_in:
  assumes "selectFrontage es em nps = Some e"
  shows "e \<in> set es"
proof -
  let ?cs = "candidateStreetEdgesOf es em"
  consider "frontageByPrimaryStreet es em nps = Some e"
    | "selectNearestEdgeByStreetCandidate ?cs em [] False FrontageMode = Some e"
    | "selectNearestEdgeByStreetCandidate ?cs em [] True FrontageMode = Some e"
    | "longestEdge es = Some e"
    using assms unfolding selectFrontage_def Let_def by (blast dest: orElseOpt_Some)
  then show ?thesis
  proof cases
    case 1
    then show ?thesis by (rule frontageByPrimaryStreet_in)
  next
    case 2
    then show ?thesis using selectNearest_in candidateStreetEdgesOf_subset by blast
  next
    case 3
    then show ?thesis using selectNearest_in candidateStreetEdgesOf_subset by blast
  next
    case 4
    then show ?thesis by (rule longestEdge_in)
  qed
qed

lemma frontageIndex_range:
  assumes "frontageIndex X p m = Some k"
  shows "k < length (ring p) - 1"
proof -
  obtain e where s: "selectFrontage (edgesAfterDefault X p m) (edgeMatches X p m) (normalizedPrimaryStreet p) = Some e"
    and k: "k = index e"
    using assms by (auto simp: frontageIndex_def)
  from s have "e \<in> set (edgesAfterDefault X p m)" by (rule selectFrontage_in)
  then have "k \<in> set (map index (edgesAfterDefault X p m))" using k by simp
  then show ?thesis by (simp only: stage_indices) simp
qed

lemma frontageIndex_nonempty:
  assumes "2 \<le> length (ring p)"
  shows "frontageIndex X p m \<noteq> None"
proof -
  have "edgesAfterDefault X p m \<noteq> []"
    using assms stage_lengths(1)[of X p m] by auto
  then have "longestEdge (edgesAfterDefault X p m) \<noteq> None"
    by (auto simp: longestEdge_def split: list.splits)
  then show ?thesis
    by (auto simp: frontageIndex_def selectFrontage_def Let_def orElseOpt_def split: option.splits)
qed

section \<open>The opposite edge depends on the geometry only\<close>

lemma oppositeCandidates_cong:
  assumes "list_all2 sameGeometry es es'" "sameGeometry f f'"
  shows "oppositeCandidates X es fi f = oppositeCandidates X es' fi f'"
  using assms by (induction rule: list_all2_induct) (auto simp: oppositeCandidates_def sameGeometry_def)

lemma farthest_cong:
  assumes "list_all2 sameGeometry es es'" "sameGeometry f f'"
  shows "foldl (farthestStep X fi f) st es = foldl (farthestStep X fi f') st es'"
  using assms
proof (induction arbitrary: st rule: list_all2_induct)
  case Nil
  then show ?case by simp
next
  case (Cons e es e' es')
  have "farthestStep X fi f st e = farthestStep X fi f' st e'"
    using Cons.hyps(1) Cons.prems by (auto simp: farthestStep_def sameGeometry_def Let_def)
  then show ?case using Cons.IH[OF Cons.prems] by simp
qed

lemma findOppositeEdgeIndex_cong:
  assumes "list_all2 sameGeometry es es'"
  shows "findOppositeEdgeIndex X es fi = findOppositeEdgeIndex X es' fi"
proof (cases "fi < length es")
  case False
  then show ?thesis using list_all2_lengthD[OF assms] by (simp add: findOppositeEdgeIndex_def edgeAt_def)
next
  case True
  have l: "fi < length es'" using True list_all2_lengthD[OF assms] by simp
  have g: "sameGeometry (es ! fi) (es' ! fi)" using list_all2_nthD[OF assms True] .
  show ?thesis
    using True l
    by (simp add: findOppositeEdgeIndex_def edgeAt_def Let_def
          oppositeCandidates_cong[OF assms g] farthest_cong[OF assms g]
          cong del: option.case_cong_weak)
qed

lemma geometry_afterFrontage:
  "list_all2 sameGeometry (edgesAfterFrontage X p m) (toRingEdges X (ring p))"
proof -
  have d: "i < length (toRingEdges X (ring p)) \<Longrightarrow>
        sameGeometry (fst (defaultPass X m (toRingEdges X (ring p))) ! i) (toRingEdges X (ring p) ! i)" for i
    by (cases m) (simp_all add: defaultPass_def fst_defaultLoop sameGeometry_def)
  have "i < length (toRingEdges X (ring p)) \<Longrightarrow>
        sameGeometry (edgesAfterFrontage X p m ! i) (toRingEdges X (ring p) ! i)" for i
    using d[of i]
    by (auto simp: edgesAfterFrontage_def edgesAfterDefault_def frontagePass_def nth_updateEdge
          fst_defaultPass_fields sameGeometry_def split: option.splits)
  then show ?thesis
    by (simp add: list_all2_conv_all_nth stage_lengths toRingEdges_length)
qed

lemma oppositeIndex_geometry:
  "oppositeIndex X p m
     = (case frontageIndex X p m of
          None \<Rightarrow> None
        | Some fi \<Rightarrow> findOppositeEdgeIndex X (toRingEdges X (ring p)) fi)"
  by (simp add: oppositeIndex_def findOppositeEdgeIndex_cong[OF geometry_afterFrontage]
        split: option.splits)

section \<open>The analysis of the test parcel\<close>

lemma test_ring: "toRingEdges gridExt (ring (testParcel a)) = [southEdge, eastEdge, northEdge, westEdge]"
  by code_simp

lemma test_opposite:
  "findOppositeEdgeIndex gridExt [southEdge, eastEdge, northEdge, westEdge] 0 = Some 2"
  by code_simp

lemma test_longest:
  "map_option index (longestEdge [southEdge, eastEdge, northEdge, westEdge]) = Some 0"
  by code_simp

lemma test_edge_fields [simp]:
  "index southEdge = 0" "index eastEdge = 1" "index northEdge = 2" "index westEdge = 3"
  "type' southEdge = Side" "type' eastEdge = Side" "type' northEdge = Side" "type' westEdge = Side"
  "lengthMeters southEdge = 44.478" "lengthMeters eastEdge = 33.3585"
  "lengthMeters northEdge = 44.478" "lengthMeters westEdge = 33.3585"
  by (simp_all add: southEdge_def eastEdge_def northEdge_def westEdge_def newEdge_def gridExt_def
        gridDistance_def metersPerDegree_def)

lemma test_defaultPass:
  assumes q: "\<And>e. queryRoadCandidatesForEdge gridExt m e = cs" and ne: "cs \<noteq> []"
    and s: "arraySort compareEvaluated (evaluateAll gridExt southEdge cs) = ms0"
           "arraySort compareEvaluated (evaluateAll gridExt eastEdge cs) = ms1"
           "arraySort compareEvaluated (evaluateAll gridExt northEdge cs) = ms2"
           "arraySort compareEvaluated (evaluateAll gridExt westEdge cs) = ms3"
  shows "edgesAfterDefault gridExt (testParcel a) (Some m)
           = [stampDefault gridExt ms0 southEdge, stampDefault gridExt ms1 eastEdge,
              stampDefault gridExt ms2 northEdge, stampDefault gridExt ms3 westEdge]"
    and "edgeMatches gridExt (testParcel a) (Some m) = [0 \<mapsto> ms0, 1 \<mapsto> ms1, 2 \<mapsto> ms2, 3 \<mapsto> ms3]"
  using ne
  by (simp_all add: edgesAfterDefault_def edgeMatches_def test_ring defaultPass_def Let_def
        findEvaluatedRoadCandidatesForEdge_def q s)

lemma evaluated_fields [simp]:
  "name (evaluated c d a) = name c"
  "kind (evaluated c d a) = kind c"
  "distanceMeters (evaluated c d a) = d"
  "orientationDiffDeg' (evaluated c d a) = a"
  "isAdjacent (evaluated c d a) =
     (if kind c = Lane then d \<le> 28 \<and> a \<le> 85 else d \<le> 20 \<and> a \<le> 55)"
  by (simp_all add: evaluated_def Let_def thresholds)

lemma candidate_fields [simp]:
  "name oakCandidate = ''Oak Street''" "kind oakCandidate = Street"
  "name farOakCandidate = ''Oak Street''" "kind farOakCandidate = Street"
  "name laneCandidate = []" "kind laneCandidate = Lane"
  "name elmCandidate = ''Elm Avenue''" "kind elmCandidate = Street"
  "name nearElmCandidate = ''Elm Avenue''" "kind nearElmCandidate = Street"
  by (simp_all add: oakCandidate_def farOakCandidate_def laneCandidate_def elmCandidate_def
        nearElmCandidate_def)

lemma normalized_names [simp]:
  "normalizeStreetName ''Oak Street'' = ''oak street''"
  "normalizeStreetName ''Elm Avenue'' = ''elm avenue''"
  "normalizeStreetName [] = []"
  by code_simp+

lemma oakParcel_street [simp]: "normalizedPrimaryStreet oakParcel = ''oak street''"
  by code_simp

lemma oak_ring: "toRingEdges gridExt (ring oakParcel) = [southEdge, eastEdge, northEdge, westEdge]"
  by (simp add: oakParcel_def test_ring)

lemma lane_detected_case:
  "(case oppositeEdge X p m of None \<Rightarrow> False | Some oe \<Rightarrow> isRoadAdjacent oe \<and> roadKind oe = Some Lane)
     = laneDetectedOnOpposite X p m"
  by (simp add: laneDetectedOnOpposite_def split: option.splits)

lemmas select_defs =
  selectFrontage_def frontageByPrimaryStreet_def selectNearestEdgeByStreetCandidate_def
  selectStep_def candidateFor_def firstAdjacentStreetByName_def orElseOpt_def
  candidateStreetEdgesOf_def hasStreetCandidate_def isRelaxedStreetCandidateForMode_def
  isRelaxedLaneCandidate_def thresholds longestEdge_def matchesOf_def Let_def

lemmas pass_defs =
  frontagePass_def stampFrontage_def doubleFrontingPass_def doubleFrontingCandidate_def
  frontageStreetOf_def edgeAtOpt_def edgeAt_def updateEdge_def flankagePass_def rearPass_def
  orElse_def

subsection \<open>Oak Street, the lane and Elm Avenue at 22 m\<close>

lemma weak_candidates:
  "queryRoadCandidatesForEdge gridExt weakCornerMap e = [oakCandidate, laneCandidate, elmCandidate]"
proof -
  have "uniqueCandidates (concat (map (\<lambda>feature. case toRoadCandidate feature of
            None \<Rightarrow> [] | Some candidate \<Rightarrow> [candidate]) [oakStreet, rearLane, elmAvenue]))
          = [oakCandidate, laneCandidate, elmCandidate]"
    by code_simp
  then show ?thesis
    by (simp only: queryRoadCandidatesForEdge_def Let_def weakCornerMap_def testMap_def
          MapboxMap.select_convs)
qed

lemma weak_sorted:
  "arraySort compareEvaluated (evaluateAll gridExt southEdge [oakCandidate, laneCandidate, elmCandidate])
     = [evaluated oakCandidate 5.55975 0, evaluated laneCandidate 38.91825 0, evaluated elmCandidate 44.478 90]"
  "arraySort compareEvaluated (evaluateAll gridExt eastEdge [oakCandidate, laneCandidate, elmCandidate])
     = [evaluated elmCandidate 22.239 0, evaluated oakCandidate 22.239 90, evaluated laneCandidate 22.239 90]"
  "arraySort compareEvaluated (evaluateAll gridExt northEdge [oakCandidate, laneCandidate, elmCandidate])
     = [evaluated laneCandidate 5.55975 0, evaluated oakCandidate 38.91825 0, evaluated elmCandidate 44.478 90]"
  "arraySort compareEvaluated (evaluateAll gridExt westEdge [oakCandidate, laneCandidate, elmCandidate])
     = [evaluated oakCandidate 22.239 90, evaluated laneCandidate 22.239 90, evaluated elmCandidate 66.717 0]"
  by code_simp+

lemma weak_default:
  "edgesAfterDefault gridExt oakParcel (Some weakCornerMap)
     = [stampDefault gridExt (matchesOf weakCornerMatches 0) southEdge,
        stampDefault gridExt (matchesOf weakCornerMatches 1) eastEdge,
        stampDefault gridExt (matchesOf weakCornerMatches 2) northEdge,
        stampDefault gridExt (matchesOf weakCornerMatches 3) westEdge]"
  "edgeMatches gridExt oakParcel (Some weakCornerMap) = weakCornerMatches"
  unfolding oakParcel_def
  by (simp_all add: test_defaultPass[OF weak_candidates _ weak_sorted] weakCornerMatches_def matchesOf_def)

lemma weak_frontage:
  "frontageMatchedByPrimaryStreet gridExt oakParcel (Some weakCornerMap)"
  "frontageIndex gridExt oakParcel (Some weakCornerMap) = Some 0"
  by (simp_all add: frontageMatchedByPrimaryStreet_def frontageIndex_def weak_default select_defs
        weakCornerMatches_def)

lemma weak_opposite: "oppositeIndex gridExt oakParcel (Some weakCornerMap) = Some 2"
  by (simp add: oppositeIndex_geometry weak_frontage oak_ring test_opposite)

lemma weak_afterFrontage:
  "edgesAfterFrontage gridExt oakParcel (Some weakCornerMap)
     = (edgesAfterDefault gridExt oakParcel (Some weakCornerMap))
         [0 := forceStreet (applyMatchToEdge gridExt
                 ((edgesAfterDefault gridExt oakParcel (Some weakCornerMap) ! 0) \<lparr> type' := Frontage \<rparr>)
                 (evaluated oakCandidate 5.55975 0))]"
  by (simp add: edgesAfterFrontage_def weak_frontage weak_default pass_defs select_defs
        weakCornerMatches_def)

lemma weak_doubleFronting:
  "doubleFronting gridExt oakParcel (Some weakCornerMap)
     = (edgesAfterFrontage gridExt oakParcel (Some weakCornerMap), False)"
  by (simp add: doubleFronting_def weak_frontage weak_opposite weak_afterFrontage weak_default
        pass_defs select_defs weakCornerMatches_def)

lemma weak_flankage:
  "flankage gridExt oakParcel (Some weakCornerMap)
     = ((edgesAfterFrontage gridExt oakParcel (Some weakCornerMap))
          [1 := forceStreet (applyMatchToEdge gridExt
                  ((edgesAfterFrontage gridExt oakParcel (Some weakCornerMap) ! 1) \<lparr> type' := Flankage \<rparr>)
                  (evaluated elmCandidate 22.239 0))],
        1, True)"
  by (simp add: flankage_def weak_doubleFronting weak_frontage weak_opposite weak_afterFrontage
        weak_default pass_defs select_defs weakCornerMatches_def)

lemma weak_rear:
  "rear gridExt oakParcel (Some weakCornerMap)
     = ((fst (flankage gridExt oakParcel (Some weakCornerMap)))
          [2 := stampRearLane gridExt (evaluated laneCandidate 5.55975 0)
                  (fst (flankage gridExt oakParcel (Some weakCornerMap)) ! 2)],
        False)"
  by (simp add: rear_def isDoubleFronting_def weak_doubleFronting weak_flankage weak_frontage
        weak_opposite weak_afterFrontage weak_default pass_defs select_defs weakCornerMatches_def)

lemma weak_result:
  "flankageCount gridExt oakParcel (Some weakCornerMap) = 1"
  "usedRelaxedFlankage gridExt oakParcel (Some weakCornerMap)"
  "\<not> usedRelaxedLane gridExt oakParcel (Some weakCornerMap)"
  "\<not> isDoubleFronting gridExt oakParcel (Some weakCornerMap)"
  "laneDetectedOnOpposite gridExt oakParcel (Some weakCornerMap)"
  "map type' (finalEdges gridExt oakParcel (Some weakCornerMap)) = [Frontage, Flankage, RearLane, Side]"
  by (simp_all add: flankageCount_def usedRelaxedFlankage_def usedRelaxedLane_def isDoubleFronting_def
        laneDetectedOnOpposite_def oppositeEdge_def finalEdges_def weak_rear weak_flankage
        weak_doubleFronting weak_opposite weak_afterFrontage weak_default edgeAtOpt_def edgeAt_def)

lemma weak_lotType:
  "lotType (analyzeParcel gridExt oakParcel (Some weakCornerMap)) = StandardWithLane"
  "confidence (analyzeParcel gridExt oakParcel (Some weakCornerMap)) = Medium"
  by (simp_all add: analyzeParcel_def lotTypeAndReason_def determineLotType_def hasReliableFlankage_def
        confidenceOf_def Let_def weak_result weak_frontage lane_detected_case)

subsection \<open>Oak Street, the lane and Elm Avenue at 11 m\<close>

lemma corner_candidates:
  "queryRoadCandidatesForEdge gridExt cornerMap e = [oakCandidate, laneCandidate, nearElmCandidate]"
proof -
  have "uniqueCandidates (concat (map (\<lambda>feature. case toRoadCandidate feature of
            None \<Rightarrow> [] | Some candidate \<Rightarrow> [candidate]) [oakStreet, rearLane, nearElmAvenue]))
          = [oakCandidate, laneCandidate, nearElmCandidate]"
    by code_simp
  then show ?thesis
    by (simp only: queryRoadCandidatesForEdge_def Let_def cornerMap_def testMap_def
          MapboxMap.select_convs)
qed

lemma corner_sorted:
  "arraySort compareEvaluated (evaluateAll gridExt southEdge [oakCandidate, laneCandidate, nearElmCandidate])
     = [evaluated oakCandidate 5.55975 0, evaluated laneCandidate 38.91825 0, evaluated nearElmCandidate 33.3585 90]"
  "arraySort compareEvaluated (evaluateAll gridExt eastEdge [oakCandidate, laneCandidate, nearElmCandidate])
     = [evaluated nearElmCandidate 11.1195 0, evaluated oakCandidate 22.239 90, evaluated laneCandidate 22.239 90]"
  "arraySort compareEvaluated (evaluateAll gridExt northEdge [oakCandidate, laneCandidate, nearElmCandidate])
     = [evaluated laneCandidate 5.55975 0, evaluated oakCandidate 38.91825 0, evaluated nearElmCandidate 33.3585 90]"
  "arraySort compareEvaluated (evaluateAll gridExt westEdge [oakCandidate, laneCandidate, nearElmCandidate])
     = [evaluated nearElmCandidate 55.5975 0, evaluated oakCandidate 22.239 90, evaluated laneCandidate 22.239 90]"
  by code_simp+

lemma corner_default:
  "edgesAfterDefault gridExt oakParcel (Some cornerMap)
     = [stampDefault gridExt (matchesOf cornerMatches 0) southEdge,
        stampDefault gridExt (matchesOf cornerMatches 1) eastEdge,
        stampDefault gridExt (matchesOf cornerMatches 2) northEdge,
        stampDefault gridExt (matchesOf cornerMatches 3) westEdge]"
  "edgeMatches gridExt oakParcel (Some cornerMap) = cornerMatches"
  unfolding oakParcel_def
  by (simp_all add: test_defaultPass[OF corner_candidates _ corner_sorted] cornerMatches_def matchesOf_def)

lemma corner_frontage:
  "frontageMatchedByPrimaryStreet gridExt oakParcel (Some cornerMap)"
  "frontageIndex gridExt oakParcel (Some cornerMap) = Some 0"
  by (simp_all add: frontageMatchedByPrimaryStreet_def frontageIndex_def corner_default select_defs
        cornerMatches_def)

lemma corner_opposite: "oppositeIndex gridExt oakParcel (Some cornerMap) = Some 2"
  by (simp add: oppositeIndex_geometry corner_frontage oak_ring test_opposite)

lemma corner_afterFrontage:
  "edgesAfterFrontage gridExt oakParcel (Some cornerMap)
     = (edgesAfterDefault gridExt oakParcel (Some cornerMap))
         [0 := forceStreet (applyMatchToEdge gridExt
                 ((edgesAfterDefault gridExt oakParcel (Some cornerMap) ! 0) \<lparr> type' := Frontage \<rparr>)
                 (evaluated oakCandidate 5.55975 0))]"
  by (simp add: edgesAfterFrontage_def corner_frontage corner_default pass_defs select_defs
        cornerMatches_def)

lemma corner_doubleFronting:
  "doubleFronting gridExt oakParcel (Some cornerMap)
     = (edgesAfterFrontage gridExt oakParcel (Some cornerMap), False)"
  by (simp add: doubleFronting_def corner_frontage corner_opposite corner_afterFrontage corner_default
        pass_defs select_defs cornerMatches_def)

lemma corner_flankage:
  "flankage gridExt oakParcel (Some cornerMap)
     = ((edgesAfterFrontage gridExt oakParcel (Some cornerMap))
          [1 := forceStreet (applyMatchToEdge gridExt
                  ((edgesAfterFrontage gridExt oakParcel (Some cornerMap) ! 1) \<lparr> type' := Flankage \<rparr>)
                  (evaluated nearElmCandidate 11.1195 0))],
        1, False)"
  by (simp add: flankage_def corner_doubleFronting corner_frontage corner_opposite corner_afterFrontage
        corner_default pass_defs select_defs cornerMatches_def)

lemma corner_rear:
  "rear gridExt oakParcel (Some cornerMap)
     = ((fst (flankage gridExt oakParcel (Some cornerMap)))
          [2 := stampRearLane gridExt (evaluated laneCandidate 5.55975 0)
                  (fst (flankage gridExt oakParcel (Some cornerMap)) ! 2)],
        False)"
  by (simp add: rear_def isDoubleFronting_def corner_doubleFronting corner_flankage corner_frontage
        corner_opposite corner_afterFrontage corner_default pass_defs select_defs cornerMatches_def)

lemma corner_result:
  "flankageCount gridExt oakParcel (Some cornerMap) = 1"
  "\<not> usedRelaxedFlankage gridExt oakParcel (Some cornerMap)"
  "\<not> usedRelaxedLane gridExt oakParcel (Some cornerMap)"
  "\<not> isDoubleFronting gridExt oakParcel (Some cornerMap)"
  "laneDetectedOnOpposite gridExt oakParcel (Some cornerMap)"
  "map type' (finalEdges gridExt oakParcel (Some cornerMap)) = [Frontage, Flankage, RearLane, Side]"
  by (simp_all add: flankageCount_def usedRelaxedFlankage_def usedRelaxedLane_def isDoubleFronting_def
        laneDetectedOnOpposite_def oppositeEdge_def finalEdges_def corner_rear corner_flankage
        corner_doubleFronting corner_opposite corner_afterFrontage corner_default edgeAtOpt_def edgeAt_def)

lemma corner_lotType:
  "lotType (analyzeParcel gridExt oakParcel (Some cornerMap)) = CornerLot"
  "confidence (analyzeParcel gridExt oakParcel (Some cornerMap)) = High"
  by (simp_all add: analyzeParcel_def lotTypeAndReason_def determineLotType_def hasReliableFlankage_def
        confidenceOf_def Let_def corner_result corner_frontage lane_detected_case)

subsection \<open>Oak Street at 26 m only\<close>













section \<open>Rear and rear lane\<close>

text \<open>
  C10.  In the analysis that analyzeParcel returns, an edge of type \<open>Rear\<close> or \<open>RearLane\<close> is
  the identified opposite edge, so at most one edge has such a type; and when double fronting is
  detected no edge has such a type.
\<close>

theorem rear_only_on_opposite:
  "(\<forall>i < length (edges (analyzeParcel X p m)).
      type' (edges (analyzeParcel X p m) ! i) = Rear \<or> type' (edges (analyzeParcel X p m) ! i) = RearLane
      \<longrightarrow> oppositeIndex X p m = Some i \<and> \<not> isDoubleFronting X p m) \<and>
   (\<forall>i < length (edges (analyzeParcel X p m)). \<forall>j < length (edges (analyzeParcel X p m)).
      (type' (edges (analyzeParcel X p m) ! i) = Rear \<or> type' (edges (analyzeParcel X p m) ! i) = RearLane) \<and>
      (type' (edges (analyzeParcel X p m) ! j) = Rear \<or> type' (edges (analyzeParcel X p m) ! j) = RearLane)
      \<longrightarrow> i = j) \<and>
   (isDoubleFronting X p m \<longrightarrow>
      (\<forall>e \<in> set (edges (analyzeParcel X p m)). type' e \<noteq> Rear \<and> type' e \<noteq> RearLane))"
proof -
  let ?es = "edges (analyzeParcel X p m)"
  have es: "?es = fst (rearPass X (edgeMatches X p m) (oppositeIndex X p m) (isDoubleFronting X p m)
                      (fst (flankage X p m)))"
    by (simp add: analyzeParcel_def finalEdges_def rear_def)
  have len: "length ?es = length (fst (flankage X p m))"
    by (simp add: es rearPass_fields)
  have one: "\<And>i. i < length ?es \<Longrightarrow> type' (?es ! i) = Rear \<or> type' (?es ! i) = RearLane
      \<Longrightarrow> oppositeIndex X p m = Some i \<and> \<not> isDoubleFronting X p m"
  proof -
    fix i
    assume i: "i < length ?es" and t: "type' (?es ! i) = Rear \<or> type' (?es ! i) = RearLane"
    have "fst (flankage X p m) ! i \<in> set (fst (flankage X p m))" using i len by simp
    then have "type' (fst (flankage X p m) ! i) \<noteq> Rear \<and> type' (fst (flankage X p m) ! i) \<noteq> RearLane"
      using types_afterFlankage[of "fst (flankage X p m) ! i" X p m] by auto
    then have nr: "type' (fst (flankage X p m) ! i) \<noteq> Rear" "type' (fst (flankage X p m) ! i) \<noteq> RearLane"
      by simp_all
    have i': "i < length (fst (flankage X p m))" using i len by simp
    have t': "type' (fst (rearPass X (edgeMatches X p m) (oppositeIndex X p m) (isDoubleFronting X p m)
                 (fst (flankage X p m))) ! i) = Rear
            \<or> type' (fst (rearPass X (edgeMatches X p m) (oppositeIndex X p m) (isDoubleFronting X p m)
                 (fst (flankage X p m))) ! i) = RearLane"
      using t by (simp only: es)
    show "oppositeIndex X p m = Some i \<and> \<not> isDoubleFronting X p m"
      by (rule rearPass_nth[OF i' nr t'])
  qed
  have two: "\<forall>i < length ?es. \<forall>j < length ?es.
      (type' (?es ! i) = Rear \<or> type' (?es ! i) = RearLane) \<and>
      (type' (?es ! j) = Rear \<or> type' (?es ! j) = RearLane) \<longrightarrow> i = j"
  proof (intro allI impI)
    fix i j
    assume "i < length ?es" "j < length ?es"
      and "(type' (?es ! i) = Rear \<or> type' (?es ! i) = RearLane) \<and>
           (type' (?es ! j) = Rear \<or> type' (?es ! j) = RearLane)"
    then have "oppositeIndex X p m = Some i" "oppositeIndex X p m = Some j"
      using one by blast+
    then show "i = j" by simp
  qed
  have three: "isDoubleFronting X p m \<longrightarrow> (\<forall>e \<in> set ?es. type' e \<noteq> Rear \<and> type' e \<noteq> RearLane)"
  proof (intro impI ballI)
    fix e
    assume df: "isDoubleFronting X p m" and e: "e \<in> set ?es"
    then obtain i where "i < length ?es" "e = ?es ! i" by (auto simp: in_set_conv_nth)
    then show "type' e \<noteq> Rear \<and> type' e \<noteq> RearLane" using one df by blast
  qed
  show ?thesis using one two three by blast
qed

theorem rear_only_on_opposite_witness:
  "2 < length (edges (analyzeParcel gridExt oakParcel (Some weakCornerMap))) \<and>
   type' (edges (analyzeParcel gridExt oakParcel (Some weakCornerMap)) ! 2) = RearLane \<and>
   oppositeIndex gridExt oakParcel (Some weakCornerMap) = Some 2 \<and>
   \<not> isDoubleFronting gridExt oakParcel (Some weakCornerMap)"
proof -
  have t: "map type' (edges (analyzeParcel gridExt oakParcel (Some weakCornerMap)))
             = [Frontage, Flankage, RearLane, Side]"
    using weak_result(6) by (simp add: analyzeParcel_def)
  have l: "length (edges (analyzeParcel gridExt oakParcel (Some weakCornerMap))) = 4"
    using arg_cong[OF t, of length] by simp
  have r: "type' (edges (analyzeParcel gridExt oakParcel (Some weakCornerMap)) ! 2) = RearLane"
    using arg_cong[OF t, of "\<lambda>ts. ts ! 2"] l by simp
  have i: "2 < length (edges (analyzeParcel gridExt oakParcel (Some weakCornerMap)))"
    using l by simp
  have "oppositeIndex gridExt oakParcel (Some weakCornerMap) = Some 2 \<and>
        \<not> isDoubleFronting gridExt oakParcel (Some weakCornerMap)"
    using i r rear_only_on_opposite[of gridExt oakParcel "Some weakCornerMap"] by blast
  then show ?thesis using i r by simp
qed

section \<open>A parcel without road candidates\<close>

lemma findEvaluated_Nil:
  "queryRoadCandidatesForEdge X m e = [] \<Longrightarrow> findEvaluatedRoadCandidatesForEdge X m e = []"
  by (simp add: findEvaluatedRoadCandidatesForEdge_def)

lemma matchesOf_defaultLoop_Nil:
  assumes "\<forall>e \<in> set es. queryRoadCandidatesForEdge X m e = []" "\<forall>k. matchesOf em k = []"
  shows "matchesOf (snd (defaultLoop X m es em)) k = []"
  using assms
proof (induction es arbitrary: em)
  case Nil
  then show ?case by simp
next
  case (Cons e es)
  have "\<forall>k. matchesOf (em(index e \<mapsto> findEvaluatedRoadCandidatesForEdge X m e)) k = []"
    using Cons.prems by (simp add: matchesOf_def findEvaluated_Nil)
  then show ?case using Cons.IH Cons.prems(1) by (simp add: Let_def)
qed

lemma noCandidates_matches:
  assumes "noCandidates X p m"
  shows "matchesOf (edgeMatches X p m) k = []"
proof (cases m)
  case None
  then show ?thesis by (simp add: edgeMatches_def defaultPass_def matchesOf_def)
next
  case (Some mp)
  then show ?thesis
    using assms matchesOf_defaultLoop_Nil[of "toRingEdges X (ring p)" X mp Map.empty k]
    by (simp add: edgeMatches_def defaultPass_def noCandidates_def matchesOf_def)
qed

lemma noCandidates_default_fields:
  assumes "noCandidates X p m" "e \<in> set (edgesAfterDefault X p m)"
  shows "roadKind e = None \<and> \<not> isRoadAdjacent e \<and> type' e = Side"
proof (cases m)
  case None
  then show ?thesis using assms(2)
    by (auto simp: edgesAfterDefault_def defaultPass_def toRingEdges_def newEdge_def split: if_splits)
next
  case (Some mp)
  then obtain e0 where e0: "e0 \<in> set (toRingEdges X (ring p))"
    and e: "e = stampDefault X (findEvaluatedRoadCandidatesForEdge X mp e0) e0"
    using assms(2) by (auto simp: edgesAfterDefault_def defaultPass_def fst_defaultLoop)
  have "findEvaluatedRoadCandidatesForEdge X mp e0 = []"
    using assms(1) Some e0 by (simp add: noCandidates_def findEvaluated_Nil)
  then show ?thesis using e e0
    by (auto simp: toRingEdges_def newEdge_def split: if_splits)
qed

lemma select_Nil:
  assumes "\<forall>k. matchesOf em k = []"
  shows "selectNearestEdgeByStreetCandidate es em ns rel mode = None"
proof -
  have c: "candidateFor em ns rel mode e = None" for e
    using assms by (simp add: candidateFor_def Let_def firstAdjacentStreetByName_def)
  have "foldl (selectStep em ns rel mode) None xs = None" for xs
    by (induction xs) (simp_all add: selectStep_def c)
  then show ?thesis by (simp add: selectNearestEdgeByStreetCandidate_def)
qed

lemma noCandidates_selection:
  assumes "noCandidates X p m"
  shows "\<not> frontageMatchedByPrimaryStreet X p m"
    and "candidateStreetEdges X p m = []"
    and "frontageIndex X p m = map_option index (longestEdge (edgesAfterDefault X p m))"
proof -
  have n: "\<forall>k. matchesOf (edgeMatches X p m) k = []"
    using noCandidates_matches[OF assms] by simp
  show "\<not> frontageMatchedByPrimaryStreet X p m"
    by (simp add: frontageMatchedByPrimaryStreet_def frontageByPrimaryStreet_def orElseOpt_def
          select_Nil[OF n])
  show "candidateStreetEdges X p m = []"
    using n by (simp add: candidateStreetEdges_def candidateStreetEdgesOf_def hasStreetCandidate_def)
  show "frontageIndex X p m = map_option index (longestEdge (edgesAfterDefault X p m))"
    by (simp add: frontageIndex_def selectFrontage_def frontageByPrimaryStreet_def orElseOpt_def
          select_Nil[OF n] Let_def)
qed

lemma stampFrontage_Nil:
  "matchesOf em (index e) = [] \<Longrightarrow> stampFrontage X em nps e = e \<lparr> type' := Frontage \<rparr>"
  by (simp add: stampFrontage_def Let_def firstAdjacentStreetByName_def orElseOpt_def)

lemma applyFlankage_Nil:
  assumes "\<forall>k. matchesOf em k = []"
  shows "applyFlankage X em fi oi base rel es = (es, 0)"
  using assms by (induction es) (simp_all add: Let_def)

lemma noCandidates_passes:
  assumes "noCandidates X p m"
  shows "edgesAfterFrontage X p m
           = (case frontageIndex X p m of
                None \<Rightarrow> edgesAfterDefault X p m
              | Some fi \<Rightarrow> updateEdge (edgesAfterDefault X p m) fi (\<lambda>e. e \<lparr> type' := Frontage \<rparr>))"
    and "doubleFronting X p m = (edgesAfterFrontage X p m, False)"
    and "flankage X p m = (edgesAfterFrontage X p m, 0, False)"
    and "rear X p m
           = (case oppositeIndex X p m of
                None \<Rightarrow> (edgesAfterFrontage X p m, False)
              | Some oi \<Rightarrow> (updateEdge (edgesAfterFrontage X p m) oi (\<lambda>e. e \<lparr> type' := Rear \<rparr>), False))"
proof -
  have n: "\<forall>k. matchesOf (edgeMatches X p m) k = []"
    using noCandidates_matches[OF assms] by simp
  show f: "edgesAfterFrontage X p m
           = (case frontageIndex X p m of
                None \<Rightarrow> edgesAfterDefault X p m
              | Some fi \<Rightarrow> updateEdge (edgesAfterDefault X p m) fi (\<lambda>e. e \<lparr> type' := Frontage \<rparr>))"
    using n by (simp add: edgesAfterFrontage_def frontagePass_def updateEdge_def stampFrontage_Nil
                  split: option.splits)
  show d: "doubleFronting X p m = (edgesAfterFrontage X p m, False)"
    using n by (simp add: doubleFronting_def doubleFrontingPass_def doubleFrontingCandidate_def
                  split: option.splits)
  show fl: "flankage X p m = (edgesAfterFrontage X p m, 0, False)"
    using n by (simp add: flankage_def flankagePass_def Let_def d applyFlankage_Nil)
  have len: "length (edgesAfterFrontage X p m) = length (ring p) - 1" by (rule stage_lengths)
  show "rear X p m
           = (case oppositeIndex X p m of
                None \<Rightarrow> (edgesAfterFrontage X p m, False)
              | Some oi \<Rightarrow> (updateEdge (edgesAfterFrontage X p m) oi (\<lambda>e. e \<lparr> type' := Rear \<rparr>), False))"
    using n oppositeIndex_range[of X p m] len
    by (simp add: rear_def rearPass_def fl isDoubleFronting_def d edgeAt_def split: option.splits)
qed

lemma longestEdge_map:
  assumes "\<And>e. lengthMeters (f e) = lengthMeters e"
  shows "longestEdge (map f es) = map_option f (longestEdge es)"
proof -
  have "foldl (\<lambda>best current. if lengthMeters current > lengthMeters best then current else best)
          (f b) (map f xs)
        = f (foldl (\<lambda>best current. if lengthMeters current > lengthMeters best then current else best)
               b xs)" for b xs
    by (induction xs arbitrary: b) (simp_all add: assms)
  then show ?thesis by (cases es) (simp_all add: longestEdge_def)
qed

lemma longestEdge_afterDefault:
  "map_option index (longestEdge (edgesAfterDefault X p m))
     = map_option index (longestEdge (toRingEdges X (ring p)))"
proof (cases m)
  case None
  then show ?thesis by (simp add: edgesAfterDefault_def defaultPass_def)
next
  case (Some mp)
  then show ?thesis
    by (simp add: edgesAfterDefault_def defaultPass_def fst_defaultLoop longestEdge_map
          option.map_comp comp_def)
qed

lemma noCandidates_final:
  assumes "noCandidates X p m" "i < length (ring p) - 1"
  shows "type' (finalEdges X p m ! i)
           = (if frontageIndex X p m = Some i then Frontage
              else if oppositeIndex X p m = Some i then Rear else Side)"
    and "roadKind (finalEdges X p m ! i) = None"
proof -
  have l1: "i < length (edgesAfterDefault X p m)" using assms(2) by (simp add: stage_lengths)
  have l2: "i < length (edgesAfterFrontage X p m)" using assms(2) by (simp add: stage_lengths)
  have d: "roadKind (edgesAfterDefault X p m ! i) = None \<and> type' (edgesAfterDefault X p m ! i) = Side"
    using noCandidates_default_fields[OF assms(1), of "edgesAfterDefault X p m ! i"] l1 by simp
  have f: "type' (edgesAfterFrontage X p m ! i) = (if frontageIndex X p m = Some i then Frontage else Side)
           \<and> roadKind (edgesAfterFrontage X p m ! i) = None"
    using d l1 by (auto simp: noCandidates_passes(1)[OF assms(1)] nth_updateEdge split: option.splits)
  have ne: "oppositeIndex X p m = Some i \<Longrightarrow> frontageIndex X p m \<noteq> Some i"
    using oppositeIndex_range[of X p m i] by simp
  show "type' (finalEdges X p m ! i)
           = (if frontageIndex X p m = Some i then Frontage
              else if oppositeIndex X p m = Some i then Rear else Side)"
    using f l2 ne
    by (auto simp: finalEdges_def noCandidates_passes(4)[OF assms(1)] nth_updateEdge split: option.splits)
  show "roadKind (finalEdges X p m ! i) = None"
    using f l2
    by (auto simp: finalEdges_def noCandidates_passes(4)[OF assms(1)] nth_updateEdge split: option.splits)
qed

lemma noCandidates_result:
  assumes "noCandidates X p m"
  shows "fst (lotTypeAndReason X p m) = StandardWithoutLane" and "confidenceOf X p m = Low"
proof -
  have fc: "flankageCount X p m = 0" "\<not> usedRelaxedFlankage X p m" "\<not> isDoubleFronting X p m"
    by (simp_all add: flankageCount_def usedRelaxedFlankage_def isDoubleFronting_def
          noCandidates_passes(2,3)[OF assms])
  have rl: "\<not> usedRelaxedLane X p m"
    by (simp add: usedRelaxedLane_def noCandidates_passes(4)[OF assms] split: option.splits)
  have ln: "\<not> laneDetectedOnOpposite X p m"
  proof (cases "oppositeIndex X p m")
    case None
    then show ?thesis by (simp add: laneDetectedOnOpposite_def oppositeEdge_def edgeAtOpt_def)
  next
    case (Some oi)
    then have "oi < length (ring p) - 1" using oppositeIndex_range[of X p m oi] by simp
    then show ?thesis
      using Some noCandidates_final(2)[OF assms, of oi]
      by (simp add: laneDetectedOnOpposite_def oppositeEdge_def edgeAtOpt_def edgeAt_def stage_lengths)
  qed
  show lt: "fst (lotTypeAndReason X p m) = StandardWithoutLane"
    using fc ln
    by (simp add: lotTypeAndReason_def determineLotType_def hasReliableFlankage_def
          laneDetectedOnOpposite_def split: option.splits)
  show "confidenceOf X p m = Low"
    using fc rl lt noCandidates_selection(1,2)[OF assms]
    by (simp add: confidenceOf_def Let_def)
qed

lemma foldl_longest:
  fixes L :: "'a \<Rightarrow> real"
  shows "\<exists>k < length (b # xs).
     foldl (\<lambda>best current. if L current > L best then current else best) b xs = (b # xs) ! k \<and>
     (\<forall>j < length (b # xs). L ((b # xs) ! j) \<le> L ((b # xs) ! k)) \<and>
     (\<forall>j < k. L ((b # xs) ! j) < L ((b # xs) ! k))"
proof (induction xs rule: rev_induct)
  case Nil
  show ?case by simp
next
  case (snoc x xs)
  let ?f = "\<lambda>best current. if L current > L best then current else best"
  let ?ys = "b # xs"
  obtain k where k: "k < length ?ys" and r: "foldl ?f b xs = ?ys ! k"
    and mx: "\<forall>j < length ?ys. L (?ys ! j) \<le> L (?ys ! k)"
    and fs: "\<forall>j < k. L (?ys ! j) < L (?ys ! k)"
    using snoc.IH by blast
  have app: "b # (xs @ [x]) = ?ys @ [x]" by simp
  show ?case
  proof (cases "L x > L (?ys ! k)")
    case True
    have res: "foldl ?f b (xs @ [x]) = (?ys @ [x]) ! length ?ys"
      using r True by (simp only: foldl_append foldl_Cons foldl_Nil nth_append_length) simp
    have lt: "\<forall>j < length ?ys. L ((?ys @ [x]) ! j) < L ((?ys @ [x]) ! length ?ys)"
    proof (intro allI impI)
      fix j
      assume j: "j < length ?ys"
      then have "L (?ys ! j) \<le> L (?ys ! k)" using mx by blast
      then have "L (?ys ! j) < L x" using True by simp
      moreover have "(?ys @ [x]) ! j = ?ys ! j" using j by (simp only: nth_append if_True)
      moreover have "(?ys @ [x]) ! length ?ys = x" by (simp only: nth_append_length)
      ultimately show "L ((?ys @ [x]) ! j) < L ((?ys @ [x]) ! length ?ys)" by simp
    qed
    have le: "\<forall>j < length (?ys @ [x]). L ((?ys @ [x]) ! j) \<le> L ((?ys @ [x]) ! length ?ys)"
    proof (intro allI impI)
      fix j
      assume "j < length (?ys @ [x])"
      then consider "j < length ?ys" | "j = length ?ys" by fastforce
      then show "L ((?ys @ [x]) ! j) \<le> L ((?ys @ [x]) ! length ?ys)"
        using lt by cases (auto simp: less_imp_le)
    qed
    have "length ?ys < length (?ys @ [x])" by simp
    then show ?thesis unfolding app using res lt le by blast
  next
    case False
    have kk: "(?ys @ [x]) ! k = ?ys ! k" using k by (simp only: nth_append if_True)
    have res: "foldl ?f b (xs @ [x]) = (?ys @ [x]) ! k"
      using r False kk by (simp only: foldl_append foldl_Cons foldl_Nil) simp
    have lt: "\<forall>j < k. L ((?ys @ [x]) ! j) < L ((?ys @ [x]) ! k)"
    proof (intro allI impI)
      fix j
      assume j: "j < k"
      then have "j < length ?ys" using k by simp
      then have "(?ys @ [x]) ! j = ?ys ! j" by (simp only: nth_append if_True)
      then show "L ((?ys @ [x]) ! j) < L ((?ys @ [x]) ! k)" using fs j kk by simp
    qed
    have le: "\<forall>j < length (?ys @ [x]). L ((?ys @ [x]) ! j) \<le> L ((?ys @ [x]) ! k)"
    proof (intro allI impI)
      fix j
      assume "j < length (?ys @ [x])"
      then consider "j < length ?ys" | "j = length ?ys" by fastforce
      then show "L ((?ys @ [x]) ! j) \<le> L ((?ys @ [x]) ! k)"
      proof cases
        case 1
        then have "(?ys @ [x]) ! j = ?ys ! j" by (simp only: nth_append if_True)
        then show ?thesis using mx 1 kk by simp
      next
        case 2
        then have "(?ys @ [x]) ! j = x" by (simp only: nth_append_length)
        then show ?thesis using False kk by simp
      qed
    qed
    have "k < length (?ys @ [x])" using k by simp
    then show ?thesis unfolding app using res lt le by blast
  qed
qed

lemma longestEdge_first:
  assumes "es \<noteq> []"
  shows "\<exists>k < length es. longestEdge es = Some (es ! k) \<and>
     (\<forall>j < length es. lengthMeters (es ! j) \<le> lengthMeters (es ! k)) \<and>
     (\<forall>j < k. lengthMeters (es ! j) < lengthMeters (es ! k))"
proof -
  obtain b xs where es: "es = b # xs" using assms by (cases es) auto
  show ?thesis
    unfolding es using foldl_longest[of b xs lengthMeters] by (simp add: longestEdge_def)
qed

lemma ring_edge_length:
  "j < length (ring p) - 1 \<Longrightarrow> lengthMeters (toRingEdges X (ring p) ! j) = edgeLength X p j"
  by (simp add: toRingEdges_nth newEdge_def edgeLength_def)

lemma firstLongestEdge_unique:
  assumes "firstLongestEdge X p i" "firstLongestEdge X p k"
    and "i < length (ring p) - 1" "k < length (ring p) - 1"
  shows "i = k"
proof (rule ccontr)
  assume "i \<noteq> k"
  then consider "i < k" | "k < i" by linarith
  then show False
  proof cases
    case 1
    then have "edgeLength X p i < edgeLength X p k" using assms(2) by (simp add: firstLongestEdge_def)
    moreover have "edgeLength X p k \<le> edgeLength X p i"
      using assms(1,4) by (simp add: firstLongestEdge_def)
    ultimately show False by simp
  next
    case 2
    then have "edgeLength X p k < edgeLength X p i" using assms(1) by (simp add: firstLongestEdge_def)
    moreover have "edgeLength X p i \<le> edgeLength X p k"
      using assms(2,3) by (simp add: firstLongestEdge_def)
    ultimately show False by simp
  qed
qed

lemma noCandidates_first_longest:
  assumes "noCandidates X p m" "2 \<le> length (ring p)"
  shows "\<exists>k < length (ring p) - 1. frontageIndex X p m = Some k \<and> firstLongestEdge X p k"
proof -
  let ?es = "toRingEdges X (ring p)"
  have len: "length ?es = length (ring p) - 1" by (rule toRingEdges_length)
  then have "?es \<noteq> []" using assms(2) by auto
  then obtain k where k: "k < length ?es" and l: "longestEdge ?es = Some (?es ! k)"
    and mx: "\<forall>j < length ?es. lengthMeters (?es ! j) \<le> lengthMeters (?es ! k)"
    and fs: "\<forall>j < k. lengthMeters (?es ! j) < lengthMeters (?es ! k)"
    using longestEdge_first[of ?es] by blast
  have f: "frontageIndex X p m = Some k"
    using noCandidates_selection(3)[OF assms(1)] longestEdge_afterDefault[of X p m] l
      toRingEdges_index[OF k]
    by simp
  have kr: "k < length (ring p) - 1" using k len by simp
  have "firstLongestEdge X p k"
    unfolding firstLongestEdge_def
  proof (intro conjI ballI)
    fix j
    assume "j \<in> set [0 ..< length (ring p) - 1]"
    then have j: "j < length (ring p) - 1" by simp
    then have "lengthMeters (?es ! j) \<le> lengthMeters (?es ! k)" using mx len by simp
    then show "edgeLength X p j \<le> edgeLength X p k"
      using j kr by (simp add: ring_edge_length)
  next
    fix j
    assume "j \<in> set [0 ..< k]"
    then have j: "j < k" by simp
    then have "lengthMeters (?es ! j) < lengthMeters (?es ! k)" using fs by blast
    moreover have "j < length (ring p) - 1" using j kr by simp
    ultimately show "edgeLength X p j < edgeLength X p k"
      using kr by (simp add: ring_edge_length)
  qed
  then show ?thesis using f kr by blast
qed

lemma noCandidates_frontage:
  assumes "noCandidates X p m" "i < length (ring p) - 1"
  shows "frontageIndex X p m = Some i \<longleftrightarrow> firstLongestEdge X p i"
proof -
  have "2 \<le> length (ring p)" using assms(2) by simp
  then obtain k where k: "k < length (ring p) - 1" and f: "frontageIndex X p m = Some k"
    and l: "firstLongestEdge X p k"
    using noCandidates_first_longest[OF assms(1)] by blast
  show ?thesis
  proof
    assume "frontageIndex X p m = Some i"
    then show "firstLongestEdge X p i" using f l by simp
  next
    assume "firstLongestEdge X p i"
    then have "i = k" using l assms(2) k by (rule firstLongestEdge_unique)
    then show "frontageIndex X p m = Some i" using f by simp
  qed
qed

text \<open>
  C2 (as amended).  For a parcel for which no edge has a road candidate, analyzeParcel returns
  the lot type \<open>StandardWithoutLane\<close> and the confidence \<open>Low\<close>.  The longest edge (the first
  of them in ring order) has type \<open>Frontage\<close>, the identified opposite edge has type \<open>Rear\<close>,
  and every other edge has type \<open>Side\<close>; a ring of two or more points has a longest edge.
\<close>

theorem no_candidates_analysis:
  assumes "noCandidates X p m"
  shows "lotType (analyzeParcel X p m) = StandardWithoutLane \<and>
         confidence (analyzeParcel X p m) = Low \<and>
         length (edges (analyzeParcel X p m)) = length (ring p) - 1 \<and>
         (\<forall>i < length (ring p) - 1.
            type' (edges (analyzeParcel X p m) ! i)
              = (if firstLongestEdge X p i then Frontage
                 else if oppositeIndex X p m = Some i then Rear else Side)) \<and>
         (2 \<le> length (ring p) \<longrightarrow> (\<exists>i < length (ring p) - 1. firstLongestEdge X p i))"
proof -
  have ty: "\<forall>i < length (ring p) - 1.
      type' (edges (analyzeParcel X p m) ! i)
        = (if firstLongestEdge X p i then Frontage
           else if oppositeIndex X p m = Some i then Rear else Side)"
    using noCandidates_final(1)[OF assms] noCandidates_frontage[OF assms]
    by (simp add: analyzeParcel_def)
  have ex: "2 \<le> length (ring p) \<longrightarrow> (\<exists>i < length (ring p) - 1. firstLongestEdge X p i)"
    using noCandidates_first_longest[OF assms] by blast
  show ?thesis
    using noCandidates_result[OF assms] ty ex by (simp add: analyzeParcel_def stage_lengths)
qed

lemma empty_noCandidates: "noCandidates gridExt oakParcel (Some emptyMap)"
  by (simp add: noCandidates_def queryRoadCandidatesForEdge_def emptyMap_def testMap_def
        uniqueCandidates_def)

lemma empty_frontage: "frontageIndex gridExt oakParcel (Some emptyMap) = Some 0"
  by (simp add: noCandidates_selection(3)[OF empty_noCandidates] longestEdge_afterDefault oak_ring
        test_longest)

lemma empty_opposite: "oppositeIndex gridExt oakParcel (Some emptyMap) = Some 2"
  by (simp add: oppositeIndex_geometry empty_frontage oak_ring test_opposite)

lemma oak_ring_length: "length (ring oakParcel) = 5"
  by (simp add: oakParcel_def ring_def testParcel_def testRing_def)

text \<open>
  The parcel with its ring started at the south-east corner: the edges are 33.4 m, 44.5 m,
  33.4 m and 44.5 m long, edge 1 is the first longest edge and edge 3 lies opposite to it.
\<close>

lemma turned_noCandidates: "noCandidates gridExt turnedParcel (Some emptyMap)"
  by (simp add: noCandidates_def queryRoadCandidatesForEdge_def emptyMap_def testMap_def
        uniqueCandidates_def)

lemma turned_ring_length: "length (ring turnedParcel) = 5"
  by (simp add: turnedParcel_def ring_def)

lemma turned_lengths:
  "map (edgeLength gridExt turnedParcel) [0, 1, 2, 3] = [33.3585, 44.478, 33.3585, 44.478]"
  by code_simp

lemma turned_longest:
  "map (firstLongestEdge gridExt turnedParcel) [0, 1, 2, 3] = [False, True, False, False]"
  by code_simp

lemma turned_frontage: "frontageIndex gridExt turnedParcel (Some emptyMap) = Some 1"
  using noCandidates_frontage[OF turned_noCandidates, of 1] turned_longest
  by (simp add: turned_ring_length)

lemma turned_opposite_edge:
  "findOppositeEdgeIndex gridExt (toRingEdges gridExt (ring turnedParcel)) 1 = Some 3"
  by code_simp

lemma turned_opposite: "oppositeIndex gridExt turnedParcel (Some emptyMap) = Some 3"
  by (simp only: oppositeIndex_geometry turned_frontage option.case turned_opposite_edge)

theorem no_candidates_analysis_witness:
  "noCandidates gridExt turnedParcel (Some emptyMap) \<and>
   lotType (analyzeParcel gridExt turnedParcel (Some emptyMap)) = StandardWithoutLane \<and>
   confidence (analyzeParcel gridExt turnedParcel (Some emptyMap)) = Low \<and>
   length (edges (analyzeParcel gridExt turnedParcel (Some emptyMap))) = 4 \<and>
   map (edgeLength gridExt turnedParcel) [0, 1, 2, 3] = [33.3585, 44.478, 33.3585, 44.478] \<and>
   map (firstLongestEdge gridExt turnedParcel) [0, 1, 2, 3] = [False, True, False, False] \<and>
   oppositeIndex gridExt turnedParcel (Some emptyMap) = Some 3 \<and>
   type' (edges (analyzeParcel gridExt turnedParcel (Some emptyMap)) ! 0) = Side \<and>
   type' (edges (analyzeParcel gridExt turnedParcel (Some emptyMap)) ! 1) = Frontage \<and>
   type' (edges (analyzeParcel gridExt turnedParcel (Some emptyMap)) ! 2) = Side \<and>
   type' (edges (analyzeParcel gridExt turnedParcel (Some emptyMap)) ! 3) = Rear"
proof -
  note th = no_candidates_analysis[OF turned_noCandidates]
  have lt: "lotType (analyzeParcel gridExt turnedParcel (Some emptyMap)) = StandardWithoutLane"
    and co: "confidence (analyzeParcel gridExt turnedParcel (Some emptyMap)) = Low"
    and le: "length (edges (analyzeParcel gridExt turnedParcel (Some emptyMap)))
               = length (ring turnedParcel) - 1"
    and ty: "\<forall>i < length (ring turnedParcel) - 1.
               type' (edges (analyzeParcel gridExt turnedParcel (Some emptyMap)) ! i)
                 = (if firstLongestEdge gridExt turnedParcel i then Frontage
                    else if oppositeIndex gridExt turnedParcel (Some emptyMap) = Some i then Rear
                    else Side)"
    using th by blast+
  have fl: "\<not> firstLongestEdge gridExt turnedParcel 0" "firstLongestEdge gridExt turnedParcel 1"
    "\<not> firstLongestEdge gridExt turnedParcel 2" "\<not> firstLongestEdge gridExt turnedParcel 3"
    using turned_longest by simp_all
  have i0: "0 < length (ring turnedParcel) - 1" and i1: "1 < length (ring turnedParcel) - 1"
    and i2: "2 < length (ring turnedParcel) - 1" and i3: "3 < length (ring turnedParcel) - 1"
    by (simp_all add: turned_ring_length)
  have t0: "type' (edges (analyzeParcel gridExt turnedParcel (Some emptyMap)) ! 0) = Side"
    using ty[rule_format, OF i0] fl by (simp add: turned_opposite)
  have t1: "type' (edges (analyzeParcel gridExt turnedParcel (Some emptyMap)) ! 1) = Frontage"
    using ty[rule_format, OF i1] fl by simp
  have t2: "type' (edges (analyzeParcel gridExt turnedParcel (Some emptyMap)) ! 2) = Side"
    using ty[rule_format, OF i2] fl by (simp add: turned_opposite)
  have t3: "type' (edges (analyzeParcel gridExt turnedParcel (Some emptyMap)) ! 3) = Rear"
    using ty[rule_format, OF i3] fl by (simp add: turned_opposite)
  have l4: "length (edges (analyzeParcel gridExt turnedParcel (Some emptyMap))) = 4"
    using le by (simp add: turned_ring_length)
  show ?thesis
    using turned_noCandidates lt co l4 turned_lengths turned_longest turned_opposite t0 t1 t2 t3
    by blast
qed

text \<open>
  Without any line feature the longest edge of the test parcel still becomes the frontage and
  the edge opposite to it the rear: not every edge has type \<open>Side\<close>.
\<close>

theorem no_candidates_all_side_counterexample:
  "noCandidates gridExt oakParcel (Some emptyMap) \<and>
   length (edges (analyzeParcel gridExt oakParcel (Some emptyMap))) = 4 \<and>
   type' (edges (analyzeParcel gridExt oakParcel (Some emptyMap)) ! 0) = Frontage \<and>
   type' (edges (analyzeParcel gridExt oakParcel (Some emptyMap)) ! 2) = Rear"
  using empty_noCandidates oak_ring_length
    noCandidates_final(1)[OF empty_noCandidates, of 0]
    noCandidates_final(1)[OF empty_noCandidates, of 2]
  by (simp add: analyzeParcel_def stage_lengths empty_frontage empty_opposite)

section \<open>Confidence\<close>

lemma doubleFronting_candidate:
  assumes "isDoubleFronting X p m"
  shows "\<exists>oi. oppositeIndex X p m = Some oi \<and>
           firstAdjacentStreet (matchesOf (edgeMatches X p m) oi) True FrontageMode \<noteq> None"
proof -
  obtain oi where oi: "oppositeIndex X p m = Some oi"
    using assms by (auto simp: isDoubleFronting_def doubleFronting_def doubleFrontingPass_def
                      split: option.splits)
  have r: "oi < length (ring p) - 1" using oppositeIndex_range[OF oi] by simp
  have ix: "index (edgesAfterFrontage X p m ! oi) = oi"
    using index_nth[OF stage_indices(2) r] .
  have "doubleFrontingCandidate (edgeMatches X p m)
          (frontageStreetOf (edgesAfterFrontage X p m) (frontageIndex X p m) (normalizedPrimaryStreet p))
          (edgeAtOpt (edgesAfterFrontage X p m) (frontageIndex X p m))
          (edgeAt (edgesAfterFrontage X p m) oi) \<noteq> None"
    using assms oi by (auto simp: isDoubleFronting_def doubleFronting_def doubleFrontingPass_def
                         split: option.splits)
  then have "firstAdjacentStreet (matchesOf (edgeMatches X p m) oi) True FrontageMode \<noteq> None"
    using r ix
    by (auto simp: doubleFrontingCandidate_def edgeAt_def stage_lengths Let_def
          split: option.splits if_splits)
  then show ?thesis using oi by blast
qed





section \<open>Lot type: corner lot and flankage\<close>

lemma applyFlankage_skip:
  assumes "i < length es" "Some (index (es ! i)) = fi \<or> Some (index (es ! i)) = oi"
  shows "fst (applyFlankage X em fi oi base rel es) ! i = es ! i"
  using assms
proof (induction es arbitrary: i)
  case Nil
  then show ?case by simp
next
  case (Cons e es)
  show ?case
  proof (cases i)
    case 0
    then show ?thesis using Cons.prems by (auto simp: Let_def)
  next
    case (Suc j)
    then show ?thesis using Cons.prems Cons.IH[of j] by (auto simp: Let_def split: option.splits)
  qed
qed

lemma applyFlankage_count:
  assumes "\<forall>e \<in> set es. type' e \<noteq> Flankage"
  shows "snd (applyFlankage X em fi oi base rel es)
           = length (filter (\<lambda>e. type' e = Flankage) (fst (applyFlankage X em fi oi base rel es)))"
  using assms by (induction es) (auto simp: Let_def split: option.splits)

lemma applyFlankage_zero:
  "snd (applyFlankage X em fi oi base rel es) = 0 \<Longrightarrow> fst (applyFlankage X em fi oi base rel es) = es"
  by (induction es) (auto simp: Let_def split: option.splits if_splits)

lemma flankagePass_skip:
  assumes "i < length es" "Some (index (es ! i)) = fi \<or> Some (index (es ! i)) = oi"
  shows "fst (flankagePass X em nps fi oi es) ! i = es ! i"
  using assms applyFlankage_skip[of i es fi oi]
  by (auto simp: flankagePass_def Let_def applyFlankage_zero)

lemma flankagePass_count:
  assumes "\<forall>e \<in> set es. type' e \<noteq> Flankage"
  shows "fst (snd (flankagePass X em nps fi oi es))
           = length (filter (\<lambda>e. type' e = Flankage) (fst (flankagePass X em nps fi oi es)))"
proof -
  let ?base = "frontageStreetOf es fi nps"
  let ?s = "applyFlankage X em fi oi ?base False es"
  let ?r = "applyFlankage X em fi oi ?base True es"
  show ?thesis
  proof (cases "snd ?s = 0")
    case True
    then have "fst ?s = es" by (rule applyFlankage_zero)
    then show ?thesis
      using True applyFlankage_count[OF assms, of X em fi oi ?base True]
      by (auto simp: flankagePass_def Let_def)
  next
    case False
    then show ?thesis
      using applyFlankage_count[OF assms, of X em fi oi ?base False]
      by (auto simp: flankagePass_def Let_def)
  qed
qed

lemma types_afterDoubleFronting:
  "e \<in> set (fst (doubleFronting X p m)) \<Longrightarrow> type' e = Side \<or> type' e = Frontage"
  unfolding doubleFronting_def edgesAfterFrontage_def
  by (auto dest!: types_doubleFrontingPass types_frontagePass types_afterDefault)

lemma flankage_at_opposite:
  assumes "oppositeIndex X p m = Some k"
  shows "fst (flankage X p m) ! k = fst (doubleFronting X p m) ! k"
proof -
  have r: "k < length (ring p) - 1" using oppositeIndex_range[OF assms] by simp
  have ix: "index (fst (doubleFronting X p m) ! k) = k" using index_nth[OF stage_indices(3) r] .
  show ?thesis
    unfolding flankage_def
    using r by (intro flankagePass_skip) (simp_all add: stage_lengths ix assms)
qed

lemma length_filter_update:
  assumes "i < length es" "\<not> P (es ! i)" "\<not> P x"
  shows "length (filter P (es[i := x])) = length (filter P es)"
  using assms
proof (induction es arbitrary: i)
  case Nil
  then show ?case by simp
next
  case (Cons e es)
  then show ?case by (cases i) auto
qed

lemma flankage_not_at_opposite:
  assumes "oppositeIndex X p m = Some k"
  shows "type' (fst (flankage X p m) ! k) \<noteq> Flankage"
proof -
  have r: "k < length (ring p) - 1" using oppositeIndex_range[OF assms] by simp
  have "fst (doubleFronting X p m) ! k \<in> set (fst (doubleFronting X p m))"
    using r by (simp add: stage_lengths)
  then show ?thesis
    using types_afterDoubleFronting[of "fst (doubleFronting X p m) ! k" X p m]
    by (auto simp: flankage_at_opposite[OF assms])
qed

lemma flankageCount_final:
  "flankageCount X p m = length (filter (\<lambda>e. type' e = Flankage) (finalEdges X p m))"
proof -
  have nf: "\<forall>e \<in> set (fst (doubleFronting X p m)). type' e \<noteq> Flankage"
    using types_afterDoubleFronting by fastforce
  have c: "flankageCount X p m = length (filter (\<lambda>e. type' e = Flankage) (fst (flankage X p m)))"
    unfolding flankageCount_def flankage_def by (rule flankagePass_count[OF nf])
  show ?thesis
  proof (cases "oppositeIndex X p m")
    case None
    then show ?thesis using c by (simp add: finalEdges_def rear_def rearPass_def)
  next
    case (Some k)
    have r: "k < length (fst (flankage X p m))"
      using oppositeIndex_range[OF Some] by (simp add: stage_lengths)
    have n: "type' (fst (flankage X p m) ! k) \<noteq> Flankage" by (rule flankage_not_at_opposite[OF Some])
    show ?thesis
      using c Some r n
      by (auto simp: finalEdges_def rear_def rearPass_def edgeAt_def updateEdge_def
            length_filter_update split: option.splits)
  qed
qed

lemma doubleFronting_no_lane:
  assumes "isDoubleFronting X p m"
  shows "\<not> laneDetectedOnOpposite X p m"
proof -
  obtain k where k: "oppositeIndex X p m = Some k"
    using doubleFronting_candidate[OF assms] by blast
  have r: "k < length (ring p) - 1" using oppositeIndex_range[OF k] by simp
  have "roadKind (fst (doubleFronting X p m) ! k) = Some Street"
    using assms k r
    by (auto simp: isDoubleFronting_def doubleFronting_def doubleFrontingPass_def nth_updateEdge
          stage_lengths split: option.splits)
  then have "roadKind (fst (flankage X p m) ! k) = Some Street"
    by (simp add: flankage_at_opposite[OF k])
  moreover have "finalEdges X p m = fst (flankage X p m)"
    using assms k by (auto simp: finalEdges_def rear_def rearPass_def split: option.splits)
  ultimately show ?thesis
    using k r by (simp add: laneDetectedOnOpposite_def oppositeEdge_def edgeAtOpt_def edgeAt_def
                    stage_lengths)
qed

text \<open>
  C1 (as amended).  The flankage count is the number of edges of type \<open>Flankage\<close> in the
  result.  When it is positive, analyzeParcel returns the lot type \<open>CornerLot\<close>, with or without
  a lane on the opposite edge, unless the flankage was found by the relaxed pass only and a
  lane was detected on the opposite edge; in that case it returns \<open>StandardWithLane\<close>.
\<close>

theorem corner_lot_priority:
  "flankageCount X p m = length (filter (\<lambda>e. type' e = Flankage) (edges (analyzeParcel X p m))) \<and>
   (0 < flankageCount X p m \<and> \<not> (usedRelaxedFlankage X p m \<and> laneDetectedOnOpposite X p m)
      \<longrightarrow> lotType (analyzeParcel X p m) = CornerLot) \<and>
   (0 < flankageCount X p m \<and> usedRelaxedFlankage X p m \<and> laneDetectedOnOpposite X p m
      \<longrightarrow> lotType (analyzeParcel X p m) = StandardWithLane)"
proof -
  have a: "flankageCount X p m = length (filter (\<lambda>e. type' e = Flankage) (edges (analyzeParcel X p m)))"
    using flankageCount_final[of X p m] by (simp add: analyzeParcel_def)
  have b: "0 < flankageCount X p m \<and> \<not> (usedRelaxedFlankage X p m \<and> laneDetectedOnOpposite X p m)
      \<longrightarrow> lotType (analyzeParcel X p m) = CornerLot"
    by (simp add: analyzeParcel_def lotTypeAndReason_def determineLotType_def hasReliableFlankage_def)
  have c: "0 < flankageCount X p m \<and> usedRelaxedFlankage X p m \<and> laneDetectedOnOpposite X p m
      \<longrightarrow> lotType (analyzeParcel X p m) = StandardWithLane"
    using doubleFronting_no_lane[of X p m]
    by (auto simp: analyzeParcel_def lotTypeAndReason_def determineLotType_def hasReliableFlankage_def
          laneDetectedOnOpposite_def split: option.splits)
  show ?thesis using a b c by blast
qed

theorem corner_lot_priority_witness:
  "0 < flankageCount gridExt oakParcel (Some cornerMap) \<and>
   \<not> usedRelaxedFlankage gridExt oakParcel (Some cornerMap) \<and>
   laneDetectedOnOpposite gridExt oakParcel (Some cornerMap) \<and>
   lotType (analyzeParcel gridExt oakParcel (Some cornerMap)) = CornerLot \<and>
   0 < flankageCount gridExt oakParcel (Some weakCornerMap) \<and>
   usedRelaxedFlankage gridExt oakParcel (Some weakCornerMap) \<and>
   laneDetectedOnOpposite gridExt oakParcel (Some weakCornerMap) \<and>
   lotType (analyzeParcel gridExt oakParcel (Some weakCornerMap)) = StandardWithLane"
  using corner_result(1,2,5) weak_result(1,2,5)
    corner_lot_priority[of gridExt oakParcel "Some cornerMap"]
    corner_lot_priority[of gridExt oakParcel "Some weakCornerMap"]
  by simp

text \<open>
  With Elm Avenue 22.2 m east of the parcel the east edge becomes a flankage in the relaxed
  pass, and the lane on the opposite edge is detected: the flankage count is 1 and the lot type
  is \<open>StandardWithLane\<close>, not \<open>CornerLot\<close>.
\<close>

theorem flankage_with_lane_counterexample:
  "flankageCount gridExt oakParcel (Some weakCornerMap) = 1 \<and>
   map type' (edges (analyzeParcel gridExt oakParcel (Some weakCornerMap)))
     = [Frontage, Flankage, RearLane, Side] \<and>
   lotType (analyzeParcel gridExt oakParcel (Some weakCornerMap)) = StandardWithLane \<and>
   lotType (analyzeParcel gridExt oakParcel (Some weakCornerMap)) \<noteq> CornerLot"
  using weak_result(1,6) weak_lotType(1) by (simp add: analyzeParcel_def)

end
